theory Spec2Isabelle
  imports Main "HOL-Library.Word"
begin

section \<open>JavaScript strings, bytes and their codings\<close>

text \<open>
  A value of TypeScript type \<open>T | null | undefined\<close> is a \<open>nullable\<close>; \<open>falsy\<close> is the
  test \<open>!v\<close> on a nullable string, which holds for \<open>null\<close>, \<open>undefined\<close> and the empty
  string.

  Strings that the program only compares, concatenates, trims or passes on (identifiers,
  messages, SQL text, hexadecimal ciphertext) are HOL strings. Strings whose UTF-8 coding
  the program depends on, the plaintext of a secret and the encryption key, are lists of
  UTF-16 code units (\<open>jstext\<close>), as JavaScript has them; \<open>ascii\<close> embeds a HOL string.
\<close>

datatype 'a nullable = Null | Undefined | Str 'a

type_synonym jsstr = "string nullable"

fun falsy :: "'a list nullable \<Rightarrow> bool" where
  "falsy Null = True"
| "falsy Undefined = True"
| "falsy (Str s) = (s = [])"

type_synonym byte = "8 word"

type_synonym jstext = "16 word list"

definition ascii :: "string \<Rightarrow> jstext" where
  "ascii s = map (\<lambda>c. of_nat (of_char c)) s"

subsection \<open>UTF-8\<close>

text \<open>
  The coding is written on numbers: code units below \<open>2^16\<close> and bytes below \<open>2^8\<close>.
  Encoding a JavaScript string to UTF-8 pairs a high surrogate with the low surrogate that
  follows it and replaces every other surrogate by \<open>U+FFFD\<close>. \<open>well_formed_units\<close> is
  \<open>String.prototype.toWellFormed\<close> and \<open>is_well_formed_units\<close> is \<open>isWellFormed\<close>.
  \<open>units_of_utf8\<close> decodes well-formed UTF-8 (shortest form, no surrogate code points, at
  most \<open>U+10FFFF\<close>) and gives \<open>None\<close> on anything else.
\<close>

definition is_high_surrogate :: "nat \<Rightarrow> bool" where
  "is_high_surrogate u \<longleftrightarrow> 0xD800 \<le> u \<and> u \<le> 0xDBFF"

definition is_low_surrogate :: "nat \<Rightarrow> bool" where
  "is_low_surrogate u \<longleftrightarrow> 0xDC00 \<le> u \<and> u \<le> 0xDFFF"

definition is_surrogate :: "nat \<Rightarrow> bool" where
  "is_surrogate u \<longleftrightarrow> 0xD800 \<le> u \<and> u \<le> 0xDFFF"

definition utf8_of_scalar :: "nat \<Rightarrow> nat list" where
  "utf8_of_scalar cp =
     (if cp < 0x80 then [cp]
      else if cp < 0x800 then [0xC0 + cp div 64, 0x80 + cp mod 64]
      else if cp < 0x10000 then
        [0xE0 + cp div 4096, 0x80 + (cp div 64) mod 64, 0x80 + cp mod 64]
      else [0xF0 + cp div 262144, 0x80 + (cp div 4096) mod 64,
            0x80 + (cp div 64) mod 64, 0x80 + cp mod 64])"

fun utf8_of_units :: "nat list \<Rightarrow> nat list" where
  "utf8_of_units [] = []"
| "utf8_of_units [u] = utf8_of_scalar (if is_surrogate u then 0xFFFD else u)"
| "utf8_of_units (u # v # us) =
     (if is_high_surrogate u \<and> is_low_surrogate v
        then utf8_of_scalar (0x10000 + (u - 0xD800) * 1024 + (v - 0xDC00)) @ utf8_of_units us
      else utf8_of_scalar (if is_surrogate u then 0xFFFD else u) @ utf8_of_units (v # us))"

fun well_formed_units :: "nat list \<Rightarrow> nat list" where
  "well_formed_units [] = []"
| "well_formed_units [u] = [if is_surrogate u then 0xFFFD else u]"
| "well_formed_units (u # v # us) =
     (if is_high_surrogate u \<and> is_low_surrogate v then u # v # well_formed_units us
      else (if is_surrogate u then 0xFFFD else u) # well_formed_units (v # us))"

fun is_well_formed_units :: "nat list \<Rightarrow> bool" where
  "is_well_formed_units [] = True"
| "is_well_formed_units [u] = (\<not> is_surrogate u)"
| "is_well_formed_units (u # v # us) =
     (if is_high_surrogate u \<and> is_low_surrogate v then is_well_formed_units us
      else \<not> is_surrogate u \<and> is_well_formed_units (v # us))"

definition is_continuation :: "nat \<Rightarrow> bool" where
  "is_continuation b \<longleftrightarrow> 0x80 \<le> b \<and> b \<le> 0xBF"

fun units_of_utf8 :: "nat list \<Rightarrow> nat list option" where
  "units_of_utf8 [] = Some []"
| "units_of_utf8 (b0 # bs) =
     (if b0 < 0x80 then map_option (\<lambda>us. b0 # us) (units_of_utf8 bs)
      else if 0xC2 \<le> b0 \<and> b0 \<le> 0xDF then
        (case bs of
           b1 # r \<Rightarrow>
             if is_continuation b1
               then map_option (\<lambda>us. ((b0 - 0xC0) * 64 + (b1 - 0x80)) # us) (units_of_utf8 r)
             else None
         | _ \<Rightarrow> None)
      else if 0xE0 \<le> b0 \<and> b0 \<le> 0xEF then
        (case bs of
           b1 # b2 # r \<Rightarrow>
             (let cp = (b0 - 0xE0) * 4096 + (b1 - 0x80) * 64 + (b2 - 0x80) in
              if is_continuation b1 \<and> is_continuation b2 \<and> 0x800 \<le> cp \<and> \<not> is_surrogate cp
                then map_option (\<lambda>us. cp # us) (units_of_utf8 r)
              else None)
         | _ \<Rightarrow> None)
      else if 0xF0 \<le> b0 \<and> b0 \<le> 0xF4 then
        (case bs of
           b1 # b2 # b3 # r \<Rightarrow>
             (let cp = (b0 - 0xF0) * 262144 + (b1 - 0x80) * 4096 + (b2 - 0x80) * 64 + (b3 - 0x80) in
              if is_continuation b1 \<and> is_continuation b2 \<and> is_continuation b3 \<and>
                 0x10000 \<le> cp \<and> cp \<le> 0x10FFFF
                then map_option (\<lambda>us. (0xD800 + (cp - 0x10000) div 1024) #
                                        (0xDC00 + (cp - 0x10000) mod 1024) # us)
                       (units_of_utf8 r)
              else None)
         | _ \<Rightarrow> None)
      else None)"

text \<open>\<open>Buffer.from(s)\<close> and the \<open>"utf8"\<close> input coding of a cipher: the UTF-8 bytes.\<close>

definition utf8_encode :: "jstext \<Rightarrow> byte list" where
  "utf8_encode s = map of_nat (utf8_of_units (map unat s))"

definition utf8_decode_strict :: "byte list \<Rightarrow> jstext option" where
  "utf8_decode_strict bs = map_option (map of_nat) (units_of_utf8 (map unat bs))"

definition toWellFormed :: "jstext \<Rightarrow> jstext" where
  "toWellFormed s = map of_nat (well_formed_units (map unat s))"

definition isWellFormed :: "jstext \<Rightarrow> bool" where
  "isWellFormed s = is_well_formed_units (map unat s)"

subsection \<open>Hexadecimal and splitting\<close>

text \<open>\<open>buf.toString("hex")\<close>: two lower-case hexadecimal digits per byte.\<close>

definition hexdigit :: "nat \<Rightarrow> char" where
  "hexdigit n = ''0123456789abcdef'' ! n"

fun to_hex :: "byte list \<Rightarrow> string" where
  "to_hex [] = []"
| "to_hex (b # bs) = hexdigit (unat b div 16) # hexdigit (unat b mod 16) # to_hex bs"

text \<open>
  \<open>Buffer.from(s, "hex")\<close>: pairs of hexadecimal digits (either case) are decoded until
  the first pair that is not hexadecimal; a trailing single character is dropped.
\<close>

definition hexval :: "char \<Rightarrow> nat option" where
  "hexval c =
     (let n = (of_char c :: nat) in
      if 48 \<le> n \<and> n \<le> 57 then Some (n - 48)
      else if 97 \<le> n \<and> n \<le> 102 then Some (n - 87)
      else if 65 \<le> n \<and> n \<le> 70 then Some (n - 55)
      else None)"

fun from_hex :: "string \<Rightarrow> byte list" where
  "from_hex (a # b # cs) =
     (case hexval a of
        None \<Rightarrow> []
      | Some h \<Rightarrow> (case hexval b of
                     None \<Rightarrow> []
                   | Some l \<Rightarrow> of_nat (16 * h + l) # from_hex cs))"
| "from_hex _ = []"

text \<open>\<open>s.split(c)\<close> for a one-character separator; the result is never empty.\<close>

fun js_split :: "char \<Rightarrow> string \<Rightarrow> string list" where
  "js_split c [] = [[]]"
| "js_split c (x # xs) =
     (if x = c then [] # js_split c xs
      else (case js_split c xs of
              [] \<Rightarrow> [[x]]
            | p # ps \<Rightarrow> (x # p) # ps))"

text \<open>A number in decimal, as a template string prints it.\<close>

function decimal :: "nat \<Rightarrow> string" where
  "decimal n = (if n < 10 then [hexdigit n] else decimal (n div 10) @ [hexdigit (n mod 10)])"
  by pat_completeness auto
termination
  by (relation "measure id") auto

declare decimal.simps [simp del]

section \<open>Secret cipher (encryption module)\<close>

text \<open>
  The module calls Node's \<open>crypto\<close> library, which is not part of the repository. What the
  module relies on is modelled as follows.
  \<^item> \<open>sha256\<close> is the SHA-256 digest of a byte sequence, a parameter.
  \<^item> \<open>createCipheriv\<close> and \<open>createDecipheriv\<close> for \<open>aes-256-cbc\<close> throw unless the key
    has 32 bytes and the IV has 16; \<open>cipher_check\<close> gives the message of that error.
  \<^item> \<open>cipher_run key iv bytes\<close> and \<open>decipher_run key iv bytes\<close> are the block cipher
    itself (\<open>update\<close> followed by \<open>final\<close>), parameters; \<open>Inl\<close> is the message of a throw.
  \<^item> The \<open>"utf8"\<close> input coding is \<open>utf8_encode\<close>. The \<open>"utf8"\<close> output coding decodes
    well-formed UTF-8 as \<open>utf8_decode_strict\<close> does; where it puts replacement
    characters in ill-formed bytes is left to the parameter \<open>utf8_replace\<close>.
  \<^item> \<open>update(data, "hex", ...)\<close> throws on a string of odd length.
  \<open>ENCRYPTION_KEY\<close> is the environment variable of that name.
\<close>

record crypto_env =
  ENCRYPTION_KEY :: "jstext option"
  sha256 :: "byte list \<Rightarrow> byte list"
  cipher_run :: "byte list \<Rightarrow> byte list \<Rightarrow> byte list \<Rightarrow> string + byte list"
  decipher_run :: "byte list \<Rightarrow> byte list \<Rightarrow> byte list \<Rightarrow> string + byte list"
  utf8_replace :: "byte list \<Rightarrow> jstext"

definition IV_LENGTH :: nat where "IV_LENGTH = 16"
definition KEY_LENGTH :: nat where "KEY_LENGTH = 32"

definition cipher_check :: "byte list \<Rightarrow> byte list \<Rightarrow> string option" where
  "cipher_check key iv =
     (if length key \<noteq> 32 then Some ''Invalid key length''
      else if length iv \<noteq> 16 then Some ''Invalid initialization vector''
      else None)"

definition utf8_decode :: "crypto_env \<Rightarrow> byte list \<Rightarrow> jstext" where
  "utf8_decode E bs = (case utf8_decode_strict bs of Some s \<Rightarrow> s | None \<Rightarrow> utf8_replace E bs)"

text \<open>
  Errors are the message of the thrown \<open>Error\<close>. For a key shorter than 32 characters the
  key buffer is the first 32 characters of the hexadecimal SHA-256 digest of the key;
  otherwise it is the UTF-8 coding of the key's first 32 code units.
\<close>

definition getEncryptionKey :: "crypto_env \<Rightarrow> string + byte list" where
  "getEncryptionKey E =
     (case ENCRYPTION_KEY E of
        None \<Rightarrow> Inl ''ENCRYPTION_KEY environment variable is not set''
      | Some key \<Rightarrow>
          if key = [] then Inl ''ENCRYPTION_KEY environment variable is not set''
          else if length key < KEY_LENGTH
            then Inr (utf8_encode (ascii (take KEY_LENGTH (to_hex (sha256 E (utf8_encode key))))))
          else Inr (utf8_encode (take KEY_LENGTH key)))"

text \<open>\<open>encrypt\<close>; the second argument is the value drawn by \<open>crypto.randomBytes(IV_LENGTH)\<close>.\<close>

definition encrypt :: "crypto_env \<Rightarrow> byte list \<Rightarrow> jstext \<Rightarrow> string + string" where
  "encrypt E iv text =
     (case getEncryptionKey E of
        Inl msg \<Rightarrow> Inl (''Encryption failed: '' @ msg)
      | Inr key \<Rightarrow>
          (case cipher_check key iv of
             Some msg \<Rightarrow> Inl (''Encryption failed: '' @ msg)
           | None \<Rightarrow>
               (case cipher_run E key iv (utf8_encode text) of
                  Inl msg \<Rightarrow> Inl (''Encryption failed: '' @ msg)
                | Inr encrypted \<Rightarrow> Inr (to_hex iv @ '':'' @ to_hex encrypted))))"

definition decrypt :: "crypto_env \<Rightarrow> string \<Rightarrow> string + jstext" where
  "decrypt E hash =
     (case getEncryptionKey E of
        Inl msg \<Rightarrow> Inl (''Decryption failed: '' @ msg)
      | Inr key \<Rightarrow>
          (case js_split CHR '':'' hash of
             ivHex # encryptedData # _ \<Rightarrow>
               if ivHex = [] \<or> encryptedData = []
                 then Inl ''Decryption failed: Invalid encrypted data format''
               else (case cipher_check key (from_hex ivHex) of
                       Some msg \<Rightarrow> Inl (''Decryption failed: '' @ msg)
                     | None \<Rightarrow>
                         if odd (length encryptedData)
                           then Inl (''Decryption failed: The argument '' @ [CHR 0x27] @
                                     ''encoding'' @ [CHR 0x27] @
                                     '' is invalid for data of length '' @
                                     decimal (length encryptedData) @ ''. Received '' @
                                     [CHR 0x27] @ ''hex'' @ [CHR 0x27])
                         else (case decipher_run E key (from_hex ivHex) (from_hex encryptedData) of
                                 Inl msg \<Rightarrow> Inl (''Decryption failed: '' @ msg)
                               | Inr decrypted \<Rightarrow> Inr (utf8_decode E decrypted)))
           | _ \<Rightarrow> Inl ''Decryption failed: Invalid encrypted data format''))"

definition encryptOptional ::
  "crypto_env \<Rightarrow> byte list \<Rightarrow> jstext nullable \<Rightarrow> string + string option" where
  "encryptOptional E iv v =
     (if falsy v then Inr None
      else (case v of Str s \<Rightarrow> map_sum id Some (encrypt E iv s) | _ \<Rightarrow> Inr None))"

definition decryptOptional :: "crypto_env \<Rightarrow> jsstr \<Rightarrow> string + jstext option" where
  "decryptOptional E h =
     (if falsy h then Inr None
      else (case h of Str s \<Rightarrow> map_sum id Some (decrypt E s) | _ \<Rightarrow> Inr None))"

text \<open>
  What is assumed of the block cipher: on every 32-byte key, 16-byte IV and byte sequence
  it succeeds with a non-empty output (CBC with padding always emits at least one block),
  and the decipher inverts it.
\<close>

definition cipher_sound :: "crypto_env \<Rightarrow> bool" where
  "cipher_sound E \<longleftrightarrow>
     (\<forall>key iv p. length key = KEY_LENGTH \<and> length iv = IV_LENGTH \<longrightarrow>
        (\<exists>ct. cipher_run E key iv p = Inr ct \<and> ct \<noteq> [] \<and> decipher_run E key iv ct = Inr p))"

text \<open>A toy instance of the library, used to exercise the theorems on concrete values.\<close>

definition demo_crypto :: crypto_env where
  "demo_crypto = \<lparr>ENCRYPTION_KEY = Some (ascii (replicate 32 CHR ''k'')),
     sha256 = (\<lambda>bs. replicate 32 0),
     cipher_run = (\<lambda>key iv p. Inr (1 # p)),
     decipher_run = (\<lambda>key iv ct. case ct of [] \<Rightarrow> Inl ''bad decrypt'' | b # bs \<Rightarrow> Inr bs),
     utf8_replace = (\<lambda>bs. [])\<rparr>"

section \<open>String functions, numbers and JSON values\<close>

text \<open>
  White space as \<open>String.prototype.trim\<close> and \<open>parseInt\<close> skip it, restricted to the
  characters a HOL \<open>char\<close> can hold: tab, line feed, vertical tab, form feed, carriage
  return, space and no-break space.
\<close>

definition is_js_space :: "char \<Rightarrow> bool" where
  "is_js_space c \<longleftrightarrow> (of_char c :: nat) \<in> {9, 10, 11, 12, 13, 32, 160}"

definition js_trim :: "string \<Rightarrow> string" where
  "js_trim s = rev (dropWhile is_js_space (rev (dropWhile is_js_space s)))"

text \<open>\<open>toUpperCase\<close> on the ASCII letters; other characters are left as they are.\<close>

definition upper_char :: "char \<Rightarrow> char" where
  "upper_char c =
     (let n = (of_char c :: nat) in if 97 \<le> n \<and> n \<le> 122 then char_of (n - 32) else c)"

definition toUpperCase :: "string \<Rightarrow> string" where
  "toUpperCase s = map upper_char s"

text \<open>\<open>s.startsWith(p)\<close>.\<close>

fun startsWith :: "string \<Rightarrow> string \<Rightarrow> bool" where
  "startsWith s [] = True"
| "startsWith [] (p # ps) = False"
| "startsWith (c # cs) (p # ps) = (c = p \<and> startsWith cs ps)"

text \<open>\<open>xs.join(sep)\<close> on a list of strings.\<close>

fun js_join :: "string \<Rightarrow> string list \<Rightarrow> string" where
  "js_join sep [] = []"
| "js_join sep [x] = x"
| "js_join sep (x # y # ys) = x @ sep @ js_join sep (y # ys)"

text \<open>
  Numbers are doubles. \<open>Num n\<close> is the double equal to the integer \<open>n\<close>, for
  \<open>\<bar>n\<bar> \<le> 2^53\<close> (every such integer is a double; \<open>Num 0\<close> stands for both zeros).
  \<open>Huge neg\<close> is a double of magnitude at least \<open>2^53\<close>, possibly infinite, negative when
  \<open>neg\<close> holds, whose value the model does not follow. \<open>Untracked\<close> is a result of
  arithmetic that the model does not follow: some double, or \<open>NaN\<close>.
\<close>

datatype jsnum = NaN | Num int | Huge bool | Untracked

text \<open>The double nearest to an integer, and the result of an operation that is exact.\<close>

definition num_of_int :: "int \<Rightarrow> jsnum" where
  "num_of_int n = (if \<bar>n\<bar> \<le> 2 ^ 53 then Num n else Huge (n < 0))"

definition num_if_exact :: "int \<Rightarrow> jsnum" where
  "num_if_exact n = (if \<bar>n\<bar> \<le> 2 ^ 53 then Num n else Untracked)"

definition is_digit :: "char \<Rightarrow> bool" where
  "is_digit c \<longleftrightarrow> 48 \<le> (of_char c :: nat) \<and> (of_char c :: nat) \<le> 57"

definition digits_value :: "string \<Rightarrow> nat" where
  "digits_value ds = foldl (\<lambda>acc c. 10 * acc + ((of_char c :: nat) - 48)) 0 ds"

text \<open>
  \<open>parseInt(s, 10)\<close>: leading white space is skipped, one sign is accepted, the longest
  run of decimal digits is read, and the rest of the string is ignored; without a digit the
  result is \<open>NaN\<close>.
\<close>

definition parseInt :: "string \<Rightarrow> jsnum" where
  "parseInt str =
     (let s = dropWhile is_js_space str;
          neg = (s \<noteq> [] \<and> hd s = CHR ''-'');
          r = (if s \<noteq> [] \<and> (hd s = CHR ''-'' \<or> hd s = CHR ''+'') then tl s else s);
          ds = takeWhile is_digit r
      in if ds = [] then NaN
         else num_of_int (if neg then - int (digits_value ds) else int (digits_value ds)))"

text \<open>\<open>Math.min\<close>, and the arithmetic operators on numbers.\<close>

fun Math_min :: "jsnum \<Rightarrow> jsnum \<Rightarrow> jsnum" where
  "Math_min NaN y = NaN"
| "Math_min x NaN = NaN"
| "Math_min (Num a) (Num b) = Num (min a b)"
| "Math_min (Huge neg) (Num b) = (if neg then Huge True else Num b)"
| "Math_min (Num a) (Huge neg) = (if neg then Huge True else Num a)"
| "Math_min x y = Untracked"

fun js_sub :: "jsnum \<Rightarrow> jsnum \<Rightarrow> jsnum" where
  "js_sub NaN y = NaN"
| "js_sub x NaN = NaN"
| "js_sub (Num a) (Num b) = num_if_exact (a - b)"
| "js_sub x y = Untracked"

fun js_add :: "jsnum \<Rightarrow> jsnum \<Rightarrow> jsnum" where
  "js_add NaN y = NaN"
| "js_add x NaN = NaN"
| "js_add (Num a) (Num b) = num_if_exact (a + b)"
| "js_add x y = Untracked"

fun js_mul :: "jsnum \<Rightarrow> jsnum \<Rightarrow> jsnum" where
  "js_mul NaN y = NaN"
| "js_mul x NaN = NaN"
| "js_mul (Num a) (Num b) = num_if_exact (a * b)"
| "js_mul x y = Untracked"

text \<open>
  A value inside a parsed JSON body. \<open>JObject\<close> stands for any object or array; none of the
  modelled code looks inside one.
\<close>

datatype jsval = JUndefined | JNull | JString string | JNumber int | JBool bool | JObject

text \<open>
  What a handler can throw: an \<open>Error\<close> with its message, the module's
  \<open>IntegrationError\<close> with code and message (a subclass of \<open>Error\<close>), or a value that is
  not an \<open>Error\<close>.
\<close>

datatype js_error = Error string | IntegrationError string string | NonError

text \<open>\<open>error instanceof Error ? error.message : fallback\<close>.\<close>

fun error_message :: "js_error \<Rightarrow> string \<Rightarrow> string" where
  "error_message (Error m) fallback = m"
| "error_message (IntegrationError c m) fallback = m"
| "error_message NonError fallback = fallback"

text \<open>The string inside a \<open>string | null\<close> value, read after a truthiness test.\<close>

fun str_of :: "'a list nullable \<Rightarrow> 'a list" where
  "str_of (Str s) = s"
| "str_of _ = []"

text \<open>\<open>a ?? b\<close> on the result of a lookup that gives \<open>null\<close> when the key is absent.\<close>

definition nullish_or :: "string option \<Rightarrow> string \<Rightarrow> string" where
  "nullish_or a b = (case a of None \<Rightarrow> b | Some v \<Rightarrow> v)"

section \<open>Access guard (auth-check module)\<close>

subsection \<open>Rate limiter\<close>

text \<open>
  \<open>rateLimitStore\<close> is a module-level \<open>Map\<close> from the key \<open>userId:provider\<close> to an entry
  \<open>{count, resetAt}\<close>. The model passes the store and the value of \<open>Date.now()\<close>
  (milliseconds) explicitly and returns the updated store.
\<close>

record rate_entry =
  count :: nat
  resetAt :: int

type_synonym rate_store = "string \<rightharpoonup> rate_entry"

definition RATE_LIMIT_MAX :: nat where "RATE_LIMIT_MAX = 100"
definition RATE_LIMIT_WINDOW_MS :: int where "RATE_LIMIT_WINDOW_MS = 60 * 1000"

definition checkRateLimit :: "rate_store \<Rightarrow> int \<Rightarrow> string \<Rightarrow> string \<Rightarrow> bool \<times> rate_store" where
  "checkRateLimit store now userId provider =
     (let key = userId @ '':'' @ provider in
      case store key of
        None \<Rightarrow> (True, store(key \<mapsto> \<lparr>count = 1, resetAt = now + RATE_LIMIT_WINDOW_MS\<rparr>))
      | Some entry \<Rightarrow>
          if now > resetAt entry
            then (True, store(key \<mapsto> \<lparr>count = 1, resetAt = now + RATE_LIMIT_WINDOW_MS\<rparr>))
          else if count entry \<ge> RATE_LIMIT_MAX then (False, store)
          else (True, store(key \<mapsto> entry\<lparr>count := count entry + 1\<rparr>)))"

text \<open>Successive calls for one user and provider at the given times; the results in order.\<close>

fun checkRateLimit_calls ::
  "rate_store \<Rightarrow> string \<Rightarrow> string \<Rightarrow> int list \<Rightarrow> bool list \<times> rate_store" where
  "checkRateLimit_calls store userId provider [] = ([], store)"
| "checkRateLimit_calls store userId provider (t # ts) =
     (case checkRateLimit store t userId provider of
        (r, store') \<Rightarrow>
          (case checkRateLimit_calls store' userId provider ts of
             (rs, store'') \<Rightarrow> (r # rs, store'')))"

subsection \<open>Requests, the outside world and the handler's effects\<close>

text \<open>
  A stored credential record (\<open>UserIntegration\<close>), with the fields the modelled code
  reads. Secret fields hold ciphertext or \<open>null\<close>.
\<close>

record integration =
  isActive :: bool
  supabaseUrl :: jsstr
  supabaseAnonKey :: jsstr
  supabaseServiceKey :: jsstr
  neonConnectionString :: jsstr
  tursoUrl :: jsstr
  tursoAuthToken :: jsstr
  planetscaleHost :: jsstr
  planetscaleUsername :: jsstr
  planetscalePassword :: jsstr

text \<open>The argument of \<open>logIntegrationOperation\<close>.\<close>

record log_params =
  log_userId :: string
  log_provider :: string
  log_action :: string
  log_tableName :: "string option"
  log_status :: string
  log_errorMessage :: "string option"
  log_metadata :: "(string \<times> jsval) list option"

text \<open>
  A provider client is identified by the decrypted secrets it was built from; a request is
  what is sent through it to the backend.
\<close>

datatype client_spec =
    NeonClient jstext
  | SupabaseClient jstext jstext
  | TursoClient jstext jstext
  | PlanetScaleClient jstext jstext jstext

datatype request =
    RawSql string
  | Rpc string string
  | Execute string "jsval list"

type_synonym row = "(string \<times> jsval) list"

datatype rpc_data = DataArray "jsval list" | DataValue jsval

record rpc_result =
  rpc_data :: rpc_data
  rpc_error :: "string option"

text \<open>
  A libsql \<open>ResultSet\<close>: column names, rows as arrays of values, \<open>rowsAffected\<close>, and
  \<open>lastInsertRowid\<close>, which is a \<open>bigint\<close> or \<open>undefined\<close>.
\<close>

record turso_result =
  result_columns :: "string list"
  result_rows :: "jsval list list"
  rowsAffected :: int
  lastInsertRowid :: "int option"

text \<open>A PlanetScale \<open>ExecutedQuery\<close>: the rows and \<open>rowsAffected\<close>.\<close>

record planetscale_result =
  ps_rows :: "row list"
  ps_rowsAffected :: int

record oauth_tokens =
  access_token :: jstext
  refresh_token :: "jstext nullable"

text \<open>The argument of \<open>db.userIntegration.upsert\<close> in the OAuth callback.\<close>

record upsert_args =
  up_userId :: string
  up_provider :: string
  up_create_access :: string
  up_create_refresh :: "string option"
  up_update_access :: string
  up_update_refresh :: "string option"

text \<open>
  Everything a handler does other than computing its response is recorded, in order, as
  an event. \<open>ClientCreate\<close> and \<open>RemoteCall\<close> are the events of the provider adapters;
  \<open>TokenExchange\<close> is the call to the OAuth token endpoint.
\<close>

datatype event =
    ResolveIdentity
  | RateLimitCheck string string
  | Authorize string string
  | ClientCreate client_spec
  | ClientClose client_spec
  | RemoteCall client_spec request
  | TokenExchange string string
  | CredentialUpsert upsert_args
  | AuditLogged log_params
  | AuditFailed log_params
  | CookieDelete string

fun is_remote_call :: "event \<Rightarrow> bool" where
  "is_remote_call (RemoteCall c r) = True"
| "is_remote_call (TokenExchange c r) = True"
| "is_remote_call _ = False"

fun is_adapter_event :: "event \<Rightarrow> bool" where
  "is_adapter_event (ClientCreate c) = True"
| "is_adapter_event (ClientClose c) = True"
| "is_adapter_event (RemoteCall c r) = True"
| "is_adapter_event _ = False"

fun is_rate_limit_check :: "event \<Rightarrow> bool" where
  "is_rate_limit_check (RateLimitCheck u p) = True"
| "is_rate_limit_check _ = False"

text \<open>The response envelope and the HTTP response.\<close>

datatype payload =
    SupabaseQueryPayload "jsval list" nat int
  | NeonQueryPayload "row list" nat int
  | SqlQueryPayload "row list" nat int int
  | TursoInsertPayload int

datatype envelope = Success payload | Failure string string

datatype response = Json envelope nat | Redirect string

definition successResponse :: "payload \<Rightarrow> envelope" where
  "successResponse d = Success d"

text \<open>\<open>errorResponse(code, message)\<close>; no modelled handler passes the optional details.\<close>

definition errorResponse :: "string \<Rightarrow> string \<Rightarrow> envelope" where
  "errorResponse code message = Failure code message"

text \<open>
  The world of one request: the request itself, the environment, and the behaviour of
  everything outside the repository (the credential database, the provider SDKs and
  backends, the OAuth token endpoint). An \<open>Inl\<close> or \<open>Some\<close> error is a throw.
\<close>

record world =
  request_headers :: "string \<rightharpoonup> string"
  search_params :: "string \<rightharpoonup> string"
  param_tableName :: string
  request_json :: "js_error + (string \<times> jsval) list option"
  now_ms :: int
  start_time :: int
  end_time :: int
  env_redirect_uri :: "string option"
  cenv :: crypto_env
  random_ivs :: "nat \<Rightarrow> byte list"
  encodeURIComponent :: "string \<Rightarrow> string"
  db_findUnique :: "string \<Rightarrow> string \<Rightarrow> js_error + integration option"
  db_upsert :: "upsert_args \<Rightarrow> js_error option"
  db_log_create :: "log_params \<Rightarrow> js_error option"
  client_create :: "client_spec \<Rightarrow> js_error option"
  neon_sql :: "client_spec \<Rightarrow> string \<Rightarrow> js_error + row list"
  supabase_rpc :: "client_spec \<Rightarrow> string \<Rightarrow> string \<Rightarrow> js_error + rpc_result"
  turso_execute :: "client_spec \<Rightarrow> string \<Rightarrow> jsval list \<Rightarrow> js_error + turso_result"
  planetscale_execute :: "client_spec \<Rightarrow> string \<Rightarrow> js_error + planetscale_result"
  oauth_token_endpoint :: "string \<Rightarrow> string \<Rightarrow> js_error + oauth_tokens"

text \<open>What persists between statements: the events so far, the rate-limit map, the cookies.\<close>

record exec_state =
  trace :: "event list"
  rateLimitStore :: rate_store
  cookieStore :: "string \<rightharpoonup> string"

text \<open>
  A statement sequence either yields a value, executes \<open>return\<close> with a response, or
  throws. \<open>then_do\<close> runs the continuation only after a value.
\<close>

datatype 'a outcome = Value 'a | Return response | Throw js_error

type_synonym 'a prog = "exec_state \<Rightarrow> 'a outcome \<times> exec_state"

definition then_do :: "'a prog \<Rightarrow> ('a \<Rightarrow> 'b prog) \<Rightarrow> 'b prog" where
  "then_do m f = (\<lambda>s. case m s of
       (Value a, s') \<Rightarrow> f a s'
     | (Return r, s') \<Rightarrow> (Return r, s')
     | (Throw e, s') \<Rightarrow> (Throw e, s'))"

definition pure :: "'a \<Rightarrow> 'a prog" where
  "pure a = (\<lambda>s. (Value a, s))"

definition return_response :: "response \<Rightarrow> 'a prog" where
  "return_response r = (\<lambda>s. (Return r, s))"

definition throw :: "js_error \<Rightarrow> 'a prog" where
  "throw e = (\<lambda>s. (Throw e, s))"

definition return_if :: "bool \<Rightarrow> response \<Rightarrow> unit prog" where
  "return_if c r = (if c then return_response r else pure ())"

definition of_result :: "js_error + 'a \<Rightarrow> 'a prog" where
  "of_result x = (case x of Inl e \<Rightarrow> throw e | Inr a \<Rightarrow> pure a)"

definition emit :: "event \<Rightarrow> unit prog" where
  "emit e = (\<lambda>s. (Value (), s\<lparr>trace := trace s @ [e]\<rparr>))"

text \<open>\<open>try { body } catch (error) { return handler(error) }\<close> around a whole handler.\<close>

definition try_catch :: "response prog \<Rightarrow> (js_error \<Rightarrow> response) \<Rightarrow> exec_state \<Rightarrow> response \<times> exec_state" where
  "try_catch body handler = (\<lambda>s. case body s of
       (Value r, s') \<Rightarrow> (r, s')
     | (Return r, s') \<Rightarrow> (r, s')
     | (Throw e, s') \<Rightarrow> (handler e, s'))"

subsection \<open>The guard functions\<close>

text \<open>\<open>getCurrentUserId\<close>: the \<open>x-user-id\<close> header, or the demo user when it is absent.\<close>

definition getCurrentUserId :: "(string \<rightharpoonup> string) \<Rightarrow> jsstr" where
  "getCurrentUserId headersList =
     (case headersList ''x-user-id'' of
        None \<Rightarrow> Str ''demo-user-id''
      | Some userId \<Rightarrow> Str userId)"

definition getCurrentUserId_step :: "world \<Rightarrow> jsstr prog" where
  "getCurrentUserId_step w =
     then_do (emit ResolveIdentity) (\<lambda>_. pure (getCurrentUserId (request_headers w)))"

definition validateIntegrationAccess :: "world \<Rightarrow> string \<Rightarrow> string \<Rightarrow> js_error + integration" where
  "validateIntegrationAccess w userId provider =
     (case db_findUnique w userId provider of
        Inl e \<Rightarrow> Inl e
      | Inr None \<Rightarrow>
          Inl (IntegrationError ''INTEGRATION_NOT_FOUND''
                 (''No '' @ provider @ '' integration found for this user''))
      | Inr (Some integration) \<Rightarrow>
          if \<not> isActive integration
            then Inl (IntegrationError ''INTEGRATION_INACTIVE''
                        (provider @ '' integration is inactive''))
          else Inr integration)"

text \<open>The two situations the guard must reject: no record, or a record that is inactive.\<close>

definition no_usable_record :: "world \<Rightarrow> string \<Rightarrow> string \<Rightarrow> bool" where
  "no_usable_record w userId provider =
     (case db_findUnique w userId provider of
        Inl e \<Rightarrow> False
      | Inr None \<Rightarrow> True
      | Inr (Some integration) \<Rightarrow> \<not> isActive integration)"

definition validateIntegrationAccess_step :: "world \<Rightarrow> string \<Rightarrow> string \<Rightarrow> integration prog" where
  "validateIntegrationAccess_step w userId provider =
     then_do (emit (Authorize userId provider))
       (\<lambda>_. of_result (validateIntegrationAccess w userId provider))"

definition checkRateLimit_step :: "world \<Rightarrow> string \<Rightarrow> string \<Rightarrow> bool prog" where
  "checkRateLimit_step w userId provider = (\<lambda>s.
     case checkRateLimit (rateLimitStore s) (now_ms w) userId provider of
       (allowed, store') \<Rightarrow>
         (Value allowed,
          s\<lparr>trace := trace s @ [RateLimitCheck userId provider], rateLimitStore := store'\<rparr>))"

text \<open>
  \<open>logIntegrationOperation\<close>: the insert into the audit table is inside \<open>try\<close>, and the
  \<open>catch\<close> only writes to the console.
\<close>

definition logIntegrationOperation :: "world \<Rightarrow> log_params \<Rightarrow> unit prog" where
  "logIntegrationOperation w params =
     (case db_log_create w params of
        None \<Rightarrow> emit (AuditLogged params)
      | Some e \<Rightarrow> emit (AuditFailed params))"

subsection \<open>Provider clients\<close>

definition decrypt_step :: "world \<Rightarrow> string \<Rightarrow> jstext prog" where
  "decrypt_step w hash =
     (case decrypt (cenv w) hash of
        Inl msg \<Rightarrow> throw (Error msg)
      | Inr plain \<Rightarrow> pure plain)"

text \<open>
  The SDK's constructor (\<open>neon\<close>, \<open>createClient\<close>, \<open>connect\<close>), which may reject its
  arguments.
\<close>

definition create_client :: "world \<Rightarrow> client_spec \<Rightarrow> client_spec prog" where
  "create_client w spec =
     then_do (emit (ClientCreate spec))
       (\<lambda>_. case client_create w spec of None \<Rightarrow> pure spec | Some e \<Rightarrow> throw e)"

definition createNeonClientFromIntegration :: "world \<Rightarrow> integration \<Rightarrow> client_spec prog" where
  "createNeonClientFromIntegration w integration =
     (if falsy (neonConnectionString integration)
        then throw (Error ''Neon connection string not configured'')
      else then_do (decrypt_step w (str_of (neonConnectionString integration)))
             (\<lambda>connectionString. create_client w (NeonClient connectionString)))"

definition createSupabaseClientFromIntegration ::
  "world \<Rightarrow> integration \<Rightarrow> bool \<Rightarrow> client_spec prog" where
  "createSupabaseClientFromIntegration w integration useServiceKey =
     (if falsy (supabaseUrl integration) \<or> falsy (supabaseAnonKey integration)
        then throw (Error ''Supabase credentials not configured'')
      else then_do (decrypt_step w (str_of (supabaseUrl integration))) (\<lambda>url.
           then_do (if useServiceKey \<and> \<not> falsy (supabaseServiceKey integration)
                      then decrypt_step w (str_of (supabaseServiceKey integration))
                    else decrypt_step w (str_of (supabaseAnonKey integration))) (\<lambda>key.
           create_client w (SupabaseClient url key))))"

definition createTursoClientFromIntegration :: "world \<Rightarrow> integration \<Rightarrow> client_spec prog" where
  "createTursoClientFromIntegration w integration =
     (if falsy (tursoUrl integration) \<or> falsy (tursoAuthToken integration)
        then throw (Error ''Turso credentials not configured'')
      else then_do (decrypt_step w (str_of (tursoUrl integration))) (\<lambda>url.
           then_do (decrypt_step w (str_of (tursoAuthToken integration))) (\<lambda>authToken.
           create_client w (TursoClient url authToken))))"

definition createPlanetScaleClientFromIntegration :: "world \<Rightarrow> integration \<Rightarrow> client_spec prog" where
  "createPlanetScaleClientFromIntegration w integration =
     (if falsy (planetscaleHost integration) \<or> falsy (planetscaleUsername integration) \<or>
         falsy (planetscalePassword integration)
        then throw (Error ''PlanetScale credentials not configured'')
      else then_do (decrypt_step w (str_of (planetscaleHost integration))) (\<lambda>host.
           then_do (decrypt_step w (str_of (planetscaleUsername integration))) (\<lambda>username.
           then_do (decrypt_step w (str_of (planetscalePassword integration))) (\<lambda>password.
           create_client w (PlanetScaleClient host username password)))))"

subsection \<open>Reading the request body\<close>

text \<open>
  \<open>request.json()\<close> throws on a malformed body; the parsed body is \<open>null\<close> (\<open>None\<close>) or
  a value given by its own properties in order.
\<close>

definition request_json_step :: "world \<Rightarrow> (string \<times> jsval) list option prog" where
  "request_json_step w = of_result (request_json w)"

text \<open>\<open>const { name } = body\<close>: a \<open>TypeError\<close> on \<open>null\<close>, \<open>undefined\<close> for a missing property.\<close>

definition body_prop :: "(string \<times> jsval) list option \<Rightarrow> string \<Rightarrow> jsval prog" where
  "body_prop body name =
     (case body of
        None \<Rightarrow> throw (Error ''Cannot destructure property of null'')
      | Some props \<Rightarrow> pure (case map_of props name of None \<Rightarrow> JUndefined | Some v \<Rightarrow> v))"

text \<open>\<open>query?.trim()\<close>: a \<open>TypeError\<close> when \<open>query\<close> is neither nullish nor a string.\<close>

fun optional_trim :: "jsval \<Rightarrow> jsstr prog" where
  "optional_trim JUndefined = pure Undefined"
| "optional_trim JNull = pure Undefined"
| "optional_trim (JString s) = pure (Str (js_trim s))"
| "optional_trim _ = throw (Error ''query.trim is not a function'')"

fun string_of :: "jsval \<Rightarrow> string" where
  "string_of (JString s) = s"
| "string_of _ = []"

section \<open>Route handlers\<close>

subsection \<open>Raw query, Neon (\<open>neon/sql/route.ts\<close>, \<open>POST\<close>)\<close>

definition neon_query :: "world \<Rightarrow> client_spec \<Rightarrow> string \<Rightarrow> row list prog" where
  "neon_query w sql query =
     then_do (emit (RemoteCall sql (RawSql query))) (\<lambda>_. of_result (neon_sql w sql query))"

definition neon_sql_POST :: "world \<Rightarrow> exec_state \<Rightarrow> response \<times> exec_state" where
  "neon_sql_POST w = try_catch
     (then_do (getCurrentUserId_step w) (\<lambda>userId.
      then_do (return_if (falsy userId)
                 (Json (errorResponse ''UNAUTHORIZED'' ''Not authenticated'') 401)) (\<lambda>_.
      then_do (checkRateLimit_step w (str_of userId) ''neon'') (\<lambda>allowed.
      then_do (return_if (\<not> allowed)
                 (Json (errorResponse ''RATE_LIMITED'' ''Too many requests'') 429)) (\<lambda>_.
      then_do (validateIntegrationAccess_step w (str_of userId) ''neon'') (\<lambda>integration.
      then_do (createNeonClientFromIntegration w integration) (\<lambda>sql.
      then_do (request_json_step w) (\<lambda>body.
      then_do (body_prop body ''query'') (\<lambda>query.
      then_do (optional_trim query) (\<lambda>trimmed.
      then_do (return_if (falsy trimmed)
                 (Json (errorResponse ''INVALID_REQUEST'' ''Query is required'') 400)) (\<lambda>_.
      then_do (neon_query w sql (string_of query)) (\<lambda>rows.
      then_do (logIntegrationOperation w
                 \<lparr>log_userId = str_of userId, log_provider = ''neon'', log_action = ''query'',
                  log_tableName = None, log_status = ''success'', log_errorMessage = None,
                  log_metadata = Some [(''executionTime'', JNumber (end_time w - start_time w)),
                                       (''rowCount'', JNumber (int (length rows)))]\<rparr>) (\<lambda>_.
      return_response
        (Json (successResponse
                 (NeonQueryPayload rows (length rows) (end_time w - start_time w))) 200))))))))))))))
     (\<lambda>error. Json (errorResponse ''QUERY_ERROR'' (error_message error ''Query failed'')) 400)"

subsection \<open>Raw query, Supabase (\<open>POST\<close> of the raw-query route, source \<open>unnamed/part_016\<close>)\<close>

definition supabase_exec_sql :: "world \<Rightarrow> client_spec \<Rightarrow> string \<Rightarrow> rpc_result prog" where
  "supabase_exec_sql w client query =
     then_do (emit (RemoteCall client (Rpc ''exec_sql'' query)))
       (\<lambda>_. of_result (supabase_rpc w client ''exec_sql'' query))"

text \<open>\<open>Array.isArray(data) ? data : [data]\<close> and the two row counts the handler derives.\<close>

fun data_as_array :: "rpc_data \<Rightarrow> jsval list" where
  "data_as_array (DataArray xs) = xs"
| "data_as_array (DataValue v) = [v]"

fun data_length_or :: "rpc_data \<Rightarrow> nat \<Rightarrow> nat" where
  "data_length_or (DataArray xs) d = length xs"
| "data_length_or (DataValue v) d = d"

definition supabase_sql_POST :: "world \<Rightarrow> exec_state \<Rightarrow> response \<times> exec_state" where
  "supabase_sql_POST w = try_catch
     (then_do (getCurrentUserId_step w) (\<lambda>userId.
      then_do (return_if (falsy userId)
                 (Json (errorResponse ''UNAUTHORIZED'' ''Not authenticated'') 401)) (\<lambda>_.
      then_do (checkRateLimit_step w (str_of userId) ''supabase'') (\<lambda>allowed.
      then_do (return_if (\<not> allowed)
                 (Json (errorResponse ''RATE_LIMITED'' ''Too many requests'') 429)) (\<lambda>_.
      then_do (validateIntegrationAccess_step w (str_of userId) ''supabase'') (\<lambda>integration.
      then_do (pure (\<not> falsy (supabaseServiceKey integration))) (\<lambda>hasServiceKey.
      then_do (createSupabaseClientFromIntegration w integration hasServiceKey) (\<lambda>client.
      then_do (request_json_step w) (\<lambda>body.
      then_do (body_prop body ''query'') (\<lambda>query.
      then_do (optional_trim query) (\<lambda>trimmed.
      then_do (return_if (falsy trimmed)
                 (Json (errorResponse ''INVALID_REQUEST'' ''Query is required'') 400)) (\<lambda>_.
      then_do (pure (toUpperCase (js_trim (string_of query)))) (\<lambda>trimmedQuery.
      then_do (return_if (\<not> hasServiceKey \<and>
                          \<not> startsWith trimmedQuery ''SELECT'' \<and>
                          \<not> startsWith trimmedQuery ''WITH'' \<and>
                          \<not> startsWith trimmedQuery ''EXPLAIN'')
                 (Json (errorResponse ''UNAUTHORIZED''
                          ''Only SELECT queries are allowed without a Service Role Key'') 403)) (\<lambda>_.
      then_do (supabase_exec_sql w client (string_of query)) (\<lambda>result.
      (case rpc_error result of
         Some message \<Rightarrow>
           then_do (logIntegrationOperation w
                      \<lparr>log_userId = str_of userId, log_provider = ''supabase'',
                       log_action = ''query'', log_tableName = None, log_status = ''error'',
                       log_errorMessage = Some message,
                       log_metadata = Some [(''query'', JString (take 200 (string_of query)))]\<rparr>) (\<lambda>_.
           return_response (Json (errorResponse ''QUERY_ERROR'' message) 400))
       | None \<Rightarrow>
           then_do (logIntegrationOperation w
                      \<lparr>log_userId = str_of userId, log_provider = ''supabase'',
                       log_action = ''query'', log_tableName = None, log_status = ''success'',
                       log_errorMessage = None,
                       log_metadata = Some [(''executionTime'', JNumber (end_time w - start_time w)),
                                            (''rowCount'', JNumber (int (data_length_or (rpc_data result) 0)))]\<rparr>) (\<lambda>_.
           return_response
             (Json (successResponse
                      (SupabaseQueryPayload (data_as_array (rpc_data result))
                         (data_length_or (rpc_data result) 1)
                         (end_time w - start_time w))) 200))))))))))))))))))
     (\<lambda>error. Json (errorResponse ''INTERNAL_ERROR'' (error_message error ''Query failed'')) 500)"

subsection \<open>Raw query, PlanetScale (\<open>POST\<close> of the raw-query route, source \<open>unnamed/part_012\<close>)\<close>

definition planetscale_conn_execute ::
  "world \<Rightarrow> client_spec \<Rightarrow> string \<Rightarrow> planetscale_result prog" where
  "planetscale_conn_execute w conn query =
     then_do (emit (RemoteCall conn (RawSql query)))
       (\<lambda>_. of_result (planetscale_execute w conn query))"

definition planetscale_sql_POST :: "world \<Rightarrow> exec_state \<Rightarrow> response \<times> exec_state" where
  "planetscale_sql_POST w = try_catch
     (then_do (getCurrentUserId_step w) (\<lambda>userId.
      then_do (return_if (falsy userId)
                 (Json (errorResponse ''UNAUTHORIZED'' ''Not authenticated'') 401)) (\<lambda>_.
      then_do (checkRateLimit_step w (str_of userId) ''planetscale'') (\<lambda>allowed.
      then_do (return_if (\<not> allowed)
                 (Json (errorResponse ''RATE_LIMITED'' ''Too many requests'') 429)) (\<lambda>_.
      then_do (validateIntegrationAccess_step w (str_of userId) ''planetscale'') (\<lambda>integration.
      then_do (createPlanetScaleClientFromIntegration w integration) (\<lambda>conn.
      then_do (request_json_step w) (\<lambda>body.
      then_do (body_prop body ''query'') (\<lambda>query.
      then_do (optional_trim query) (\<lambda>trimmed.
      then_do (return_if (falsy trimmed)
                 (Json (errorResponse ''INVALID_REQUEST'' ''Query is required'') 400)) (\<lambda>_.
      then_do (planetscale_conn_execute w conn (string_of query)) (\<lambda>result.
      then_do (pure (ps_rows result)) (\<lambda>rows.
      then_do (logIntegrationOperation w
                 \<lparr>log_userId = str_of userId, log_provider = ''planetscale'',
                  log_action = ''query'', log_tableName = None, log_status = ''success'',
                  log_errorMessage = None,
                  log_metadata = Some [(''executionTime'', JNumber (end_time w - start_time w)),
                                       (''rowCount'', JNumber (int (length rows)))]\<rparr>) (\<lambda>_.
      return_response
        (Json (successResponse
                 (SqlQueryPayload rows (length rows) (end_time w - start_time w)
                    (ps_rowsAffected result))) 200)))))))))))))))
     (\<lambda>error. Json (errorResponse ''QUERY_ERROR'' (error_message error ''Query failed'')) 400)"

subsection \<open>Statements sent through a Turso client\<close>

text \<open>
  \<open>client.execute\<close>, with a statement and its arguments; a statement given as a string has
  no arguments.
\<close>

definition turso_client_execute ::
  "world \<Rightarrow> client_spec \<Rightarrow> string \<Rightarrow> jsval list \<Rightarrow> turso_result prog" where
  "turso_client_execute w client sql args =
     then_do (emit (RemoteCall client (Execute sql args)))
       (\<lambda>_. of_result (turso_execute w client sql args))"

subsection \<open>Raw query, Turso (\<open>POST\<close> of the raw-query route, second source of \<open>convex/tables/route.ts\<close>)\<close>

text \<open>
  \<open>obj[col] = row[i]\<close> for each column in turn: a column name that occurs twice keeps its
  place and takes the later value, and a row shorter than the column list gives
  \<open>undefined\<close>. A row object is the list of its properties; the place of a property in the
  list has no meaning to a reader of the JSON text.
\<close>

fun object_set :: "row \<Rightarrow> string \<Rightarrow> jsval \<Rightarrow> row" where
  "object_set [] k v = [(k, v)]"
| "object_set ((k', v') # ps) k v =
     (if k' = k then (k', v) # ps else (k', v') # object_set ps k v)"

definition row_object :: "string list \<Rightarrow> jsval list \<Rightarrow> row" where
  "row_object columns r =
     foldl (\<lambda>obj (i, col). object_set obj col (if i < length r then r ! i else JUndefined))
       [] (enumerate 0 columns)"

definition turso_sql_POST :: "world \<Rightarrow> exec_state \<Rightarrow> response \<times> exec_state" where
  "turso_sql_POST w = try_catch
     (then_do (getCurrentUserId_step w) (\<lambda>userId.
      then_do (return_if (falsy userId)
                 (Json (errorResponse ''UNAUTHORIZED'' ''Not authenticated'') 401)) (\<lambda>_.
      then_do (checkRateLimit_step w (str_of userId) ''turso'') (\<lambda>allowed.
      then_do (return_if (\<not> allowed)
                 (Json (errorResponse ''RATE_LIMITED'' ''Too many requests'') 429)) (\<lambda>_.
      then_do (validateIntegrationAccess_step w (str_of userId) ''turso'') (\<lambda>integration.
      then_do (createTursoClientFromIntegration w integration) (\<lambda>client.
      then_do (request_json_step w) (\<lambda>body.
      then_do (body_prop body ''query'') (\<lambda>query.
      then_do (optional_trim query) (\<lambda>trimmed.
      then_do (return_if (falsy trimmed)
                 (Json (errorResponse ''INVALID_REQUEST'' ''Query is required'') 400)) (\<lambda>_.
      then_do (turso_client_execute w client (string_of query) []) (\<lambda>result.
      then_do (emit (ClientClose client)) (\<lambda>_.
      then_do (pure (map (row_object (result_columns result)) (result_rows result))) (\<lambda>rows.
      then_do (logIntegrationOperation w
                 \<lparr>log_userId = str_of userId, log_provider = ''turso'', log_action = ''query'',
                  log_tableName = None, log_status = ''success'', log_errorMessage = None,
                  log_metadata = Some [(''executionTime'', JNumber (end_time w - start_time w)),
                                       (''rowCount'', JNumber (int (length rows)))]\<rparr>) (\<lambda>_.
      return_response
        (Json (successResponse
                 (SqlQueryPayload rows (length rows) (end_time w - start_time w)
                    (rowsAffected result))) 200))))))))))))))))
     (\<lambda>error. Json (errorResponse ''QUERY_ERROR'' (error_message error ''Query failed'')) 400)"

subsection \<open>Insert a row, Turso (\<open>turso/tables/[tableName]/route.ts\<close>, \<open>POST\<close>)\<close>

text \<open>\<open>Object.keys(body)\<close>: a \<open>TypeError\<close> on \<open>null\<close>.\<close>

definition object_keys :: "(string \<times> jsval) list option \<Rightarrow> string list prog" where
  "object_keys body =
     (case body of
        None \<Rightarrow> throw (Error ''Cannot convert undefined or null to object'')
      | Some props \<Rightarrow> pure (map fst props))"

definition body_get :: "(string \<times> jsval) list option \<Rightarrow> string \<Rightarrow> jsval" where
  "body_get body name =
     (case body of
        None \<Rightarrow> JUndefined
      | Some props \<Rightarrow> (case map_of props name of None \<Rightarrow> JUndefined | Some v \<Rightarrow> v))"

text \<open>
  \<open>NextResponse.json(successResponse({ rowsAffected, lastInsertRowid }))\<close>: the body is
  serialised by \<open>JSON.stringify\<close>, which throws a \<open>TypeError\<close> on a \<open>bigint\<close> and leaves
  out a property that is \<open>undefined\<close>.
\<close>

definition json_insert_response :: "int \<Rightarrow> int option \<Rightarrow> 'a prog" where
  "json_insert_response affected rowid =
     (case rowid of
        Some n \<Rightarrow> throw (Error ''Do not know how to serialize a BigInt'')
      | None \<Rightarrow> return_response (Json (successResponse (TursoInsertPayload affected)) 200))"

definition turso_rows_POST :: "world \<Rightarrow> exec_state \<Rightarrow> response \<times> exec_state" where
  "turso_rows_POST w = try_catch
     (then_do (pure (param_tableName w)) (\<lambda>tableName.
      then_do (getCurrentUserId_step w) (\<lambda>userId.
      then_do (return_if (falsy userId)
                 (Json (errorResponse ''UNAUTHORIZED'' ''Not authenticated'') 401)) (\<lambda>_.
      then_do (validateIntegrationAccess_step w (str_of userId) ''turso'') (\<lambda>integration.
      then_do (createTursoClientFromIntegration w integration) (\<lambda>client.
      then_do (request_json_step w) (\<lambda>body.
      then_do (object_keys body) (\<lambda>keys.
      then_do (pure (filter (\<lambda>k. k \<noteq> ''id'' \<and> k \<noteq> ''created_at'') keys)) (\<lambda>columns.
      then_do (pure (map (\<lambda>col. body_get body col) columns)) (\<lambda>values.
      then_do (pure (js_join '', '' (map (\<lambda>_. ''?'') columns))) (\<lambda>placeholders.
      then_do (pure (js_join '', '' (map (\<lambda>c. [CHR 0x22] @ c @ [CHR 0x22]) columns))) (\<lambda>colNames.
      then_do (pure (''INSERT INTO '' @ [CHR 0x22] @ tableName @ [CHR 0x22] @ '' ('' @ colNames @
                     '') VALUES ('' @ placeholders @ '')'')) (\<lambda>sql.
      then_do (turso_client_execute w client sql values) (\<lambda>result.
      then_do (emit (ClientClose client)) (\<lambda>_.
      then_do (logIntegrationOperation w
                 \<lparr>log_userId = str_of userId, log_provider = ''turso'', log_action = ''insert'',
                  log_tableName = Some tableName, log_status = ''success'',
                  log_errorMessage = None, log_metadata = None\<rparr>) (\<lambda>_.
      json_insert_response (rowsAffected result) (lastInsertRowid result)))))))))))))))))
     (\<lambda>error. Json (errorResponse ''INTERNAL_ERROR'' (error_message error ''Insert failed'')) 500)"

subsection \<open>Pagination of a row query (\<open>GET\<close> of the five \<open>tables/[tableName]\<close> routes)\<close>

text \<open>
  The first two lines are the same in the five handlers. The Turso, Neon and PlanetScale
  handlers go on to compute an offset and send \<open>limit\<close> and \<open>offset\<close> to the backend
  (\<open>LIMIT ? OFFSET ?\<close>); the Supabase handler computes a range \<open>from\<close>, \<open>to\<close> and sends it
  with \<open>query.range(from, to)\<close>; the Convex handler passes only \<open>limit\<close> to
  \<open>queryConvexDocuments\<close>, which sends it as \<open>numItems\<close> when it is truthy and leaves it out
  otherwise, and computes no offset. All of them echo \<open>page\<close> and \<open>limit\<close> in the response.
\<close>

definition request_page :: "(string \<rightharpoonup> string) \<Rightarrow> jsnum" where
  "request_page searchParams = parseInt (nullish_or (searchParams ''page'') ''1'')"

definition request_limit :: "(string \<rightharpoonup> string) \<Rightarrow> jsnum" where
  "request_limit searchParams =
     Math_min (parseInt (nullish_or (searchParams ''limit'') ''25'')) (Num 100)"

record pagination =
  page :: jsnum
  limit :: jsnum
  offset :: jsnum

text \<open>The Turso handler (\<open>turso/tables/[tableName]/route.ts\<close>, l.36-42).\<close>

definition turso_rows_pagination :: "(string \<rightharpoonup> string) \<Rightarrow> pagination" where
  "turso_rows_pagination searchParams =
     (let page = request_page searchParams;
          limit = request_limit searchParams;
          offset = js_mul (js_sub page (Num 1)) limit
      in \<lparr>page = page, limit = limit, offset = offset\<rparr>)"

text \<open>The Neon handler (\<open>neon/tables/[tableName]/route.ts\<close>, l.18-22).\<close>

definition neon_rows_pagination :: "(string \<rightharpoonup> string) \<Rightarrow> pagination" where
  "neon_rows_pagination searchParams =
     (let page = request_page searchParams;
          limit = request_limit searchParams;
          offset = js_mul (js_sub page (Num 1)) limit
      in \<lparr>page = page, limit = limit, offset = offset\<rparr>)"

text \<open>The PlanetScale handler (\<open>planetscale/tables/[tableName]/route.ts\<close>, l.27-32).\<close>

definition planetscale_rows_pagination :: "(string \<rightharpoonup> string) \<Rightarrow> pagination" where
  "planetscale_rows_pagination searchParams =
     (let page = request_page searchParams;
          limit = request_limit searchParams;
          offset = js_mul (js_sub page (Num 1)) limit
      in \<lparr>page = page, limit = limit, offset = offset\<rparr>)"

text \<open>The Supabase handler (source \<open>unnamed/part_001\<close>, l.36-43).\<close>

record range_pagination =
  range_page :: jsnum
  range_limit :: jsnum
  range_from :: jsnum
  range_to :: jsnum

definition supabase_rows_pagination :: "(string \<rightharpoonup> string) \<Rightarrow> range_pagination" where
  "supabase_rows_pagination searchParams =
     (let page = request_page searchParams;
          limit = request_limit searchParams;
          from = js_mul (js_sub page (Num 1)) limit;
          to = js_sub (js_add from limit) (Num 1)
      in \<lparr>range_page = page, range_limit = limit, range_from = from, range_to = to\<rparr>)"

text \<open>
  The Convex handler (source \<open>unnamed/part_003\<close>, l.49-54, and \<open>queryConvexDocuments\<close>,
  \<open>unnamed/part_005\<close>): \<open>numItems\<close> is the limit when it is truthy, that is neither \<open>0\<close> nor
  \<open>NaN\<close>.
\<close>

record convex_pagination =
  convex_page :: jsnum
  convex_limit :: jsnum
  numItems :: "jsnum option"

fun num_truthy :: "jsnum \<Rightarrow> bool" where
  "num_truthy NaN = False"
| "num_truthy (Num n) = (n \<noteq> 0)"
| "num_truthy (Huge neg) = True"
| "num_truthy Untracked = True"

definition convex_documents_pagination :: "(string \<rightharpoonup> string) \<Rightarrow> convex_pagination" where
  "convex_documents_pagination searchParams =
     (let page = request_page searchParams;
          limit = request_limit searchParams
      in \<lparr>convex_page = page, convex_limit = limit,
          numItems = (if num_truthy limit then Some limit else None)\<rparr>)"

subsection \<open>A request that passes the guards\<close>

text \<open>
  The three guards of a data operation, for the provider \<open>p\<close>, in state \<open>s\<close>: the
  resolved identity is truthy, \<open>checkRateLimit\<close> admits the call, and the credential record
  of that user for \<open>p\<close> is \<open>i\<close> and is active.
\<close>

definition guards_pass :: "world \<Rightarrow> exec_state \<Rightarrow> string \<Rightarrow> integration \<Rightarrow> bool" where
  "guards_pass w s p i \<longleftrightarrow>
     \<not> falsy (getCurrentUserId (request_headers w)) \<and>
     fst (checkRateLimit (rateLimitStore s) (now_ms w)
            (str_of (getCurrentUserId (request_headers w))) p) \<and>
     db_findUnique w (str_of (getCurrentUserId (request_headers w))) p = Inr (Some i) \<and>
     isActive i"

subsection \<open>OAuth callback (\<open>convex/oauth/callback/route.ts\<close>, \<open>GET\<close>)\<close>

text \<open>\<open>searchParams.get(name)\<close>: the value or \<open>null\<close>.\<close>

definition search_param :: "world \<Rightarrow> string \<Rightarrow> jsstr" where
  "search_param w name = (case search_params w name of None \<Rightarrow> Null | Some v \<Rightarrow> Str v)"

text \<open>\<open>cookieStore.get(name)?.value\<close> and \<open>cookieStore.delete(name)\<close>.\<close>

definition get_cookie :: "string \<Rightarrow> jsstr prog" where
  "get_cookie name = (\<lambda>s.
     (Value (case cookieStore s name of None \<Rightarrow> Undefined | Some v \<Rightarrow> Str v), s))"

text \<open>The value the callback reads from the state cookie.\<close>

definition stored_state :: "exec_state \<Rightarrow> jsstr" where
  "stored_state s =
     (case cookieStore s ''convex_oauth_state'' of None \<Rightarrow> Undefined | Some v \<Rightarrow> Str v)"

definition delete_cookie :: "string \<Rightarrow> unit prog" where
  "delete_cookie name = (\<lambda>s.
     (Value (), s\<lparr>trace := trace s @ [CookieDelete name],
                   cookieStore := (cookieStore s)(name := None)\<rparr>))"

text \<open>
  \<open>exchangeConvexOAuthCode\<close>: one \<open>POST\<close> to the token endpoint; a response that is not
  \<open>ok\<close> is thrown as an \<open>Error\<close>.
\<close>

definition exchangeConvexOAuthCode :: "world \<Rightarrow> string \<Rightarrow> string \<Rightarrow> oauth_tokens prog" where
  "exchangeConvexOAuthCode w code redirectUri =
     then_do (emit (TokenExchange code redirectUri))
       (\<lambda>_. of_result (oauth_token_endpoint w code redirectUri))"

text \<open>\<open>encrypt(text)\<close> with the \<open>n\<close>-th random IV of the request.\<close>

definition encrypt_step :: "world \<Rightarrow> nat \<Rightarrow> jstext \<Rightarrow> string prog" where
  "encrypt_step w n text =
     (case encrypt (cenv w) (random_ivs w n) text of
        Inl msg \<Rightarrow> throw (Error msg)
      | Inr c \<Rightarrow> pure c)"

text \<open>\<open>tokens.refresh_token ? encrypt(tokens.refresh_token) : null\<close>.\<close>

definition encrypt_refresh :: "world \<Rightarrow> nat \<Rightarrow> oauth_tokens \<Rightarrow> string option prog" where
  "encrypt_refresh w n tokens =
     (if falsy (refresh_token tokens) then pure None
      else then_do (encrypt_step w n (str_of (refresh_token tokens))) (\<lambda>c. pure (Some c)))"

definition upsert_integration :: "world \<Rightarrow> upsert_args \<Rightarrow> unit prog" where
  "upsert_integration w args =
     then_do (emit (CredentialUpsert args))
       (\<lambda>_. case db_upsert w args of None \<Rightarrow> pure () | Some e \<Rightarrow> throw e)"

definition convex_oauth_callback_GET :: "world \<Rightarrow> exec_state \<Rightarrow> response \<times> exec_state" where
  "convex_oauth_callback_GET w = try_catch
     (then_do (pure (search_param w ''code'')) (\<lambda>code.
      then_do (pure (search_param w ''state'')) (\<lambda>state.
      then_do (pure (search_param w ''error'')) (\<lambda>error.
      then_do (return_if (\<not> falsy error)
                 (Redirect (''/dashboard/integrations/convex?error='' @
                            encodeURIComponent w (str_of error)))) (\<lambda>_.
      then_do (return_if (falsy code \<or> falsy state)
                 (Redirect ''/dashboard/integrations/convex?error=missing_params'')) (\<lambda>_.
      then_do (get_cookie ''convex_oauth_state'') (\<lambda>storedState.
      then_do (return_if (falsy storedState \<or> storedState \<noteq> state)
                 (Redirect ''/dashboard/integrations/convex?error=invalid_state'')) (\<lambda>_.
      then_do (delete_cookie ''convex_oauth_state'') (\<lambda>_.
      then_do (getCurrentUserId_step w) (\<lambda>userId.
      then_do (return_if (falsy userId)
                 (Redirect ''/dashboard/integrations/convex?error=unauthorized'')) (\<lambda>_.
      then_do (pure (nullish_or (env_redirect_uri w) [])) (\<lambda>redirectUri.
      then_do (exchangeConvexOAuthCode w (str_of code) redirectUri) (\<lambda>tokens.
      then_do (encrypt_step w 0 (access_token tokens)) (\<lambda>createAccess.
      then_do (encrypt_refresh w 1 tokens) (\<lambda>createRefresh.
      then_do (encrypt_step w 2 (access_token tokens)) (\<lambda>updateAccess.
      then_do (encrypt_refresh w 3 tokens) (\<lambda>updateRefresh.
      then_do (upsert_integration w
                 \<lparr>up_userId = str_of userId, up_provider = ''convex'',
                  up_create_access = createAccess, up_create_refresh = createRefresh,
                  up_update_access = updateAccess, up_update_refresh = updateRefresh\<rparr>) (\<lambda>_.
      then_do (logIntegrationOperation w
                 \<lparr>log_userId = str_of userId, log_provider = ''convex'',
                  log_action = ''connect'', log_tableName = None, log_status = ''success'',
                  log_errorMessage = None, log_metadata = None\<rparr>) (\<lambda>_.
      return_response (Redirect ''/dashboard/integrations/convex?connected=true''))))))))))))))))))))
     (\<lambda>error. Redirect (''/dashboard/integrations/convex?error='' @
                        encodeURIComponent w (error_message error ''oauth_failed'')))"

section \<open>Concrete requests\<close>

text \<open>
  A concrete world on which the theorems below are exercised: user \<open>u1\<close>, an active
  credential record without a Supabase service key whose secrets are encrypted under the
  toy cipher, backends that accept everything, and a body carrying a \<open>DROP TABLE\<close>
  statement.
\<close>

definition demo_secret :: "string \<Rightarrow> string" where
  "demo_secret s = to_hex (replicate 16 7) @ '':'' @ to_hex (1 # utf8_encode (ascii s))"

definition demo_integration :: integration where
  "demo_integration =
     \<lparr>isActive = True,
      supabaseUrl = Str (demo_secret ''https://p.supabase.co''),
      supabaseAnonKey = Str (demo_secret ''anon-key''),
      supabaseServiceKey = Null,
      neonConnectionString = Str (demo_secret ''postgres://neon/db''),
      tursoUrl = Str (demo_secret ''libsql://t.turso.io''),
      tursoAuthToken = Str (demo_secret ''turso-token''),
      planetscaleHost = Str (demo_secret ''aws.connect.psdb.cloud''),
      planetscaleUsername = Str (demo_secret ''ps-user''),
      planetscalePassword = Str (demo_secret ''ps-password'')\<rparr>"

definition demo_world :: world where
  "demo_world =
     \<lparr>request_headers = [''x-user-id'' \<mapsto> ''u1''],
      search_params = Map.empty,
      param_tableName = ''users'',
      request_json = Inr (Some [(''query'', JString ''DROP TABLE users'')]),
      now_ms = 1000,
      start_time = 1000,
      end_time = 1005,
      env_redirect_uri = Some ''https://app.example/callback'',
      cenv = demo_crypto,
      random_ivs = (\<lambda>n. replicate 16 (of_nat n)),
      encodeURIComponent = (\<lambda>s. s),
      db_findUnique = (\<lambda>u p. Inr (Some demo_integration)),
      db_upsert = (\<lambda>a. None),
      db_log_create = (\<lambda>p. None),
      client_create = (\<lambda>c. None),
      neon_sql = (\<lambda>c q. Inr []),
      supabase_rpc = (\<lambda>c f q. Inr \<lparr>rpc_data = DataArray [], rpc_error = None\<rparr>),
      turso_execute = (\<lambda>c q a. Inr \<lparr>result_columns = [], result_rows = [], rowsAffected = 1,
                                    lastInsertRowid = Some 1\<rparr>),
      planetscale_execute = (\<lambda>c q. Inr \<lparr>ps_rows = [], ps_rowsAffected = 0\<rparr>),
      oauth_token_endpoint =
        (\<lambda>c r. Inr \<lparr>access_token = ascii ''token'', refresh_token = Null\<rparr>)\<rparr>"

text \<open>
  An active credential record that holds no secret at all, records that hold the secrets
  of one provider and nothing else, and the world in which a given record is the one stored
  for the user.
\<close>

definition empty_integration :: integration where
  "empty_integration =
     \<lparr>isActive = True, supabaseUrl = Null, supabaseAnonKey = Null, supabaseServiceKey = Null,
      neonConnectionString = Null, tursoUrl = Null, tursoAuthToken = Null,
      planetscaleHost = Null, planetscaleUsername = Null, planetscalePassword = Null\<rparr>"

definition neon_only_integration :: integration where
  "neon_only_integration =
     empty_integration\<lparr>neonConnectionString := Str (demo_secret ''postgres://neon/db'')\<rparr>"

definition planetscale_only_integration :: integration where
  "planetscale_only_integration =
     empty_integration\<lparr>planetscaleHost := Str (demo_secret ''aws.connect.psdb.cloud''),
                       planetscaleUsername := Str (demo_secret ''ps-user''),
                       planetscalePassword := Str (demo_secret ''ps-password'')\<rparr>"

definition turso_only_integration :: integration where
  "turso_only_integration =
     empty_integration\<lparr>tursoUrl := Str (demo_secret ''libsql://t.turso.io''),
                       tursoAuthToken := Str (demo_secret ''turso-token'')\<rparr>"

definition world_with :: "integration \<Rightarrow> world" where
  "world_with i = demo_world\<lparr>db_findUnique := (\<lambda>u p. Inr (Some i))\<rparr>"

definition demo_state :: exec_state where
  "demo_state = \<lparr>trace = [], rateLimitStore = Map.empty, cookieStore = Map.empty\<rparr>"

text \<open>
  An insert of one row by user \<open>u1\<close>, whose Turso window already counts 100 operations;
  and an OAuth callback whose \<open>state\<close> parameter is \<open>xyz\<close> while the cookie holds \<open>abc\<close>.
\<close>

definition demo_insert_world :: world where
  "demo_insert_world = demo_world\<lparr>request_json := Inr (Some [(''name'', JString ''Ada'')])\<rparr>"

definition saturated_state :: exec_state where
  "saturated_state =
     demo_state\<lparr>rateLimitStore :=
       [''u1:turso'' \<mapsto> \<lparr>count = 100, resetAt = 60000\<rparr>,
        ''u1:neon'' \<mapsto> \<lparr>count = 100, resetAt = 60000\<rparr>]\<rparr>"

definition demo_callback_world :: "string \<Rightarrow> world" where
  "demo_callback_world st =
     demo_world\<lparr>search_params := [''code'' \<mapsto> ''c1'', ''state'' \<mapsto> st]\<rparr>"

definition demo_callback_state :: exec_state where
  "demo_callback_state = demo_state\<lparr>cookieStore := [''convex_oauth_state'' \<mapsto> ''abc'']\<rparr>"

section \<open>Properties of the codings\<close>

lemma split64: "(n::nat) div 64 * 64 + n mod 64 = n"
  by simp

lemma scale_split: "(a::nat) = q * 64 + r \<Longrightarrow> q * (64 * k) + r * k = a * k"
  by (simp add: algebra_simps)

lemma split4096: "(n::nat) div 4096 * 4096 + (n div 64) mod 64 * 64 + n mod 64 = n"
proof -
  have d: "n div 4096 = n div 64 div 64" by (simp add: div_mult2_eq[symmetric])
  have "n div 64 = n div 64 div 64 * 64 + n div 64 mod 64" by simp
  from scale_split[OF this, of 64]
  have "n div 64 div 64 * 4096 + n div 64 mod 64 * 64 = n div 64 * 64" by simp
  with d show ?thesis by simp
qed

lemma split262144:
  "(n::nat) div 262144 * 262144 + (n div 4096) mod 64 * 4096 + (n div 64) mod 64 * 64 + n mod 64 = n"
proof -
  have d: "n div 262144 = n div 4096 div 64" by (simp add: div_mult2_eq[symmetric])
  have "n div 4096 = n div 4096 div 64 * 64 + n div 4096 mod 64" by simp
  from scale_split[OF this, of 4096]
  have "n div 4096 div 64 * 262144 + n div 4096 mod 64 * 4096 = n div 4096 * 4096" by simp
  with d split4096[of n] show ?thesis by simp
qed

lemma decode_1: "b0 < 0x80 \<Longrightarrow>
  units_of_utf8 (b0 # bs) = map_option (\<lambda>us. b0 # us) (units_of_utf8 bs)"
  by simp

lemma decode_2: "0xC2 \<le> b0 \<Longrightarrow> b0 \<le> 0xDF \<Longrightarrow> is_continuation b1 \<Longrightarrow>
  units_of_utf8 (b0 # b1 # bs) =
    map_option (\<lambda>us. ((b0 - 0xC0) * 64 + (b1 - 0x80)) # us) (units_of_utf8 bs)"
  by simp

lemma decode_3: "0xE0 \<le> b0 \<Longrightarrow> b0 \<le> 0xEF \<Longrightarrow> is_continuation b1 \<Longrightarrow> is_continuation b2 \<Longrightarrow>
  0x800 \<le> (b0 - 0xE0) * 4096 + (b1 - 0x80) * 64 + (b2 - 0x80) \<Longrightarrow>
  \<not> is_surrogate ((b0 - 0xE0) * 4096 + (b1 - 0x80) * 64 + (b2 - 0x80)) \<Longrightarrow>
  units_of_utf8 (b0 # b1 # b2 # bs) =
    map_option (\<lambda>us. ((b0 - 0xE0) * 4096 + (b1 - 0x80) * 64 + (b2 - 0x80)) # us) (units_of_utf8 bs)"
  by (simp add: Let_def)

lemma decode_4: "0xF0 \<le> b0 \<Longrightarrow> b0 \<le> 0xF4 \<Longrightarrow>
  is_continuation b1 \<Longrightarrow> is_continuation b2 \<Longrightarrow> is_continuation b3 \<Longrightarrow>
  cp = (b0 - 0xF0) * 262144 + (b1 - 0x80) * 4096 + (b2 - 0x80) * 64 + (b3 - 0x80) \<Longrightarrow>
  0x10000 \<le> cp \<Longrightarrow> cp \<le> 0x10FFFF \<Longrightarrow>
  units_of_utf8 (b0 # b1 # b2 # b3 # bs) =
    map_option (\<lambda>us. (0xD800 + (cp - 0x10000) div 1024) # (0xDC00 + (cp - 0x10000) mod 1024) # us)
      (units_of_utf8 bs)"
  by (simp add: Let_def)

lemma cont_mod: "is_continuation (0x80 + n mod 64)"
proof -
  have "n mod 64 < 64" by simp
  then show ?thesis unfolding is_continuation_def by linarith
qed

lemma dec1: "cp < 0x80 \<Longrightarrow>
  units_of_utf8 (utf8_of_scalar cp @ bs) = map_option (\<lambda>us. cp # us) (units_of_utf8 bs)"
  by (simp add: utf8_of_scalar_def)

lemma dec2:
  assumes "0x80 \<le> cp" "cp < 0x800"
  shows "units_of_utf8 (utf8_of_scalar cp @ bs) = map_option (\<lambda>us. cp # us) (units_of_utf8 bs)"
proof -
  have e: "utf8_of_scalar cp = [0xC0 + cp div 64, 0x80 + cp mod 64]"
    using assms by (simp add: utf8_of_scalar_def)
  have 1: "0xC2 \<le> 0xC0 + cp div 64" "0xC0 + cp div 64 \<le> 0xDF" using assms by linarith+
  have 2: "(0xC0 + cp div 64 - 0xC0) * 64 + (0x80 + cp mod 64 - 0x80) = cp"
    by (simp add: split64)
  show ?thesis
    unfolding e using decode_2[OF 1 cont_mod, of cp bs] by (simp only: 2 append.simps)
qed

lemma dec3:
  assumes "0x800 \<le> cp" "cp < 0x10000" "\<not> is_surrogate cp"
  shows "units_of_utf8 (utf8_of_scalar cp @ bs) = map_option (\<lambda>us. cp # us) (units_of_utf8 bs)"
proof -
  have e: "utf8_of_scalar cp = [0xE0 + cp div 4096, 0x80 + (cp div 64) mod 64, 0x80 + cp mod 64]"
    using assms by (simp add: utf8_of_scalar_def)
  have 1: "0xE0 \<le> 0xE0 + cp div 4096" "0xE0 + cp div 4096 \<le> 0xEF" using assms by linarith+
  have 2: "(0xE0 + cp div 4096 - 0xE0) * 4096 + (0x80 + (cp div 64) mod 64 - 0x80) * 64 +
           (0x80 + cp mod 64 - 0x80) = cp"
    using split4096[of cp] by simp
  show ?thesis
    unfolding e
    using decode_3[OF 1 cont_mod cont_mod, of "cp div 64" cp bs] assms
    by (simp only: 2 append.simps) simp
qed

lemma dec4:
  assumes "0x10000 \<le> cp" "cp \<le> 0x10FFFF"
  shows "units_of_utf8 (utf8_of_scalar cp @ bs) =
    map_option (\<lambda>us. (0xD800 + (cp - 0x10000) div 1024) # (0xDC00 + (cp - 0x10000) mod 1024) # us)
      (units_of_utf8 bs)"
proof -
  have e: "utf8_of_scalar cp = [0xF0 + cp div 262144, 0x80 + (cp div 4096) mod 64,
            0x80 + (cp div 64) mod 64, 0x80 + cp mod 64]"
    using assms by (simp add: utf8_of_scalar_def)
  have 1: "0xF0 \<le> 0xF0 + cp div 262144" "0xF0 + cp div 262144 \<le> 0xF4" using assms by linarith+
  have 2: "cp = (0xF0 + cp div 262144 - 0xF0) * 262144 + (0x80 + (cp div 4096) mod 64 - 0x80) * 4096 +
           (0x80 + (cp div 64) mod 64 - 0x80) * 64 + (0x80 + cp mod 64 - 0x80)"
    using split262144[of cp] by simp
  show ?thesis
    unfolding e
    using decode_4[OF 1 cont_mod cont_mod cont_mod 2 assms, of bs]
    by (simp only: append.simps)
qed


lemma dec_bmp:
  assumes "cp < 0x10000" "\<not> is_surrogate cp"
  shows "units_of_utf8 (utf8_of_scalar cp @ bs) = map_option (\<lambda>us. cp # us) (units_of_utf8 bs)"
proof -
  consider "cp < 0x80" | "0x80 \<le> cp" "cp < 0x800" | "0x800 \<le> cp" by linarith
  then show ?thesis
    using assms by cases (simp_all add: dec1 dec2 dec3)
qed

lemma replaced_scalar:
  "u < 0x10000 \<Longrightarrow> (if is_surrogate u then 0xFFFD else u) < 0x10000 \<and>
     \<not> is_surrogate (if is_surrogate u then 0xFFFD else u)"
  by (simp add: is_surrogate_def)

lemma dec_pair_offsets:
  assumes "a \<le> 0x3FF" "b < 1024"
  shows "units_of_utf8 (utf8_of_scalar (0x10000 + a * 1024 + b) @ bs) =
           map_option (\<lambda>us. (0xD800 + a) # (0xDC00 + b) # us) (units_of_utf8 bs)"
proof -
  let ?cp = "0x10000 + a * 1024 + b"
  have r: "0x10000 \<le> ?cp" "?cp \<le> 0x10FFFF" using assms by linarith+
  have "?cp - 0x10000 = a * 1024 + b" by simp
  then have "(?cp - 0x10000) div 1024 = a" "(?cp - 0x10000) mod 1024 = b"
    using assms by simp_all
  with dec4[OF r, of bs] show ?thesis by (simp only:)
qed

lemma dec_pair:
  assumes "is_high_surrogate u" "is_low_surrogate v"
  shows "units_of_utf8 (utf8_of_scalar (0x10000 + (u - 0xD800) * 1024 + (v - 0xDC00)) @ bs) =
           map_option (\<lambda>us. u # v # us) (units_of_utf8 bs)"
proof -
  have hu: "u - 0xD800 \<le> 0x3FF" "0xD800 + (u - 0xD800) = u"
    using assms unfolding is_high_surrogate_def by linarith+
  have lv: "v - 0xDC00 < 1024" "0xDC00 + (v - 0xDC00) = v"
    using assms unfolding is_low_surrogate_def by linarith+
  from dec_pair_offsets[OF hu(1) lv(1), of bs] show ?thesis
    by (simp only: hu(2) lv(2))
qed

lemma roundtrip_units:
  "\<forall>u \<in> set us. u < 0x10000 \<Longrightarrow>
     units_of_utf8 (utf8_of_units us) = Some (well_formed_units us)"
proof (induction us rule: utf8_of_units.induct)
  case 1
  then show ?case by simp
next
  case (2 u)
  then have "u < 0x10000" by simp
  from replaced_scalar[OF this] dec_bmp[of "if is_surrogate u then 0xFFFD else u" "[]"]
  show ?case by simp
next
  case (3 u v us)
  show ?case
  proof (cases "is_high_surrogate u \<and> is_low_surrogate v")
    case True
    with 3 have "units_of_utf8 (utf8_of_units us) = Some (well_formed_units us)" by simp
    moreover have "utf8_of_units (u # v # us) =
        utf8_of_scalar (0x10000 + (u - 0xD800) * 1024 + (v - 0xDC00)) @ utf8_of_units us"
      "well_formed_units (u # v # us) = u # v # well_formed_units us"
      using True by simp_all
    ultimately show ?thesis using True dec_pair[of u v "utf8_of_units us"] by (simp only: option.map)
  next
    case False
    with 3 have ih: "units_of_utf8 (utf8_of_units (v # us)) = Some (well_formed_units (v # us))"
      by simp
    from 3 have "u < 0x10000" by simp
    from replaced_scalar[OF this]
    have d: "units_of_utf8 (utf8_of_scalar (if is_surrogate u then 0xFFFD else u) @
                utf8_of_units (v # us)) =
             map_option (\<lambda>us. (if is_surrogate u then 0xFFFD else u) # us)
               (units_of_utf8 (utf8_of_units (v # us)))"
      by (intro dec_bmp) simp_all
    have e: "utf8_of_units (u # v # us) =
        utf8_of_scalar (if is_surrogate u then 0xFFFD else u) @ utf8_of_units (v # us)"
      using False by (simp only: utf8_of_units.simps if_False)
    have w: "well_formed_units (u # v # us) =
        (if is_surrogate u then 0xFFFD else u) # well_formed_units (v # us)"
      using False by (simp only: well_formed_units.simps if_False)
    show ?thesis by (simp only: e w d ih option.map)
  qed
qed

lemma well_formed_units_id: "is_well_formed_units us \<Longrightarrow> well_formed_units us = us"
  by (induction us rule: well_formed_units.induct) (auto split: if_splits)

lemma well_formed_units_iff: "well_formed_units us = us \<longleftrightarrow> is_well_formed_units us"
proof
  show "well_formed_units us = us \<Longrightarrow> is_well_formed_units us"
    by (induction us rule: well_formed_units.induct)
       (auto simp: is_surrogate_def split: if_splits)
qed (rule well_formed_units_id)

lemma utf8_scalar_bytes: "cp \<le> 0x10FFFF \<Longrightarrow> \<forall>b \<in> set (utf8_of_scalar cp). b < 256"
proof -
  assume a: "cp \<le> 0x10FFFF"
  have 1: "cp mod 64 < 64" "(cp div 64) mod 64 < 64" "(cp div 4096) mod 64 < 64" by simp_all
  have 2: "cp < 0x800 \<Longrightarrow> cp div 64 < 32" "cp < 0x10000 \<Longrightarrow> cp div 4096 < 16"
    "cp div 262144 \<le> 4" using a by linarith+
  show ?thesis
    unfolding utf8_of_scalar_def using 1 2 by (auto simp: less_Suc_eq_le)
qed

lemma utf8_units_bytes:
  "\<forall>u \<in> set us. u < 0x10000 \<Longrightarrow> \<forall>b \<in> set (utf8_of_units us). b < 256"
proof (induction us rule: utf8_of_units.induct)
  case 1
  then show ?case by simp
next
  case (2 u)
  then have "(if is_surrogate u then 0xFFFD else u) \<le> 0x10FFFF" by simp
  from utf8_scalar_bytes[OF this] show ?case by simp
next
  case (3 u v us)
  have a: "(if is_surrogate u then 0xFFFD else u) \<le> 0x10FFFF" using 3 by simp
  have b: "is_high_surrogate u \<Longrightarrow> is_low_surrogate v \<Longrightarrow>
      0x10000 + (u - 0xD800) * 1024 + (v - 0xDC00) \<le> (0x10FFFF::nat)"
    unfolding is_high_surrogate_def is_low_surrogate_def by linarith
  show ?case
    using 3 utf8_scalar_bytes[OF a] utf8_scalar_bytes[OF b] by auto
qed

lemma well_formed_units_bound:
  "\<forall>u \<in> set us. u < 0x10000 \<Longrightarrow> \<forall>u \<in> set (well_formed_units us). u < 0x10000"
  by (induction us rule: well_formed_units.induct) auto

lemma below_surrogates_well_formed:
  "\<forall>u \<in> set us. u < 0xD800 \<Longrightarrow> is_well_formed_units us"
  by (induction us rule: is_well_formed_units.induct) (auto simp: is_surrogate_def)

lemma unat_units: "\<forall>u \<in> set (map unat (s :: jstext)). u < 0x10000"
proof -
  have "unat (w :: 16 word) < 2 ^ LENGTH(16)" for w by (rule unsigned_less)
  then show ?thesis by simp
qed

lemma unat_of_nat_bytes: "\<forall>b \<in> set bs. b < 256 \<Longrightarrow> map unat (map of_nat bs :: byte list) = bs"
  by (induction bs) (simp_all add: unat_of_nat)

lemma unat_of_nat_units:
  "\<forall>u \<in> set us. u < 0x10000 \<Longrightarrow> map unat (map of_nat us :: jstext) = us"
  by (induction us) (simp_all add: unat_of_nat)

lemma of_nat_unat_units: "map of_nat (map unat (s :: jstext)) = s"
  by (induction s) simp_all

text \<open>Decoding the UTF-8 coding of a string gives the string made well-formed.\<close>

lemma utf8_decode_encode: "utf8_decode E (utf8_encode s) = toWellFormed s"
proof -
  let ?us = "map unat s"
  have "map unat (utf8_encode s) = utf8_of_units ?us"
    unfolding utf8_encode_def using utf8_units_bytes[OF unat_units] by (rule unat_of_nat_bytes)
  then have "utf8_decode_strict (utf8_encode s) = Some (toWellFormed s)"
    by (simp add: utf8_decode_strict_def toWellFormed_def roundtrip_units[OF unat_units])
  then show ?thesis by (simp add: utf8_decode_def)
qed

lemma toWellFormed_id_iff: "toWellFormed s = s \<longleftrightarrow> isWellFormed s"
proof
  assume a: "toWellFormed s = s"
  have "map unat (toWellFormed s) = well_formed_units (map unat s)"
    unfolding toWellFormed_def
    by (rule unat_of_nat_units[OF well_formed_units_bound[OF unat_units]])
  with a have "well_formed_units (map unat s) = map unat s" by simp
  then show "isWellFormed s" by (simp add: isWellFormed_def well_formed_units_iff)
next
  assume "isWellFormed s"
  then show "toWellFormed s = s"
    using of_nat_unat_units[of s]
    by (simp only: isWellFormed_def toWellFormed_def well_formed_units_id)
qed

lemma unat_ascii: "map unat (ascii s) = map of_char s"
proof -
  have "unat (of_nat (of_char c) :: 16 word) = of_char c" for c
  proof -
    have "(of_char c :: nat) < 65536" using nat_of_char_less_256[of c] by linarith
    then show ?thesis by (simp add: unat_of_nat)
  qed
  then show ?thesis by (simp add: ascii_def)
qed

lemma ascii_well_formed: "isWellFormed (ascii s)"
proof -
  have "(of_char c :: nat) < 0xD800" for c using nat_of_char_less_256[of c] by linarith
  then have "\<forall>u \<in> set (map unat (ascii s)). u < 0xD800" by (auto simp: unat_ascii)
  then show ?thesis unfolding isWellFormed_def by (rule below_surrogates_well_formed)
qed

text \<open>ASCII text is its own UTF-8 coding.\<close>

lemma utf8_of_units_ascii: "\<forall>u \<in> set us. u < 0x80 \<Longrightarrow> utf8_of_units us = us"
  by (induction us rule: utf8_of_units.induct)
     (auto simp: utf8_of_scalar_def is_surrogate_def is_high_surrogate_def)

lemma utf8_encode_ascii:
  "\<forall>c \<in> set s. (of_char c :: nat) < 0x80 \<Longrightarrow>
     utf8_encode (ascii s) = map (\<lambda>c. of_nat (of_char c)) s"
  by (simp add: utf8_encode_def unat_ascii utf8_of_units_ascii)

section \<open>Properties of the secret cipher\<close>

lemma hexval_hexdigit: "n < 16 \<Longrightarrow> hexval (hexdigit n) = Some n"
proof -
  assume "n < 16"
  then have "n \<in> {0,1,2,3,4,5,6,7,8,9,10,11,12,13,14,15}" 
    by (simp add: eval_nat_numeral less_Suc_eq)
  then show ?thesis
    by (auto simp: hexval_def hexdigit_def)
qed

lemma hexdigit_not_colon: "n < 16 \<Longrightarrow> hexdigit n \<noteq> CHR '':''"
proof -
  assume "n < 16"
  then have "n \<in> {0,1,2,3,4,5,6,7,8,9,10,11,12,13,14,15}" 
    by (simp add: eval_nat_numeral less_Suc_eq)
  then show ?thesis
    by (auto simp: hexdigit_def)
qed

lemma unat_byte_div: "unat (b::byte) div 16 < 16"
proof -
  have "unat b < 2 ^ LENGTH(8)" by (rule unsigned_less)
  then show ?thesis by simp
qed

lemma from_hex_to_hex: "from_hex (to_hex bs) = bs"
  by (induction bs) (simp_all add: hexval_hexdigit unat_byte_div)

lemma colon_notin_to_hex: "CHR '':'' \<notin> set (to_hex bs)"
  by (induction bs) (auto dest: sym simp: hexdigit_not_colon unat_byte_div)

lemma js_split_no_sep: "c \<notin> set s \<Longrightarrow> js_split c s = [s]"
  by (induction s) auto

lemma js_split_append: "c \<notin> set s \<Longrightarrow> js_split c (s @ c # t) = s # js_split c t"
  by (induction s) auto

lemma to_hex_eq_Nil: "to_hex bs = [] \<longleftrightarrow> bs = []"
  by (cases bs) auto


lemma length_to_hex: "length (to_hex bs) = 2 * length bs"
  by (induction bs) auto

lemma even_length_to_hex: "even (length (to_hex bs))"
  by (simp add: length_to_hex)

lemma decrypt_encrypt_aux:
  assumes key: "getEncryptionKey E = Inr key"
    and klen: "length key = KEY_LENGTH"
    and snd: "cipher_sound E"
    and iv: "length iv = IV_LENGTH"
  shows "\<exists>ct. ct \<noteq> [] \<and> cipher_run E key iv (utf8_encode s) = Inr ct \<and>
           encrypt E iv s = Inr (to_hex iv @ '':'' @ to_hex ct) \<and>
           decrypt E (to_hex iv @ '':'' @ to_hex ct) = Inr (toWellFormed s)"
proof -
  from snd klen iv obtain ct where ct: "cipher_run E key iv (utf8_encode s) = Inr ct" "ct \<noteq> []"
      "decipher_run E key iv ct = Inr (utf8_encode s)"
    unfolding cipher_sound_def by blast
  have chk: "cipher_check key iv = None"
    using klen iv by (simp add: cipher_check_def KEY_LENGTH_def IV_LENGTH_def)
  have ivne: "to_hex iv \<noteq> []" using iv by (simp add: to_hex_eq_Nil IV_LENGTH_def) auto
  have ctne: "to_hex ct \<noteq> []" using ct(2) by (simp add: to_hex_eq_Nil)
  have sp: "js_split CHR '':'' (to_hex iv @ '':'' @ to_hex ct) = [to_hex iv, to_hex ct]"
    using js_split_append[OF colon_notin_to_hex, of iv "to_hex ct"]
    by (simp add: js_split_no_sep colon_notin_to_hex)
  have e: "encrypt E iv s = Inr (to_hex iv @ '':'' @ to_hex ct)"
    by (simp add: encrypt_def key chk ct(1))
  have d: "decrypt E (to_hex iv @ '':'' @ to_hex ct) = Inr (toWellFormed s)"
    unfolding decrypt_def using ivne ctne sp
    by (simp add: key from_hex_to_hex chk even_length_to_hex ct(3) utf8_decode_encode)
  show ?thesis using ct(1,2) e d by blast
qed

lemma demo_crypto_sound: "cipher_sound demo_crypto"
  by (simp add: cipher_sound_def demo_crypto_def)

lemma demo_key: "getEncryptionKey demo_crypto = Inr (replicate 32 0x6B)"
proof -
  have "utf8_encode (ascii (replicate 32 CHR ''k'')) = replicate 32 0x6B"
    by (subst utf8_encode_ascii) simp_all
  moreover have "length (ascii (replicate 32 CHR ''k'')) = 32" "ascii (replicate 32 CHR ''k'') \<noteq> []"
    by (simp_all add: ascii_def)
  ultimately show ?thesis by (simp add: getEncryptionKey_def demo_crypto_def KEY_LENGTH_def)
qed

lemma demo_key_length: "length (replicate 32 (0x6B::byte)) = KEY_LENGTH"
  by (simp add: KEY_LENGTH_def)

lemma demo_secret_nonempty: "demo_secret s \<noteq> []"
  by (simp add: demo_secret_def)

lemma decrypt_demo_secret: "decrypt demo_crypto (demo_secret s) = Inr (ascii s)"
proof -
  have l: "length (replicate 16 (7::byte)) = IV_LENGTH" by (simp add: IV_LENGTH_def)
  from decrypt_encrypt_aux[OF demo_key demo_key_length demo_crypto_sound l, of "ascii s"]
  obtain ct where ct:
    "cipher_run demo_crypto (replicate 32 0x6B) (replicate 16 7) (utf8_encode (ascii s)) = Inr ct"
    "decrypt demo_crypto (to_hex (replicate 16 7) @ '':'' @ to_hex ct) = Inr (toWellFormed (ascii s))"
    by blast
  from ct(1) have "ct = 1 # utf8_encode (ascii s)" by (simp add: demo_crypto_def)
  with ct(2) show ?thesis
    using ascii_well_formed[of s] by (simp add: demo_secret_def toWellFormed_id_iff)
qed




text \<open>
  A key of 32 characters outside ASCII has a buffer of more than 32 bytes, which the cipher
  rejects: with such a key every call of \<open>encrypt\<close> fails.
\<close>

lemma utf8_of_units_scalars:
  "\<forall>u \<in> set us. \<not> is_surrogate u \<Longrightarrow> utf8_of_units us = concat (map utf8_of_scalar us)"
  by (induction us rule: utf8_of_units.induct)
     (auto simp: is_surrogate_def is_high_surrogate_def)

lemma encrypt_rejects_long_key:
  "encrypt (demo_crypto\<lparr>ENCRYPTION_KEY := Some (replicate 32 0xE9)\<rparr>) iv text =
     Inl ''Encryption failed: Invalid key length''"
proof -
  have "utf8_of_units (replicate 32 0xE9) = concat (map utf8_of_scalar (replicate 32 0xE9))"
    by (rule utf8_of_units_scalars) (simp add: is_surrogate_def)
  then have "length (utf8_encode (replicate 32 0xE9)) = 64"
    by (simp add: utf8_encode_def utf8_of_scalar_def length_concat sum_list_replicate)
  then show ?thesis
    by (simp add: encrypt_def getEncryptionKey_def KEY_LENGTH_def cipher_check_def)
qed

text \<open>
  Claim C10. \<open>encryptOptional v\<close> returns \<open>null\<close> exactly when \<open>v\<close> is \<open>null\<close>,
  \<open>undefined\<close> or the empty string (so an empty secret is stored as \<open>null\<close>), and on
  every other string it is \<open>encrypt v\<close>; \<open>decryptOptional\<close> is the same over ciphertexts.
\<close>

theorem encryptOptional_null_iff:
  "(encryptOptional E iv v = Inr None \<longleftrightarrow> v = Null \<or> v = Undefined \<or> v = Str []) \<and>
   encryptOptional E iv (Str (c # cs)) = map_sum id Some (encrypt E iv (c # cs)) \<and>
   (decryptOptional E h = Inr None \<longleftrightarrow> h = Null \<or> h = Undefined \<or> h = Str []) \<and>
   decryptOptional E (Str (d # ds)) = map_sum id Some (decrypt E (d # ds))"
proof -
  have 1: "map_sum id Some x \<noteq> Inr None" for x :: "string + 'a"
    by (cases x) auto
  show ?thesis
    by (cases v; cases h) (auto simp: encryptOptional_def decryptOptional_def 1)
qed

section \<open>Properties of the rate limiter\<close>

lemma fst_calls_Cons:
  "fst (checkRateLimit_calls store u p (t # ts)) =
     fst (checkRateLimit store t u p) #
     fst (checkRateLimit_calls (snd (checkRateLimit store t u p)) u p ts)"
  by (simp split: prod.splits)

text \<open>
  Inside a window whose entry is \<open>e\<close>, calls pass until the count reaches the cap and are
  refused from then on.
\<close>

lemma calls_in_window:
  "store (u @ '':'' @ p) = Some e \<Longrightarrow> \<forall>t \<in> set ts. t \<le> resetAt e \<Longrightarrow>
   fst (checkRateLimit_calls store u p ts) =
     replicate (min (RATE_LIMIT_MAX - count e) (length ts)) True @
     replicate (length ts - (RATE_LIMIT_MAX - count e)) False"
proof (induction ts arbitrary: store e)
  case Nil
  then show ?case by simp
next
  case (Cons t ts)
  show ?case
  proof (cases "count e \<ge> RATE_LIMIT_MAX")
    case True
    then have step: "checkRateLimit store t u p = (False, store)"
      using Cons.prems by (simp add: checkRateLimit_def)
    from Cons.IH[of store e] Cons.prems True show ?thesis
      by (simp add: step fst_calls_Cons del: checkRateLimit_calls.simps)
  next
    case False
    let ?e' = "e\<lparr>count := count e + 1\<rparr>"
    let ?s' = "store(u @ '':'' @ p \<mapsto> ?e')"
    have step: "checkRateLimit store t u p = (True, ?s')"
      using Cons.prems False by (simp add: checkRateLimit_def)
    have "fst (checkRateLimit_calls ?s' u p ts) =
      replicate (min (RATE_LIMIT_MAX - count ?e') (length ts)) True @
      replicate (length ts - (RATE_LIMIT_MAX - count ?e')) False"
      using Cons.prems by (intro Cons.IH) auto
    moreover have "RATE_LIMIT_MAX - count e = Suc (RATE_LIMIT_MAX - count ?e')"
      using False by simp
    ultimately show ?thesis
      by (simp add: step fst_calls_Cons del: checkRateLimit_calls.simps)
  qed
qed

lemma first_call_opens_window:
  assumes "store (u @ '':'' @ p) = None \<or> (\<exists>e. store (u @ '':'' @ p) = Some e \<and> t0 > resetAt e)"
  shows "checkRateLimit store t0 u p =
     (True, store(u @ '':'' @ p \<mapsto> \<lparr>count = 1, resetAt = t0 + RATE_LIMIT_WINDOW_MS\<rparr>))"
  using assms by (auto simp: checkRateLimit_def)

text \<open>
  Claim C6. For a fixed user and provider, let a call at time \<open>t0\<close> open a window (no entry
  yet, or the entry's \<open>resetAt\<close> has elapsed) and let the following calls come no later than
  \<open>t0 + 60000\<close>. Then the first 100 calls return true and every later one, the 101st
  included, returns false. And any call made after \<open>resetAt\<close> has elapsed returns true and
  resets the entry to a count of 1 with a new window.
\<close>

theorem checkRateLimit_window:
  "((store (u @ '':'' @ p) = None \<or> (\<exists>e. store (u @ '':'' @ p) = Some e \<and> t0 > resetAt e)) \<and>
    (\<forall>t \<in> set ts. t \<le> t0 + 60000) \<longrightarrow>
      fst (checkRateLimit_calls store u p (t0 # ts)) =
        replicate (min 100 (Suc (length ts))) True @ replicate (Suc (length ts) - 100) False) \<and>
   (\<forall>e now. store (u @ '':'' @ p) = Some e \<and> now > resetAt e \<longrightarrow>
      checkRateLimit store now u p =
        (True, store(u @ '':'' @ p \<mapsto> \<lparr>count = 1, resetAt = now + 60000\<rparr>)))"
proof (intro conjI impI allI)
  assume h: "(store (u @ '':'' @ p) = None \<or> (\<exists>e. store (u @ '':'' @ p) = Some e \<and> t0 > resetAt e)) \<and>
    (\<forall>t \<in> set ts. t \<le> t0 + 60000)"
  then have fresh: "store (u @ '':'' @ p) = None \<or>
      (\<exists>e. store (u @ '':'' @ p) = Some e \<and> t0 > resetAt e)"
    and win: "\<forall>t \<in> set ts. t \<le> t0 + 60000" by blast+
  let ?e = "\<lparr>count = 1, resetAt = t0 + RATE_LIMIT_WINDOW_MS\<rparr>"
  let ?s = "store(u @ '':'' @ p \<mapsto> ?e)"
  have "fst (checkRateLimit_calls ?s u p ts) =
     replicate (min (RATE_LIMIT_MAX - count ?e) (length ts)) True @
     replicate (length ts - (RATE_LIMIT_MAX - count ?e)) False"
    using win by (intro calls_in_window) (auto simp: RATE_LIMIT_WINDOW_MS_def)
  then show "fst (checkRateLimit_calls store u p (t0 # ts)) =
       replicate (min 100 (Suc (length ts))) True @ replicate (Suc (length ts) - 100) False"
    using first_call_opens_window[of store u p t0] fresh
    by (simp add: fst_calls_Cons RATE_LIMIT_MAX_def del: checkRateLimit_calls.simps)
next
  fix e now
  assume "store (u @ '':'' @ p) = Some e \<and> now > resetAt e"
  then show "checkRateLimit store now u p =
        (True, store(u @ '':'' @ p \<mapsto> \<lparr>count = 1, resetAt = now + 60000\<rparr>))"
    using first_call_opens_window[of store u p now] by (auto simp: RATE_LIMIT_WINDOW_MS_def)
qed

theorem checkRateLimit_window_witness:
  "(Map.empty :: rate_store) (''u1'' @ '':'' @ ''neon'') = None \<and>
   list_all (\<lambda>t. t \<le> 0 + 60000) (replicate 100 (59999::int)) \<and>
   fst (checkRateLimit_calls Map.empty ''u1'' ''neon'' (0 # replicate 100 59999)) =
     replicate 100 True @ [False] \<and>
   [''u1:neon'' \<mapsto> \<lparr>count = 100, resetAt = 60000\<rparr>] (''u1'' @ '':'' @ ''neon'')
     = Some \<lparr>count = 100, resetAt = 60000\<rparr> \<and>
   (60001::int) > resetAt \<lparr>count = 100, resetAt = 60000\<rparr> \<and>
   checkRateLimit [''u1:neon'' \<mapsto> \<lparr>count = 100, resetAt = 60000\<rparr>] 60001 ''u1'' ''neon'' =
     (True, [''u1:neon'' \<mapsto> \<lparr>count = 100, resetAt = 60000\<rparr>]
              (''u1'' @ '':'' @ ''neon'' \<mapsto> \<lparr>count = 1, resetAt = 60001 + 60000\<rparr>))"
proof -
  have a: "(Map.empty :: rate_store) (''u1'' @ '':'' @ ''neon'') = None" by simp
  have b: "\<forall>t \<in> set (replicate 100 (59999::int)). t \<le> 0 + 60000" by simp
  have c: "[''u1:neon'' \<mapsto> \<lparr>count = 100, resetAt = 60000\<rparr>] (''u1'' @ '':'' @ ''neon'')
     = Some \<lparr>count = 100, resetAt = 60000\<rparr>" by simp
  have d: "(60001::int) > resetAt \<lparr>count = 100, resetAt = 60000\<rparr>" by simp
  from checkRateLimit_window[of Map.empty "''u1''" "''neon''" 0 "replicate 100 59999"] a b
  have e: "fst (checkRateLimit_calls Map.empty ''u1'' ''neon'' (0 # replicate 100 59999)) =
     replicate 100 True @ [False]" by simp
  from checkRateLimit_window[of "[''u1:neon'' \<mapsto> \<lparr>count = 100, resetAt = 60000\<rparr>]" "''u1''" "''neon''"] c d
  have f: "checkRateLimit [''u1:neon'' \<mapsto> \<lparr>count = 100, resetAt = 60000\<rparr>] 60001 ''u1'' ''neon'' =
     (True, [''u1:neon'' \<mapsto> \<lparr>count = 100, resetAt = 60000\<rparr>]
              (''u1'' @ '':'' @ ''neon'' \<mapsto> \<lparr>count = 1, resetAt = 60001 + 60000\<rparr>))"
    by blast
  have b': "list_all (\<lambda>t. t \<le> 0 + 60000) (replicate 100 (59999::int))"
    by (simp add: list_all_iff)
  show ?thesis using a b' c d e f by blast
qed

section \<open>Executing a handler step by step\<close>

text \<open>
  One equation per kind of statement: what \<open>then_do\<close> of that statement and a continuation
  does to a state. With them a handler is evaluated from its first statement on.
\<close>

lemma then_do_assoc: "then_do (then_do m g) f = then_do m (\<lambda>x. then_do (g x) f)"
  by (auto simp: then_do_def fun_eq_iff split: prod.splits outcome.splits)

lemma then_do_pure: "then_do (pure a) f s = f a s"
  by (simp add: then_do_def pure_def)

lemma then_do_throw: "then_do (throw e) f s = (Throw e, s)"
  by (simp add: then_do_def throw_def)

lemma then_do_return: "then_do (return_response r) f s = (Return r, s)"
  by (simp add: then_do_def return_response_def)

lemma then_do_if: "then_do (if c then a else b) f s = (if c then then_do a f s else then_do b f s)"
  by simp

lemma then_do_return_if: "then_do (return_if c r) f s = (if c then (Return r, s) else f () s)"
  by (simp add: return_if_def then_do_return then_do_pure)

lemma then_do_emit: "then_do (emit e) f s = f () (s\<lparr>trace := trace s @ [e]\<rparr>)"
  by (simp add: then_do_def emit_def)

lemma then_do_of_result:
  "then_do (of_result x) f s = (case x of Inl e \<Rightarrow> (Throw e, s) | Inr a \<Rightarrow> f a s)"
  by (simp add: of_result_def then_do_throw then_do_pure split: sum.splits)

lemma then_do_getCurrentUserId:
  "then_do (getCurrentUserId_step w) f s =
     f (getCurrentUserId (request_headers w)) (s\<lparr>trace := trace s @ [ResolveIdentity]\<rparr>)"
  by (simp add: getCurrentUserId_step_def then_do_assoc then_do_emit then_do_pure)

lemma then_do_checkRateLimit:
  "then_do (checkRateLimit_step w u p) f s =
     f (fst (checkRateLimit (rateLimitStore s) (now_ms w) u p))
       (s\<lparr>trace := trace s @ [RateLimitCheck u p],
          rateLimitStore := snd (checkRateLimit (rateLimitStore s) (now_ms w) u p)\<rparr>)"
  by (simp add: checkRateLimit_step_def then_do_def split: prod.splits)

lemma then_do_validate:
  "then_do (validateIntegrationAccess_step w u p) f s =
     (case validateIntegrationAccess w u p of
        Inl e \<Rightarrow> (Throw e, s\<lparr>trace := trace s @ [Authorize u p]\<rparr>)
      | Inr i \<Rightarrow> f i (s\<lparr>trace := trace s @ [Authorize u p]\<rparr>))"
  by (simp add: validateIntegrationAccess_step_def then_do_assoc then_do_emit then_do_of_result)

lemma then_do_decrypt:
  "then_do (decrypt_step w h) f s =
     (case decrypt (cenv w) h of Inl msg \<Rightarrow> (Throw (Error msg), s) | Inr p \<Rightarrow> f p s)"
  by (simp add: decrypt_step_def then_do_throw then_do_pure split: sum.splits)

lemma then_do_create_client:
  "then_do (create_client w spec) f s =
     (case client_create w spec of
        None \<Rightarrow> f spec (s\<lparr>trace := trace s @ [ClientCreate spec]\<rparr>)
      | Some e \<Rightarrow> (Throw e, s\<lparr>trace := trace s @ [ClientCreate spec]\<rparr>))"
  by (simp add: create_client_def then_do_assoc then_do_emit then_do_throw then_do_pure
      split: option.splits)

lemma then_do_request_json:
  "then_do (request_json_step w) f s =
     (case request_json w of Inl e \<Rightarrow> (Throw e, s) | Inr b \<Rightarrow> f b s)"
  by (simp add: request_json_step_def then_do_of_result)

lemma then_do_body_prop:
  "then_do (body_prop body name) f s =
     (case body of
        None \<Rightarrow> (Throw (Error ''Cannot destructure property of null''), s)
      | Some props \<Rightarrow> f (case map_of props name of None \<Rightarrow> JUndefined | Some v \<Rightarrow> v) s)"
  by (simp add: body_prop_def then_do_throw then_do_pure split: option.splits)

lemma then_do_optional_trim:
  "then_do (optional_trim q) f s =
     (case q of
        JUndefined \<Rightarrow> f Undefined s
      | JNull \<Rightarrow> f Undefined s
      | JString x \<Rightarrow> f (Str (js_trim x)) s
      | _ \<Rightarrow> (Throw (Error ''query.trim is not a function''), s))"
  by (cases q) (simp_all add: then_do_throw then_do_pure)

lemma then_do_log:
  "then_do (logIntegrationOperation w p) f s =
     f () (s\<lparr>trace := trace s @
         [case db_log_create w p of None \<Rightarrow> AuditLogged p | Some e \<Rightarrow> AuditFailed p]\<rparr>)"
  by (simp add: logIntegrationOperation_def then_do_emit split: option.splits)

lemma then_do_neon_query:
  "then_do (neon_query w c q) f s =
     (case neon_sql w c q of
        Inl e \<Rightarrow> (Throw e, s\<lparr>trace := trace s @ [RemoteCall c (RawSql q)]\<rparr>)
      | Inr rows \<Rightarrow> f rows (s\<lparr>trace := trace s @ [RemoteCall c (RawSql q)]\<rparr>))"
  by (simp add: neon_query_def then_do_assoc then_do_emit then_do_of_result)

lemma return_response_apply: "return_response r s = (Return r, s)"
  by (simp add: return_response_def)

lemma then_do_supabase_exec_sql:
  "then_do (supabase_exec_sql w c q) f s =
     (case supabase_rpc w c ''exec_sql'' q of
        Inl e \<Rightarrow> (Throw e, s\<lparr>trace := trace s @ [RemoteCall c (Rpc ''exec_sql'' q)]\<rparr>)
      | Inr res \<Rightarrow> f res (s\<lparr>trace := trace s @ [RemoteCall c (Rpc ''exec_sql'' q)]\<rparr>))"
  by (simp add: supabase_exec_sql_def then_do_assoc then_do_emit then_do_of_result)

lemma then_do_turso_client_execute:
  "then_do (turso_client_execute w c q args) f s =
     (case turso_execute w c q args of
        Inl e \<Rightarrow> (Throw e, s\<lparr>trace := trace s @ [RemoteCall c (Execute q args)]\<rparr>)
      | Inr res \<Rightarrow> f res (s\<lparr>trace := trace s @ [RemoteCall c (Execute q args)]\<rparr>))"
  by (simp add: turso_client_execute_def then_do_assoc then_do_emit then_do_of_result)

lemma then_do_planetscale_conn_execute:
  "then_do (planetscale_conn_execute w c q) f s =
     (case planetscale_execute w c q of
        Inl e \<Rightarrow> (Throw e, s\<lparr>trace := trace s @ [RemoteCall c (RawSql q)]\<rparr>)
      | Inr res \<Rightarrow> f res (s\<lparr>trace := trace s @ [RemoteCall c (RawSql q)]\<rparr>))"
  by (simp add: planetscale_conn_execute_def then_do_assoc then_do_emit then_do_of_result)

lemma json_insert_response_apply:
  "json_insert_response affected rowid s =
     (case rowid of
        Some n \<Rightarrow> (Throw (Error ''Do not know how to serialize a BigInt''), s)
      | None \<Rightarrow> (Return (Json (successResponse (TursoInsertPayload affected)) 200), s))"
  by (simp add: json_insert_response_def throw_def return_response_def split: option.splits)

lemma then_do_object_keys:
  "then_do (object_keys body) f s =
     (case body of
        None \<Rightarrow> (Throw (Error ''Cannot convert undefined or null to object''), s)
      | Some props \<Rightarrow> f (map fst props) s)"
  by (simp add: object_keys_def then_do_throw then_do_pure split: option.splits)

lemma then_do_get_cookie:
  "then_do (get_cookie name) f s =
     f (case cookieStore s name of None \<Rightarrow> Undefined | Some v \<Rightarrow> Str v) s"
  by (simp add: get_cookie_def then_do_def)

lemma then_do_delete_cookie:
  "then_do (delete_cookie name) f s =
     f () (s\<lparr>trace := trace s @ [CookieDelete name],
              cookieStore := (cookieStore s)(name := None)\<rparr>)"
  by (simp add: delete_cookie_def then_do_def)

lemma then_do_exchange:
  "then_do (exchangeConvexOAuthCode w code uri) f s =
     (case oauth_token_endpoint w code uri of
        Inl e \<Rightarrow> (Throw e, s\<lparr>trace := trace s @ [TokenExchange code uri]\<rparr>)
      | Inr tokens \<Rightarrow> f tokens (s\<lparr>trace := trace s @ [TokenExchange code uri]\<rparr>))"
  by (simp add: exchangeConvexOAuthCode_def then_do_assoc then_do_emit then_do_of_result)

lemma then_do_encrypt:
  "then_do (encrypt_step w n text) f s =
     (case encrypt (cenv w) (random_ivs w n) text of
        Inl msg \<Rightarrow> (Throw (Error msg), s)
      | Inr c \<Rightarrow> f c s)"
  by (simp add: encrypt_step_def then_do_throw then_do_pure split: sum.splits)

lemma then_do_encrypt_refresh:
  "then_do (encrypt_refresh w n tokens) f s =
     (if falsy (refresh_token tokens) then f None s
      else (case encrypt (cenv w) (random_ivs w n) (str_of (refresh_token tokens)) of
              Inl msg \<Rightarrow> (Throw (Error msg), s)
            | Inr c \<Rightarrow> f (Some c) s))"
  by (simp add: encrypt_refresh_def then_do_assoc then_do_encrypt then_do_pure split: sum.splits)

lemma then_do_upsert:
  "then_do (upsert_integration w args) f s =
     (case db_upsert w args of
        None \<Rightarrow> f () (s\<lparr>trace := trace s @ [CredentialUpsert args]\<rparr>)
      | Some e \<Rightarrow> (Throw e, s\<lparr>trace := trace s @ [CredentialUpsert args]\<rparr>))"
  by (simp add: upsert_integration_def then_do_assoc then_do_emit then_do_throw then_do_pure
      split: option.splits)

text \<open>The event of an audit write is no event of a provider adapter.\<close>

lemma audit_event_kind:
  "\<not> is_remote_call (case x of None \<Rightarrow> AuditLogged p | Some e \<Rightarrow> AuditFailed p)"
  "\<not> is_adapter_event (case x of None \<Rightarrow> AuditLogged p | Some e \<Rightarrow> AuditFailed p)"
  "\<not> is_rate_limit_check (case x of None \<Rightarrow> AuditLogged p | Some e \<Rightarrow> AuditFailed p)"
  by (simp_all split: option.splits)

lemmas exec_simps = then_do_assoc then_do_pure then_do_throw then_do_return then_do_if
  then_do_return_if then_do_emit then_do_of_result then_do_getCurrentUserId
  then_do_checkRateLimit then_do_validate then_do_decrypt then_do_create_client
  then_do_request_json then_do_body_prop then_do_optional_trim then_do_log
  then_do_neon_query return_response_apply then_do_supabase_exec_sql
  then_do_turso_client_execute then_do_planetscale_conn_execute json_insert_response_apply
  then_do_object_keys then_do_get_cookie then_do_delete_cookie
  then_do_exchange then_do_encrypt then_do_encrypt_refresh then_do_upsert

section \<open>Audit logging\<close>

text \<open>
  The response of a handler is a function of the outcome of its body, and the outcome of
  a sequence depends on its continuation only through the continuation's outcome.
\<close>

lemma fst_try_catch_cong:
  "fst (b s) = fst (b' s) \<Longrightarrow> fst (try_catch b h s) = fst (try_catch b' h s)"
  by (cases "b s"; cases "b' s") (auto simp: try_catch_def split: outcome.splits)

lemma fst_then_do_cong:
  "(\<And>a s'. fst (g a s') = fst (g' a s')) \<Longrightarrow> fst (then_do m g s) = fst (then_do m g' s)"
  by (cases "m s") (auto simp: then_do_def split: outcome.splits)

text \<open>Only \<open>logIntegrationOperation\<close> reads the audit table's behaviour.\<close>

lemma steps_ignore_log:
  "getCurrentUserId_step (w\<lparr>db_log_create := f\<rparr>) = getCurrentUserId_step w"
  "checkRateLimit_step (w\<lparr>db_log_create := f\<rparr>) u p = checkRateLimit_step w u p"
  "validateIntegrationAccess_step (w\<lparr>db_log_create := f\<rparr>) u p =
     validateIntegrationAccess_step w u p"
  "createNeonClientFromIntegration (w\<lparr>db_log_create := f\<rparr>) i =
     createNeonClientFromIntegration w i"
  "createSupabaseClientFromIntegration (w\<lparr>db_log_create := f\<rparr>) i k =
     createSupabaseClientFromIntegration w i k"
  "createTursoClientFromIntegration (w\<lparr>db_log_create := f\<rparr>) i =
     createTursoClientFromIntegration w i"
  "createPlanetScaleClientFromIntegration (w\<lparr>db_log_create := f\<rparr>) i =
     createPlanetScaleClientFromIntegration w i"
  "planetscale_conn_execute (w\<lparr>db_log_create := f\<rparr>) c q = planetscale_conn_execute w c q"
  "request_json_step (w\<lparr>db_log_create := f\<rparr>) = request_json_step w"
  "neon_query (w\<lparr>db_log_create := f\<rparr>) c q = neon_query w c q"
  "supabase_exec_sql (w\<lparr>db_log_create := f\<rparr>) c q = supabase_exec_sql w c q"
  "turso_client_execute (w\<lparr>db_log_create := f\<rparr>) c q args =
     turso_client_execute w c q args"
  "search_param (w\<lparr>db_log_create := f\<rparr>) name = search_param w name"
  "exchangeConvexOAuthCode (w\<lparr>db_log_create := f\<rparr>) code uri =
     exchangeConvexOAuthCode w code uri"
  "encrypt_step (w\<lparr>db_log_create := f\<rparr>) n t = encrypt_step w n t"
  "encrypt_refresh (w\<lparr>db_log_create := f\<rparr>) n tk = encrypt_refresh w n tk"
  "upsert_integration (w\<lparr>db_log_create := f\<rparr>) a = upsert_integration w a"
  by (simp_all add: getCurrentUserId_step_def checkRateLimit_step_def
      validateIntegrationAccess_step_def validateIntegrationAccess_def
      createNeonClientFromIntegration_def createSupabaseClientFromIntegration_def
      createTursoClientFromIntegration_def createPlanetScaleClientFromIntegration_def
      planetscale_conn_execute_def decrypt_step_def create_client_def
      request_json_step_def neon_query_def supabase_exec_sql_def turso_client_execute_def
      search_param_def exchangeConvexOAuthCode_def encrypt_step_def encrypt_refresh_def
      upsert_integration_def)

lemma log_then_return:
  "fst (then_do (logIntegrationOperation w p) (\<lambda>_. return_response r) s) = Return r"
  by (simp add: then_do_log return_response_apply)

text \<open>
  Claim C9. A failure of the audit-log append never reaches the caller:
  \<open>logIntegrationOperation\<close> always completes normally, and each handler returns the same
  response whatever the audit write does (succeed or throw).
\<close>

theorem audit_failure_never_propagates:
  "(\<exists>s'. logIntegrationOperation w params s = (Value (), s')) \<and>
   fst (neon_sql_POST (w\<lparr>db_log_create := f\<rparr>) s) = fst (neon_sql_POST w s) \<and>
   fst (supabase_sql_POST (w\<lparr>db_log_create := f\<rparr>) s) = fst (supabase_sql_POST w s) \<and>
   fst (planetscale_sql_POST (w\<lparr>db_log_create := f\<rparr>) s) = fst (planetscale_sql_POST w s) \<and>
   fst (turso_sql_POST (w\<lparr>db_log_create := f\<rparr>) s) = fst (turso_sql_POST w s) \<and>
   fst (turso_rows_POST (w\<lparr>db_log_create := f\<rparr>) s) = fst (turso_rows_POST w s) \<and>
   fst (convex_oauth_callback_GET (w\<lparr>db_log_create := f\<rparr>) s) =
     fst (convex_oauth_callback_GET w s)"
proof (intro conjI)
  show "\<exists>s'. logIntegrationOperation w params s = (Value (), s')"
    by (simp add: logIntegrationOperation_def emit_def split: option.splits)
  show "fst (neon_sql_POST (w\<lparr>db_log_create := f\<rparr>) s) = fst (neon_sql_POST w s)"
    unfolding neon_sql_POST_def steps_ignore_log
    by (simp?, intro fst_try_catch_cong fst_then_do_cong)
       (simp add: log_then_return split: option.splits)
  show "fst (supabase_sql_POST (w\<lparr>db_log_create := f\<rparr>) s) = fst (supabase_sql_POST w s)"
    unfolding supabase_sql_POST_def steps_ignore_log
    by (simp?, intro fst_try_catch_cong fst_then_do_cong)
       (simp add: log_then_return split: option.splits)
  show "fst (planetscale_sql_POST (w\<lparr>db_log_create := f\<rparr>) s) = fst (planetscale_sql_POST w s)"
    unfolding planetscale_sql_POST_def steps_ignore_log
    by (simp?, intro fst_try_catch_cong fst_then_do_cong)
       (simp add: log_then_return split: option.splits)
  show "fst (turso_sql_POST (w\<lparr>db_log_create := f\<rparr>) s) = fst (turso_sql_POST w s)"
    unfolding turso_sql_POST_def steps_ignore_log
    by (simp?, intro fst_try_catch_cong fst_then_do_cong)
       (simp add: log_then_return split: option.splits)
  show "fst (turso_rows_POST (w\<lparr>db_log_create := f\<rparr>) s) = fst (turso_rows_POST w s)"
    unfolding turso_rows_POST_def steps_ignore_log
    by (simp?, intro fst_try_catch_cong fst_then_do_cong)
       (simp add: then_do_log json_insert_response_apply split: option.splits)
  show "fst (convex_oauth_callback_GET (w\<lparr>db_log_create := f\<rparr>) s) =
     fst (convex_oauth_callback_GET w s)"
    unfolding convex_oauth_callback_GET_def steps_ignore_log
    by (simp?, intro fst_try_catch_cong fst_then_do_cong)
       (simp add: log_then_return split: option.splits)
qed

section \<open>Authorization\<close>

lemma no_usable_record_throws:
  "no_usable_record w u p \<Longrightarrow> \<exists>e. validateIntegrationAccess w u p = Inl e"
  by (auto simp: no_usable_record_def validateIntegrationAccess_def
      split: sum.splits option.splits)

text \<open>
  Claim C3. For every user and provider, \<open>validateIntegrationAccess\<close> fails with
  \<open>INTEGRATION_NOT_FOUND\<close> when no credential record exists and with
  \<open>INTEGRATION_INACTIVE\<close> when the record exists with \<open>isActive = false\<close>; and in both
  cases a handler that calls it has, when it ends, constructed no provider client and made
  no remote call.
\<close>

theorem validateIntegrationAccess_rejects:
  "(db_findUnique w u p = Inr None \<longrightarrow>
      validateIntegrationAccess w u p =
        Inl (IntegrationError ''INTEGRATION_NOT_FOUND''
               (''No '' @ p @ '' integration found for this user''))) \<and>
   (\<forall>i. db_findUnique w u p = Inr (Some i) \<and> \<not> isActive i \<longrightarrow>
      validateIntegrationAccess w u p =
        Inl (IntegrationError ''INTEGRATION_INACTIVE'' (p @ '' integration is inactive''))) \<and>
   (no_usable_record w (str_of (getCurrentUserId (request_headers w))) ''neon'' \<longrightarrow>
      filter is_adapter_event (trace (snd (neon_sql_POST w s))) =
        filter is_adapter_event (trace s)) \<and>
   (no_usable_record w (str_of (getCurrentUserId (request_headers w))) ''supabase'' \<longrightarrow>
      filter is_adapter_event (trace (snd (supabase_sql_POST w s))) =
        filter is_adapter_event (trace s)) \<and>
   (no_usable_record w (str_of (getCurrentUserId (request_headers w))) ''turso'' \<longrightarrow>
      filter is_adapter_event (trace (snd (turso_rows_POST w s))) =
        filter is_adapter_event (trace s)) \<and>
   (no_usable_record w (str_of (getCurrentUserId (request_headers w))) ''planetscale'' \<longrightarrow>
      filter is_adapter_event (trace (snd (planetscale_sql_POST w s))) =
        filter is_adapter_event (trace s)) \<and>
   (no_usable_record w (str_of (getCurrentUserId (request_headers w))) ''turso'' \<longrightarrow>
      filter is_adapter_event (trace (snd (turso_sql_POST w s))) =
        filter is_adapter_event (trace s))"
proof (intro conjI impI allI)
  show "validateIntegrationAccess w u p =
        Inl (IntegrationError ''INTEGRATION_NOT_FOUND''
               (''No '' @ p @ '' integration found for this user''))"
    if "db_findUnique w u p = Inr None"
    using that by (simp add: validateIntegrationAccess_def)
  show "validateIntegrationAccess w u p =
        Inl (IntegrationError ''INTEGRATION_INACTIVE'' (p @ '' integration is inactive''))"
    if "db_findUnique w u p = Inr (Some i) \<and> \<not> isActive i" for i
    using that by (simp add: validateIntegrationAccess_def)
  show "filter is_adapter_event (trace (snd (neon_sql_POST w s))) =
        filter is_adapter_event (trace s)"
    if "no_usable_record w (str_of (getCurrentUserId (request_headers w))) ''neon''"
    using no_usable_record_throws[OF that]
    by (auto simp: neon_sql_POST_def try_catch_def exec_simps)
  show "filter is_adapter_event (trace (snd (supabase_sql_POST w s))) =
        filter is_adapter_event (trace s)"
    if "no_usable_record w (str_of (getCurrentUserId (request_headers w))) ''supabase''"
    using no_usable_record_throws[OF that]
    by (auto simp: supabase_sql_POST_def try_catch_def exec_simps)
  show "filter is_adapter_event (trace (snd (turso_rows_POST w s))) =
        filter is_adapter_event (trace s)"
    if "no_usable_record w (str_of (getCurrentUserId (request_headers w))) ''turso''"
    using no_usable_record_throws[OF that]
    by (auto simp: turso_rows_POST_def try_catch_def exec_simps)
  show "filter is_adapter_event (trace (snd (planetscale_sql_POST w s))) =
        filter is_adapter_event (trace s)"
    if "no_usable_record w (str_of (getCurrentUserId (request_headers w))) ''planetscale''"
    using no_usable_record_throws[OF that]
    by (auto simp: planetscale_sql_POST_def try_catch_def exec_simps)
  show "filter is_adapter_event (trace (snd (turso_sql_POST w s))) =
        filter is_adapter_event (trace s)"
    if "no_usable_record w (str_of (getCurrentUserId (request_headers w))) ''turso''"
    using no_usable_record_throws[OF that]
    by (auto simp: turso_sql_POST_def try_catch_def exec_simps)
qed

theorem validateIntegrationAccess_rejects_witness:
  "validateIntegrationAccess (demo_world\<lparr>db_findUnique := (\<lambda>u p. Inr None)\<rparr>) ''u1'' ''neon'' =
     Inl (IntegrationError ''INTEGRATION_NOT_FOUND''
            (''No '' @ ''neon'' @ '' integration found for this user'')) \<and>
   validateIntegrationAccess
     (demo_world\<lparr>db_findUnique := (\<lambda>u p. Inr (Some (demo_integration\<lparr>isActive := False\<rparr>)))\<rparr>)
     ''u1'' ''turso'' =
     Inl (IntegrationError ''INTEGRATION_INACTIVE'' (''turso'' @ '' integration is inactive'')) \<and>
   filter is_adapter_event
     (trace (snd (neon_sql_POST (demo_world\<lparr>db_findUnique := (\<lambda>u p. Inr None)\<rparr>) demo_state))) =
     filter is_adapter_event (trace demo_state) \<and>
   filter is_adapter_event
     (trace (snd (supabase_sql_POST (demo_world\<lparr>db_findUnique := (\<lambda>u p. Inr None)\<rparr>) demo_state))) =
     filter is_adapter_event (trace demo_state) \<and>
   filter is_adapter_event
     (trace (snd (turso_rows_POST (demo_world\<lparr>db_findUnique := (\<lambda>u p. Inr None)\<rparr>) demo_state))) =
     filter is_adapter_event (trace demo_state) \<and>
   filter is_adapter_event
     (trace (snd (planetscale_sql_POST (demo_world\<lparr>db_findUnique := (\<lambda>u p. Inr None)\<rparr>) demo_state))) =
     filter is_adapter_event (trace demo_state) \<and>
   filter is_adapter_event
     (trace (snd (turso_sql_POST (demo_world\<lparr>db_findUnique := (\<lambda>u p. Inr None)\<rparr>) demo_state))) =
     filter is_adapter_event (trace demo_state)"
proof -
  let ?w0 = "demo_world\<lparr>db_findUnique := (\<lambda>u p. Inr None)\<rparr>"
  let ?w1 = "demo_world\<lparr>db_findUnique := (\<lambda>u p. Inr (Some (demo_integration\<lparr>isActive := False\<rparr>)))\<rparr>"
  have none: "no_usable_record ?w0 (str_of (getCurrentUserId (request_headers ?w0))) p" for p
    by (simp add: no_usable_record_def)
  have a: "validateIntegrationAccess ?w0 ''u1'' ''neon'' =
     Inl (IntegrationError ''INTEGRATION_NOT_FOUND''
            (''No '' @ ''neon'' @ '' integration found for this user''))"
    using validateIntegrationAccess_rejects[of ?w0 "''u1''" "''neon''" demo_state] by simp
  have b: "validateIntegrationAccess ?w1 ''u1'' ''turso'' =
     Inl (IntegrationError ''INTEGRATION_INACTIVE'' (''turso'' @ '' integration is inactive''))"
    using validateIntegrationAccess_rejects[of ?w1 "''u1''" "''turso''" demo_state] by simp
  show ?thesis
    using a b validateIntegrationAccess_rejects[of ?w0 "''u1''" "''neon''" demo_state] none
    by blast
qed

section \<open>Identity\<close>

lemma falsy_getCurrentUserId:
  "falsy (getCurrentUserId hdrs) \<longleftrightarrow> hdrs ''x-user-id'' = Some []"
  by (simp add: getCurrentUserId_def split: option.splits)

text \<open>
  Claim C2, as the code has it. \<open>getCurrentUserId\<close> never returns \<open>null\<close>: it returns the
  \<open>x-user-id\<close> header when the request carries one and the fixed id \<open>demo-user-id\<close>
  otherwise. A handler answers 401 \<open>UNAUTHORIZED\<close> / \<open>Not authenticated\<close> exactly when the
  header is present and empty; a request without the header proceeds as the demo user.
\<close>

theorem getCurrentUserId_never_null:
  "getCurrentUserId hdrs =
     Str (case hdrs ''x-user-id'' of None \<Rightarrow> ''demo-user-id'' | Some u \<Rightarrow> u) \<and>
   getCurrentUserId hdrs \<noteq> Null \<and> getCurrentUserId hdrs \<noteq> Undefined \<and>
   (fst (neon_sql_POST w s) = Json (errorResponse ''UNAUTHORIZED'' ''Not authenticated'') 401
      \<longleftrightarrow> request_headers w ''x-user-id'' = Some []) \<and>
   (fst (supabase_sql_POST w s) = Json (errorResponse ''UNAUTHORIZED'' ''Not authenticated'') 401
      \<longleftrightarrow> request_headers w ''x-user-id'' = Some []) \<and>
   (fst (turso_rows_POST w s) = Json (errorResponse ''UNAUTHORIZED'' ''Not authenticated'') 401
      \<longleftrightarrow> request_headers w ''x-user-id'' = Some []) \<and>
   (fst (planetscale_sql_POST w s) = Json (errorResponse ''UNAUTHORIZED'' ''Not authenticated'') 401
      \<longleftrightarrow> request_headers w ''x-user-id'' = Some []) \<and>
   (fst (turso_sql_POST w s) = Json (errorResponse ''UNAUTHORIZED'' ''Not authenticated'') 401
      \<longleftrightarrow> request_headers w ''x-user-id'' = Some [])"
proof (intro conjI)
  show "getCurrentUserId hdrs =
     Str (case hdrs ''x-user-id'' of None \<Rightarrow> ''demo-user-id'' | Some u \<Rightarrow> u)"
    by (simp add: getCurrentUserId_def split: option.splits)
  then show "getCurrentUserId hdrs \<noteq> Null" "getCurrentUserId hdrs \<noteq> Undefined"
    by simp_all
  show "fst (neon_sql_POST w s) = Json (errorResponse ''UNAUTHORIZED'' ''Not authenticated'') 401
      \<longleftrightarrow> request_headers w ''x-user-id'' = Some []"
    by (simp add: neon_sql_POST_def try_catch_def createNeonClientFromIntegration_def
        exec_simps falsy_getCurrentUserId errorResponse_def successResponse_def
        split: sum.splits option.splits jsval.splits)
  show "fst (supabase_sql_POST w s) = Json (errorResponse ''UNAUTHORIZED'' ''Not authenticated'') 401
      \<longleftrightarrow> request_headers w ''x-user-id'' = Some []"
    by (simp add: supabase_sql_POST_def try_catch_def createSupabaseClientFromIntegration_def
        exec_simps falsy_getCurrentUserId errorResponse_def successResponse_def
        split: sum.splits option.splits jsval.splits)
  show "fst (turso_rows_POST w s) = Json (errorResponse ''UNAUTHORIZED'' ''Not authenticated'') 401
      \<longleftrightarrow> request_headers w ''x-user-id'' = Some []"
    by (simp add: turso_rows_POST_def try_catch_def createTursoClientFromIntegration_def
        exec_simps falsy_getCurrentUserId errorResponse_def successResponse_def
        split: sum.splits option.splits jsval.splits)
  show "fst (planetscale_sql_POST w s) = Json (errorResponse ''UNAUTHORIZED'' ''Not authenticated'') 401
      \<longleftrightarrow> request_headers w ''x-user-id'' = Some []"
    by (simp add: planetscale_sql_POST_def try_catch_def createPlanetScaleClientFromIntegration_def
        exec_simps falsy_getCurrentUserId errorResponse_def successResponse_def
        split: sum.splits option.splits jsval.splits)
  show "fst (turso_sql_POST w s) = Json (errorResponse ''UNAUTHORIZED'' ''Not authenticated'') 401
      \<longleftrightarrow> request_headers w ''x-user-id'' = Some []"
    by (simp add: turso_sql_POST_def try_catch_def createTursoClientFromIntegration_def
        exec_simps falsy_getCurrentUserId errorResponse_def successResponse_def
        split: sum.splits option.splits jsval.splits)
qed

text \<open>
  The claim as stated fails on a request that carries no principal at all: the resolved
  identity is \<open>demo-user-id\<close>, not \<open>null\<close>, and the raw-query handler goes on to run the
  statement.
\<close>

theorem getCurrentUserId_no_header_counterexample:
  "getCurrentUserId Map.empty = Str ''demo-user-id'' \<and>
   fst (neon_sql_POST (demo_world\<lparr>request_headers := Map.empty\<rparr>) demo_state) =
     Json (Success (NeonQueryPayload [] 0 5)) 200"
  by (simp add: neon_sql_POST_def try_catch_def createNeonClientFromIntegration_def
      exec_simps getCurrentUserId_def checkRateLimit_def validateIntegrationAccess_def
      demo_world_def demo_state_def demo_integration_def decrypt_demo_secret demo_secret_nonempty
      js_trim_def is_js_space_def successResponse_def)

section \<open>Raw queries and write gating\<close>

lemma js_trim_demo_query: "js_trim ''DROP TABLE users'' = ''DROP TABLE users''"
  by (simp add: js_trim_def is_js_space_def)

lemma toUpperCase_demo_query: "toUpperCase ''DROP TABLE users'' = ''DROP TABLE USERS''"
  by code_simp

text \<open>
  The Supabase handler. Without a service key, a statement that is not a read makes no
  remote call, and is answered with 403 once the earlier steps have passed.
\<close>

lemma supabase_sql_gate:
  assumes rec: "db_findUnique w (str_of (getCurrentUserId (request_headers w))) ''supabase'' =
                  Inr (Some i)"
    and nokey: "falsy (supabaseServiceKey i)"
    and body: "request_json w = Inr (Some props)"
    and query: "map_of props ''query'' = Some (JString q)"
    and nonread: "\<not> startsWith (toUpperCase (js_trim q)) ''SELECT''"
               "\<not> startsWith (toUpperCase (js_trim q)) ''WITH''"
               "\<not> startsWith (toUpperCase (js_trim q)) ''EXPLAIN''"
  shows "filter is_remote_call (trace (snd (supabase_sql_POST w s))) =
           filter is_remote_call (trace s)"
    and "\<not> falsy (getCurrentUserId (request_headers w)) \<and>
          fst (checkRateLimit (rateLimitStore s) (now_ms w)
                 (str_of (getCurrentUserId (request_headers w))) ''supabase'') \<and>
          isActive i \<and> \<not> falsy (supabaseUrl i) \<and> \<not> falsy (supabaseAnonKey i) \<and>
          decrypt (cenv w) (str_of (supabaseUrl i)) = Inr url \<and>
          decrypt (cenv w) (str_of (supabaseAnonKey i)) = Inr key \<and>
          client_create w (SupabaseClient url key) = None \<and>
          js_trim q \<noteq> [] \<Longrightarrow>
            fst (supabase_sql_POST w s) =
              Json (errorResponse ''UNAUTHORIZED''
                      ''Only SELECT queries are allowed without a Service Role Key'') 403"
proof -
  show "filter is_remote_call (trace (snd (supabase_sql_POST w s))) =
          filter is_remote_call (trace s)"
    using assms
    by (simp add: supabase_sql_POST_def try_catch_def createSupabaseClientFromIntegration_def
        exec_simps validateIntegrationAccess_def split: sum.splits option.splits)
next
  assume "\<not> falsy (getCurrentUserId (request_headers w)) \<and>
          fst (checkRateLimit (rateLimitStore s) (now_ms w)
                 (str_of (getCurrentUserId (request_headers w))) ''supabase'') \<and>
          isActive i \<and> \<not> falsy (supabaseUrl i) \<and> \<not> falsy (supabaseAnonKey i) \<and>
          decrypt (cenv w) (str_of (supabaseUrl i)) = Inr url \<and>
          decrypt (cenv w) (str_of (supabaseAnonKey i)) = Inr key \<and>
          client_create w (SupabaseClient url key) = None \<and>
          js_trim q \<noteq> []"
  then show "fst (supabase_sql_POST w s) =
              Json (errorResponse ''UNAUTHORIZED''
                      ''Only SELECT queries are allowed without a Service Role Key'') 403"
    using assms
    by (simp add: supabase_sql_POST_def try_catch_def createSupabaseClientFromIntegration_def
        exec_simps validateIntegrationAccess_def)
qed

text \<open>
  The Neon, PlanetScale and Turso handlers. Once the guards have passed, a record without
  the provider's secret ends the request with 400 \<open>QUERY_ERROR\<close> and no remote call; with
  the secret, any non-blank statement is sent as it is, in one remote call, and the answer
  is the backend's.
\<close>

lemma neon_sql_unconfigured:
  assumes "guards_pass w s ''neon'' i" and "falsy (neonConnectionString i)"
  shows "filter is_remote_call (trace (snd (neon_sql_POST w s))) =
           filter is_remote_call (trace s)"
    and "fst (neon_sql_POST w s) =
           Json (errorResponse ''QUERY_ERROR'' ''Neon connection string not configured'') 400"
  using assms
  by (simp_all add: guards_pass_def neon_sql_POST_def try_catch_def
      createNeonClientFromIntegration_def exec_simps validateIntegrationAccess_def)

lemma neon_sql_executes:
  assumes "guards_pass w s ''neon'' i"
    and "\<not> falsy (neonConnectionString i)"
    and "decrypt (cenv w) (str_of (neonConnectionString i)) = Inr cs"
    and "client_create w (NeonClient cs) = None"
    and "request_json w = Inr (Some props)"
    and "map_of props ''query'' = Some (JString q)"
    and "js_trim q \<noteq> []"
  shows "filter is_remote_call (trace (snd (neon_sql_POST w s))) =
           filter is_remote_call (trace s) @ [RemoteCall (NeonClient cs) (RawSql q)]"
    and "fst (neon_sql_POST w s) =
           (case neon_sql w (NeonClient cs) q of
              Inl e \<Rightarrow> Json (errorResponse ''QUERY_ERROR'' (error_message e ''Query failed'')) 400
            | Inr rows \<Rightarrow>
                Json (successResponse
                        (NeonQueryPayload rows (length rows) (end_time w - start_time w))) 200)"
  using assms
  by (simp_all add: guards_pass_def neon_sql_POST_def try_catch_def
      createNeonClientFromIntegration_def exec_simps audit_event_kind validateIntegrationAccess_def
      split: sum.splits)

lemma planetscale_sql_unconfigured:
  assumes "guards_pass w s ''planetscale'' i"
    and "falsy (planetscaleHost i) \<or> falsy (planetscaleUsername i) \<or>
         falsy (planetscalePassword i)"
  shows "filter is_remote_call (trace (snd (planetscale_sql_POST w s))) =
           filter is_remote_call (trace s)"
    and "fst (planetscale_sql_POST w s) =
           Json (errorResponse ''QUERY_ERROR'' ''PlanetScale credentials not configured'') 400"
  using assms
  by (simp_all add: guards_pass_def planetscale_sql_POST_def try_catch_def
      createPlanetScaleClientFromIntegration_def exec_simps validateIntegrationAccess_def)

lemma planetscale_sql_executes:
  assumes "guards_pass w s ''planetscale'' i"
    and "\<not> falsy (planetscaleHost i)" "\<not> falsy (planetscaleUsername i)"
        "\<not> falsy (planetscalePassword i)"
    and "decrypt (cenv w) (str_of (planetscaleHost i)) = Inr host"
    and "decrypt (cenv w) (str_of (planetscaleUsername i)) = Inr username"
    and "decrypt (cenv w) (str_of (planetscalePassword i)) = Inr password"
    and "client_create w (PlanetScaleClient host username password) = None"
    and "request_json w = Inr (Some props)"
    and "map_of props ''query'' = Some (JString q)"
    and "js_trim q \<noteq> []"
  shows "filter is_remote_call (trace (snd (planetscale_sql_POST w s))) =
           filter is_remote_call (trace s) @
           [RemoteCall (PlanetScaleClient host username password) (RawSql q)]"
    and "fst (planetscale_sql_POST w s) =
           (case planetscale_execute w (PlanetScaleClient host username password) q of
              Inl e \<Rightarrow> Json (errorResponse ''QUERY_ERROR'' (error_message e ''Query failed'')) 400
            | Inr result \<Rightarrow>
                Json (successResponse
                        (SqlQueryPayload (ps_rows result) (length (ps_rows result))
                           (end_time w - start_time w) (ps_rowsAffected result))) 200)"
  using assms
  by (simp_all add: guards_pass_def planetscale_sql_POST_def try_catch_def
      createPlanetScaleClientFromIntegration_def exec_simps audit_event_kind validateIntegrationAccess_def
      split: sum.splits)

lemma turso_sql_unconfigured:
  assumes "guards_pass w s ''turso'' i"
    and "falsy (tursoUrl i) \<or> falsy (tursoAuthToken i)"
  shows "filter is_remote_call (trace (snd (turso_sql_POST w s))) =
           filter is_remote_call (trace s)"
    and "fst (turso_sql_POST w s) =
           Json (errorResponse ''QUERY_ERROR'' ''Turso credentials not configured'') 400"
  using assms
  by (simp_all add: guards_pass_def turso_sql_POST_def try_catch_def
      createTursoClientFromIntegration_def exec_simps validateIntegrationAccess_def)

lemma turso_sql_executes:
  assumes "guards_pass w s ''turso'' i"
    and "\<not> falsy (tursoUrl i)" "\<not> falsy (tursoAuthToken i)"
    and "decrypt (cenv w) (str_of (tursoUrl i)) = Inr url"
    and "decrypt (cenv w) (str_of (tursoAuthToken i)) = Inr authToken"
    and "client_create w (TursoClient url authToken) = None"
    and "request_json w = Inr (Some props)"
    and "map_of props ''query'' = Some (JString q)"
    and "js_trim q \<noteq> []"
  shows "filter is_remote_call (trace (snd (turso_sql_POST w s))) =
           filter is_remote_call (trace s) @
           [RemoteCall (TursoClient url authToken) (Execute q [])]"
    and "fst (turso_sql_POST w s) =
           (case turso_execute w (TursoClient url authToken) q [] of
              Inl e \<Rightarrow> Json (errorResponse ''QUERY_ERROR'' (error_message e ''Query failed'')) 400
            | Inr result \<Rightarrow>
                Json (successResponse
                        (SqlQueryPayload
                           (map (row_object (result_columns result)) (result_rows result))
                           (length (result_rows result))
                           (end_time w - start_time w) (rowsAffected result))) 200)"
  using assms
  by (simp_all add: guards_pass_def turso_sql_POST_def try_catch_def
      createTursoClientFromIntegration_def exec_simps audit_event_kind validateIntegrationAccess_def
      split: sum.splits)

text \<open>
  Claim C1, as the code has it. Only the Supabase credential record has an elevated
  secret (the service key), and only the Supabase raw-query handler gates on it: when the
  record has no service key and the statement's trimmed, upper-cased text begins with
  none of \<open>SELECT\<close>, \<open>WITH\<close>, \<open>EXPLAIN\<close>, the handler makes no remote call, and once
  the earlier steps (identity, rate limit, authorization, client construction, a non-blank
  query) have passed it answers 403 \<open>UNAUTHORIZED\<close>. The Neon, PlanetScale and Turso
  raw-query handlers have no such gate. Once identity, rate limit and authorization have
  passed: if the provider's secret is missing from the record, the handler makes no remote
  call and answers 400 \<open>QUERY_ERROR\<close> (not configured); if the secrets are present and
  decrypt, the client is constructed and the query is a non-blank string, the statement is
  sent to the backend unchanged, in exactly one remote call, whatever its first word, and
  the answer is the backend's result (200) or its error (400 \<open>QUERY_ERROR\<close>).
\<close>

theorem raw_query_write_gating:
  assumes body: "request_json w = Inr (Some props)"
    and query: "map_of props ''query'' = Some (JString q)"
  shows
   "(db_findUnique w (str_of (getCurrentUserId (request_headers w))) ''supabase'' =
       Inr (Some i) \<and>
     falsy (supabaseServiceKey i) \<and>
     \<not> startsWith (toUpperCase (js_trim q)) ''SELECT'' \<and>
     \<not> startsWith (toUpperCase (js_trim q)) ''WITH'' \<and>
     \<not> startsWith (toUpperCase (js_trim q)) ''EXPLAIN'' \<longrightarrow>
       filter is_remote_call (trace (snd (supabase_sql_POST w s))) =
         filter is_remote_call (trace s) \<and>
       (\<not> falsy (getCurrentUserId (request_headers w)) \<and>
        fst (checkRateLimit (rateLimitStore s) (now_ms w)
               (str_of (getCurrentUserId (request_headers w))) ''supabase'') \<and>
        isActive i \<and> \<not> falsy (supabaseUrl i) \<and> \<not> falsy (supabaseAnonKey i) \<and>
        decrypt (cenv w) (str_of (supabaseUrl i)) = Inr url \<and>
        decrypt (cenv w) (str_of (supabaseAnonKey i)) = Inr key \<and>
        client_create w (SupabaseClient url key) = None \<and>
        js_trim q \<noteq> [] \<longrightarrow>
          fst (supabase_sql_POST w s) =
            Json (errorResponse ''UNAUTHORIZED''
                    ''Only SELECT queries are allowed without a Service Role Key'') 403)) \<and>
    (guards_pass w s ''neon'' i \<longrightarrow>
       (falsy (neonConnectionString i) \<longrightarrow>
          filter is_remote_call (trace (snd (neon_sql_POST w s))) =
            filter is_remote_call (trace s) \<and>
          fst (neon_sql_POST w s) =
            Json (errorResponse ''QUERY_ERROR'' ''Neon connection string not configured'') 400) \<and>
       (\<not> falsy (neonConnectionString i) \<and>
        decrypt (cenv w) (str_of (neonConnectionString i)) = Inr cs \<and>
        client_create w (NeonClient cs) = None \<and>
        js_trim q \<noteq> [] \<longrightarrow>
          filter is_remote_call (trace (snd (neon_sql_POST w s))) =
            filter is_remote_call (trace s) @ [RemoteCall (NeonClient cs) (RawSql q)] \<and>
          fst (neon_sql_POST w s) =
            (case neon_sql w (NeonClient cs) q of
               Inl e \<Rightarrow>
                 Json (errorResponse ''QUERY_ERROR'' (error_message e ''Query failed'')) 400
             | Inr rows \<Rightarrow>
                 Json (successResponse
                         (NeonQueryPayload rows (length rows) (end_time w - start_time w)))
                   200))) \<and>
    (guards_pass w s ''planetscale'' i \<longrightarrow>
       (falsy (planetscaleHost i) \<or> falsy (planetscaleUsername i) \<or>
        falsy (planetscalePassword i) \<longrightarrow>
          filter is_remote_call (trace (snd (planetscale_sql_POST w s))) =
            filter is_remote_call (trace s) \<and>
          fst (planetscale_sql_POST w s) =
            Json (errorResponse ''QUERY_ERROR'' ''PlanetScale credentials not configured'') 400) \<and>
       (\<not> falsy (planetscaleHost i) \<and> \<not> falsy (planetscaleUsername i) \<and>
        \<not> falsy (planetscalePassword i) \<and>
        decrypt (cenv w) (str_of (planetscaleHost i)) = Inr host \<and>
        decrypt (cenv w) (str_of (planetscaleUsername i)) = Inr username \<and>
        decrypt (cenv w) (str_of (planetscalePassword i)) = Inr password \<and>
        client_create w (PlanetScaleClient host username password) = None \<and>
        js_trim q \<noteq> [] \<longrightarrow>
          filter is_remote_call (trace (snd (planetscale_sql_POST w s))) =
            filter is_remote_call (trace s) @
            [RemoteCall (PlanetScaleClient host username password) (RawSql q)] \<and>
          fst (planetscale_sql_POST w s) =
            (case planetscale_execute w (PlanetScaleClient host username password) q of
               Inl e \<Rightarrow>
                 Json (errorResponse ''QUERY_ERROR'' (error_message e ''Query failed'')) 400
             | Inr result \<Rightarrow>
                 Json (successResponse
                         (SqlQueryPayload (ps_rows result) (length (ps_rows result))
                            (end_time w - start_time w) (ps_rowsAffected result))) 200))) \<and>
    (guards_pass w s ''turso'' i \<longrightarrow>
       (falsy (tursoUrl i) \<or> falsy (tursoAuthToken i) \<longrightarrow>
          filter is_remote_call (trace (snd (turso_sql_POST w s))) =
            filter is_remote_call (trace s) \<and>
          fst (turso_sql_POST w s) =
            Json (errorResponse ''QUERY_ERROR'' ''Turso credentials not configured'') 400) \<and>
       (\<not> falsy (tursoUrl i) \<and> \<not> falsy (tursoAuthToken i) \<and>
        decrypt (cenv w) (str_of (tursoUrl i)) = Inr turl \<and>
        decrypt (cenv w) (str_of (tursoAuthToken i)) = Inr authToken \<and>
        client_create w (TursoClient turl authToken) = None \<and>
        js_trim q \<noteq> [] \<longrightarrow>
          filter is_remote_call (trace (snd (turso_sql_POST w s))) =
            filter is_remote_call (trace s) @
            [RemoteCall (TursoClient turl authToken) (Execute q [])] \<and>
          fst (turso_sql_POST w s) =
            (case turso_execute w (TursoClient turl authToken) q [] of
               Inl e \<Rightarrow>
                 Json (errorResponse ''QUERY_ERROR'' (error_message e ''Query failed'')) 400
             | Inr result \<Rightarrow>
                 Json (successResponse
                         (SqlQueryPayload
                            (map (row_object (result_columns result)) (result_rows result))
                            (length (result_rows result))
                            (end_time w - start_time w) (rowsAffected result))) 200)))"
proof (intro conjI)
  show "db_findUnique w (str_of (getCurrentUserId (request_headers w))) ''supabase'' =
       Inr (Some i) \<and>
     falsy (supabaseServiceKey i) \<and>
     \<not> startsWith (toUpperCase (js_trim q)) ''SELECT'' \<and>
     \<not> startsWith (toUpperCase (js_trim q)) ''WITH'' \<and>
     \<not> startsWith (toUpperCase (js_trim q)) ''EXPLAIN'' \<longrightarrow>
       filter is_remote_call (trace (snd (supabase_sql_POST w s))) =
         filter is_remote_call (trace s) \<and>
       (\<not> falsy (getCurrentUserId (request_headers w)) \<and>
        fst (checkRateLimit (rateLimitStore s) (now_ms w)
               (str_of (getCurrentUserId (request_headers w))) ''supabase'') \<and>
        isActive i \<and> \<not> falsy (supabaseUrl i) \<and> \<not> falsy (supabaseAnonKey i) \<and>
        decrypt (cenv w) (str_of (supabaseUrl i)) = Inr url \<and>
        decrypt (cenv w) (str_of (supabaseAnonKey i)) = Inr key \<and>
        client_create w (SupabaseClient url key) = None \<and>
        js_trim q \<noteq> [] \<longrightarrow>
          fst (supabase_sql_POST w s) =
            Json (errorResponse ''UNAUTHORIZED''
                    ''Only SELECT queries are allowed without a Service Role Key'') 403)"
    using supabase_sql_gate(1)[where i = i and s = s, OF _ _ body query]
      supabase_sql_gate(2)[where i = i and s = s and url = url and key = key, OF _ _ body query]
    by blast
  show "guards_pass w s ''neon'' i \<longrightarrow>
       (falsy (neonConnectionString i) \<longrightarrow>
          filter is_remote_call (trace (snd (neon_sql_POST w s))) =
            filter is_remote_call (trace s) \<and>
          fst (neon_sql_POST w s) =
            Json (errorResponse ''QUERY_ERROR'' ''Neon connection string not configured'') 400) \<and>
       (\<not> falsy (neonConnectionString i) \<and>
        decrypt (cenv w) (str_of (neonConnectionString i)) = Inr cs \<and>
        client_create w (NeonClient cs) = None \<and>
        js_trim q \<noteq> [] \<longrightarrow>
          filter is_remote_call (trace (snd (neon_sql_POST w s))) =
            filter is_remote_call (trace s) @ [RemoteCall (NeonClient cs) (RawSql q)] \<and>
          fst (neon_sql_POST w s) =
            (case neon_sql w (NeonClient cs) q of
               Inl e \<Rightarrow>
                 Json (errorResponse ''QUERY_ERROR'' (error_message e ''Query failed'')) 400
             | Inr rows \<Rightarrow>
                 Json (successResponse
                         (NeonQueryPayload rows (length rows) (end_time w - start_time w)))
                   200))"
    using neon_sql_unconfigured[of w s i]
      neon_sql_executes[where s = s and i = i and cs = cs, OF _ _ _ _ body query]
    by blast
  show "guards_pass w s ''planetscale'' i \<longrightarrow>
       (falsy (planetscaleHost i) \<or> falsy (planetscaleUsername i) \<or>
        falsy (planetscalePassword i) \<longrightarrow>
          filter is_remote_call (trace (snd (planetscale_sql_POST w s))) =
            filter is_remote_call (trace s) \<and>
          fst (planetscale_sql_POST w s) =
            Json (errorResponse ''QUERY_ERROR'' ''PlanetScale credentials not configured'') 400) \<and>
       (\<not> falsy (planetscaleHost i) \<and> \<not> falsy (planetscaleUsername i) \<and>
        \<not> falsy (planetscalePassword i) \<and>
        decrypt (cenv w) (str_of (planetscaleHost i)) = Inr host \<and>
        decrypt (cenv w) (str_of (planetscaleUsername i)) = Inr username \<and>
        decrypt (cenv w) (str_of (planetscalePassword i)) = Inr password \<and>
        client_create w (PlanetScaleClient host username password) = None \<and>
        js_trim q \<noteq> [] \<longrightarrow>
          filter is_remote_call (trace (snd (planetscale_sql_POST w s))) =
            filter is_remote_call (trace s) @
            [RemoteCall (PlanetScaleClient host username password) (RawSql q)] \<and>
          fst (planetscale_sql_POST w s) =
            (case planetscale_execute w (PlanetScaleClient host username password) q of
               Inl e \<Rightarrow>
                 Json (errorResponse ''QUERY_ERROR'' (error_message e ''Query failed'')) 400
             | Inr result \<Rightarrow>
                 Json (successResponse
                         (SqlQueryPayload (ps_rows result) (length (ps_rows result))
                            (end_time w - start_time w) (ps_rowsAffected result))) 200))"
    using planetscale_sql_unconfigured[of w s i]
      planetscale_sql_executes[where s = s and i = i and host = host and username = username
          and password = password, OF _ _ _ _ _ _ _ _ body query]
    by blast
  show "guards_pass w s ''turso'' i \<longrightarrow>
       (falsy (tursoUrl i) \<or> falsy (tursoAuthToken i) \<longrightarrow>
          filter is_remote_call (trace (snd (turso_sql_POST w s))) =
            filter is_remote_call (trace s) \<and>
          fst (turso_sql_POST w s) =
            Json (errorResponse ''QUERY_ERROR'' ''Turso credentials not configured'') 400) \<and>
       (\<not> falsy (tursoUrl i) \<and> \<not> falsy (tursoAuthToken i) \<and>
        decrypt (cenv w) (str_of (tursoUrl i)) = Inr turl \<and>
        decrypt (cenv w) (str_of (tursoAuthToken i)) = Inr authToken \<and>
        client_create w (TursoClient turl authToken) = None \<and>
        js_trim q \<noteq> [] \<longrightarrow>
          filter is_remote_call (trace (snd (turso_sql_POST w s))) =
            filter is_remote_call (trace s) @
            [RemoteCall (TursoClient turl authToken) (Execute q [])] \<and>
          fst (turso_sql_POST w s) =
            (case turso_execute w (TursoClient turl authToken) q [] of
               Inl e \<Rightarrow>
                 Json (errorResponse ''QUERY_ERROR'' (error_message e ''Query failed'')) 400
             | Inr result \<Rightarrow>
                 Json (successResponse
                         (SqlQueryPayload
                            (map (row_object (result_columns result)) (result_rows result))
                            (length (result_rows result))
                            (end_time w - start_time w) (rowsAffected result))) 200))"
    using turso_sql_unconfigured[of w s i]
      turso_sql_executes[where s = s and i = i and url = turl and authToken = authToken,
        OF _ _ _ _ _ _ body query]
    by blast
qed

theorem raw_query_write_gating_witness:
  "filter is_remote_call (trace (snd (supabase_sql_POST demo_world demo_state))) = [] \<and>
   fst (supabase_sql_POST demo_world demo_state) =
     Json (errorResponse ''UNAUTHORIZED''
             ''Only SELECT queries are allowed without a Service Role Key'') 403 \<and>
   filter is_remote_call (trace (snd (neon_sql_POST demo_world demo_state))) =
     [RemoteCall (NeonClient (ascii ''postgres://neon/db'')) (RawSql ''DROP TABLE users'')] \<and>
   fst (neon_sql_POST demo_world demo_state) =
     Json (successResponse (NeonQueryPayload [] 0 5)) 200 \<and>
   filter is_remote_call (trace (snd (planetscale_sql_POST demo_world demo_state))) =
     [RemoteCall (PlanetScaleClient (ascii ''aws.connect.psdb.cloud'') (ascii ''ps-user'')
                    (ascii ''ps-password''))
        (RawSql ''DROP TABLE users'')] \<and>
   fst (planetscale_sql_POST demo_world demo_state) =
     Json (successResponse (SqlQueryPayload [] 0 5 0)) 200 \<and>
   filter is_remote_call (trace (snd (turso_sql_POST demo_world demo_state))) =
     [RemoteCall (TursoClient (ascii ''libsql://t.turso.io'') (ascii ''turso-token''))
        (Execute ''DROP TABLE users'' [])] \<and>
   fst (turso_sql_POST demo_world demo_state) =
     Json (successResponse (SqlQueryPayload [] 0 5 1)) 200 \<and>
   filter is_remote_call (trace (snd (neon_sql_POST (world_with empty_integration) demo_state))) = [] \<and>
   fst (neon_sql_POST (world_with empty_integration) demo_state) =
     Json (errorResponse ''QUERY_ERROR'' ''Neon connection string not configured'') 400 \<and>
   fst (planetscale_sql_POST (world_with empty_integration) demo_state) =
     Json (errorResponse ''QUERY_ERROR'' ''PlanetScale credentials not configured'') 400 \<and>
   fst (turso_sql_POST (world_with empty_integration) demo_state) =
     Json (errorResponse ''QUERY_ERROR'' ''Turso credentials not configured'') 400"
proof -
  let ?w0 = "world_with empty_integration"
  have body: "request_json demo_world = Inr (Some [(''query'', JString ''DROP TABLE users'')])"
    by (simp add: demo_world_def)
  have body0: "request_json ?w0 = Inr (Some [(''query'', JString ''DROP TABLE users'')])"
    by (simp add: world_with_def demo_world_def)
  have query: "map_of [(''query'', JString ''DROP TABLE users'')] ''query'' =
                 Some (JString ''DROP TABLE users'')"
    by simp
  have uid: "getCurrentUserId (request_headers demo_world) = Str ''u1''"
    "getCurrentUserId (request_headers ?w0) = Str ''u1''"
    by (simp_all add: getCurrentUserId_def world_with_def demo_world_def)
  have rec: "db_findUnique demo_world u p = Inr (Some demo_integration)"
    "db_findUnique ?w0 u p = Inr (Some empty_integration)" for u p
    by (simp_all add: world_with_def demo_world_def)
  have rate: "fst (checkRateLimit (rateLimitStore demo_state) t u p)" for t u p
    by (simp add: checkRateLimit_def demo_state_def)
  have active: "isActive demo_integration" "isActive empty_integration"
    by (simp_all add: demo_integration_def empty_integration_def)
  have gp: "guards_pass demo_world demo_state p demo_integration"
    "guards_pass ?w0 demo_state p empty_integration" for p
    by (simp_all add: guards_pass_def uid rec rate active)
  have secrets: "falsy (supabaseServiceKey demo_integration)"
    "\<not> falsy (supabaseUrl demo_integration)" "\<not> falsy (supabaseAnonKey demo_integration)"
    "\<not> falsy (neonConnectionString demo_integration)"
    "\<not> falsy (planetscaleHost demo_integration)" "\<not> falsy (planetscaleUsername demo_integration)"
    "\<not> falsy (planetscalePassword demo_integration)"
    "\<not> falsy (tursoUrl demo_integration)" "\<not> falsy (tursoAuthToken demo_integration)"
    "falsy (neonConnectionString empty_integration)"
    "falsy (planetscaleHost empty_integration)"
    "falsy (tursoUrl empty_integration)"
    by (simp_all add: demo_integration_def empty_integration_def demo_secret_nonempty)
  have cenv: "cenv demo_world = demo_crypto" by (simp add: demo_world_def)
  have dec: "decrypt (cenv demo_world) (str_of (supabaseUrl demo_integration)) =
               Inr (ascii ''https://p.supabase.co'')"
    "decrypt (cenv demo_world) (str_of (supabaseAnonKey demo_integration)) =
               Inr (ascii ''anon-key'')"
    "decrypt (cenv demo_world) (str_of (neonConnectionString demo_integration)) =
               Inr (ascii ''postgres://neon/db'')"
    "decrypt (cenv demo_world) (str_of (planetscaleHost demo_integration)) =
               Inr (ascii ''aws.connect.psdb.cloud'')"
    "decrypt (cenv demo_world) (str_of (planetscaleUsername demo_integration)) =
               Inr (ascii ''ps-user'')"
    "decrypt (cenv demo_world) (str_of (planetscalePassword demo_integration)) =
               Inr (ascii ''ps-password'')"
    "decrypt (cenv demo_world) (str_of (tursoUrl demo_integration)) =
               Inr (ascii ''libsql://t.turso.io'')"
    "decrypt (cenv demo_world) (str_of (tursoAuthToken demo_integration)) =
               Inr (ascii ''turso-token'')"
    by (simp_all add: cenv demo_integration_def decrypt_demo_secret)
  have outside: "client_create demo_world c = None" "neon_sql demo_world c q = Inr []"
    "planetscale_execute demo_world c q = Inr \<lparr>ps_rows = [], ps_rowsAffected = 0\<rparr>"
    "turso_execute demo_world c q a =
       Inr \<lparr>result_columns = [], result_rows = [], rowsAffected = 1, lastInsertRowid = Some 1\<rparr>"
    "end_time demo_world - start_time demo_world = 5" for c q a
    by (simp_all add: demo_world_def)
  have nonread: "\<not> startsWith (toUpperCase (js_trim ''DROP TABLE users'')) ''SELECT''"
              "\<not> startsWith (toUpperCase (js_trim ''DROP TABLE users'')) ''WITH''"
              "\<not> startsWith (toUpperCase (js_trim ''DROP TABLE users'')) ''EXPLAIN''"
              "js_trim ''DROP TABLE users'' \<noteq> []"
    by (simp_all add: js_trim_demo_query toUpperCase_demo_query)
  have start: "filter is_remote_call (trace demo_state) = []"
    by (simp add: demo_state_def)
  note facts = uid rec rate active gp secrets dec outside nonread start
  from raw_query_write_gating[OF body query, where s = demo_state and i = demo_integration
      and url = "ascii ''https://p.supabase.co''" and key = "ascii ''anon-key''"
      and cs = "ascii ''postgres://neon/db''" and host = "ascii ''aws.connect.psdb.cloud''"
      and username = "ascii ''ps-user''" and password = "ascii ''ps-password''"
      and turl = "ascii ''libsql://t.turso.io''" and authToken = "ascii ''turso-token''"]
  have configured:
    "filter is_remote_call (trace (snd (supabase_sql_POST demo_world demo_state))) = [] \<and>
     fst (supabase_sql_POST demo_world demo_state) =
       Json (errorResponse ''UNAUTHORIZED''
               ''Only SELECT queries are allowed without a Service Role Key'') 403 \<and>
     filter is_remote_call (trace (snd (neon_sql_POST demo_world demo_state))) =
       [RemoteCall (NeonClient (ascii ''postgres://neon/db'')) (RawSql ''DROP TABLE users'')] \<and>
     fst (neon_sql_POST demo_world demo_state) =
       Json (successResponse (NeonQueryPayload [] 0 5)) 200 \<and>
     filter is_remote_call (trace (snd (planetscale_sql_POST demo_world demo_state))) =
       [RemoteCall (PlanetScaleClient (ascii ''aws.connect.psdb.cloud'') (ascii ''ps-user'')
                      (ascii ''ps-password''))
          (RawSql ''DROP TABLE users'')] \<and>
     fst (planetscale_sql_POST demo_world demo_state) =
       Json (successResponse (SqlQueryPayload [] 0 5 0)) 200 \<and>
     filter is_remote_call (trace (snd (turso_sql_POST demo_world demo_state))) =
       [RemoteCall (TursoClient (ascii ''libsql://t.turso.io'') (ascii ''turso-token''))
          (Execute ''DROP TABLE users'' [])] \<and>
     fst (turso_sql_POST demo_world demo_state) =
       Json (successResponse (SqlQueryPayload [] 0 5 1)) 200"
    by (simp add: facts)
  from raw_query_write_gating[OF body0 query, where s = demo_state and i = empty_integration]
  have unconfigured:
    "filter is_remote_call (trace (snd (neon_sql_POST ?w0 demo_state))) = [] \<and>
     fst (neon_sql_POST ?w0 demo_state) =
       Json (errorResponse ''QUERY_ERROR'' ''Neon connection string not configured'') 400 \<and>
     fst (planetscale_sql_POST ?w0 demo_state) =
       Json (errorResponse ''QUERY_ERROR'' ''PlanetScale credentials not configured'') 400 \<and>
     fst (turso_sql_POST ?w0 demo_state) =
       Json (errorResponse ''QUERY_ERROR'' ''Turso credentials not configured'') 400"
    by (simp add: facts)
  from configured unconfigured show ?thesis by simp
qed

text \<open>
  The claim as stated fails for the other relational providers. The record of each holds
  the provider's own secret and nothing else, so no secret of a higher level; the statement
  is a \<open>DROP TABLE\<close>; and the Neon, PlanetScale and Turso handlers each send it to the
  backend and answer with success. When the record holds no secret at all, the Neon handler
  makes no remote call, and its answer is 400 \<open>QUERY_ERROR\<close>, not the Unauthorized error.
\<close>

theorem raw_write_executes_counterexample:
  "\<not> startsWith (toUpperCase (js_trim ''DROP TABLE users'')) ''SELECT'' \<and>
   \<not> startsWith (toUpperCase (js_trim ''DROP TABLE users'')) ''WITH'' \<and>
   \<not> startsWith (toUpperCase (js_trim ''DROP TABLE users'')) ''EXPLAIN'' \<and>
   request_json demo_world = Inr (Some [(''query'', JString ''DROP TABLE users'')]) \<and>
   fst (neon_sql_POST (world_with neon_only_integration) demo_state) =
     Json (Success (NeonQueryPayload [] 0 5)) 200 \<and>
   filter is_remote_call (trace (snd (neon_sql_POST (world_with neon_only_integration) demo_state))) =
     [RemoteCall (NeonClient (ascii ''postgres://neon/db'')) (RawSql ''DROP TABLE users'')] \<and>
   fst (planetscale_sql_POST (world_with planetscale_only_integration) demo_state) =
     Json (Success (SqlQueryPayload [] 0 5 0)) 200 \<and>
   filter is_remote_call
     (trace (snd (planetscale_sql_POST (world_with planetscale_only_integration) demo_state))) =
     [RemoteCall (PlanetScaleClient (ascii ''aws.connect.psdb.cloud'') (ascii ''ps-user'')
                    (ascii ''ps-password''))
        (RawSql ''DROP TABLE users'')] \<and>
   fst (turso_sql_POST (world_with turso_only_integration) demo_state) =
     Json (Success (SqlQueryPayload [] 0 5 1)) 200 \<and>
   filter is_remote_call (trace (snd (turso_sql_POST (world_with turso_only_integration) demo_state))) =
     [RemoteCall (TursoClient (ascii ''libsql://t.turso.io'') (ascii ''turso-token''))
        (Execute ''DROP TABLE users'' [])] \<and>
   fst (neon_sql_POST (world_with empty_integration) demo_state) =
     Json (Failure ''QUERY_ERROR'' ''Neon connection string not configured'') 400 \<and>
   filter is_remote_call (trace (snd (neon_sql_POST (world_with empty_integration) demo_state))) = []"
proof -
  have 1: "\<not> startsWith (toUpperCase (js_trim ''DROP TABLE users'')) ''SELECT''"
    "\<not> startsWith (toUpperCase (js_trim ''DROP TABLE users'')) ''WITH''"
    "\<not> startsWith (toUpperCase (js_trim ''DROP TABLE users'')) ''EXPLAIN''"
    "request_json demo_world = Inr (Some [(''query'', JString ''DROP TABLE users'')])"
    by (simp_all add: js_trim_demo_query toUpperCase_demo_query demo_world_def)
  note run = try_catch_def exec_simps getCurrentUserId_def checkRateLimit_def
    validateIntegrationAccess_def world_with_def demo_world_def demo_state_def
    empty_integration_def decrypt_demo_secret demo_secret_nonempty js_trim_demo_query
    successResponse_def errorResponse_def
  have 2: "fst (neon_sql_POST (world_with neon_only_integration) demo_state) =
     Json (Success (NeonQueryPayload [] 0 5)) 200"
    "filter is_remote_call (trace (snd (neon_sql_POST (world_with neon_only_integration) demo_state))) =
     [RemoteCall (NeonClient (ascii ''postgres://neon/db'')) (RawSql ''DROP TABLE users'')]"
    by (simp_all add: neon_sql_POST_def createNeonClientFromIntegration_def
        neon_only_integration_def run)
  have 3: "fst (planetscale_sql_POST (world_with planetscale_only_integration) demo_state) =
     Json (Success (SqlQueryPayload [] 0 5 0)) 200"
    "filter is_remote_call
     (trace (snd (planetscale_sql_POST (world_with planetscale_only_integration) demo_state))) =
     [RemoteCall (PlanetScaleClient (ascii ''aws.connect.psdb.cloud'') (ascii ''ps-user'')
                    (ascii ''ps-password''))
        (RawSql ''DROP TABLE users'')]"
    by (simp_all add: planetscale_sql_POST_def createPlanetScaleClientFromIntegration_def
        planetscale_only_integration_def run)
  have 4: "fst (turso_sql_POST (world_with turso_only_integration) demo_state) =
     Json (Success (SqlQueryPayload [] 0 5 1)) 200"
    "filter is_remote_call (trace (snd (turso_sql_POST (world_with turso_only_integration) demo_state))) =
     [RemoteCall (TursoClient (ascii ''libsql://t.turso.io'') (ascii ''turso-token''))
        (Execute ''DROP TABLE users'' [])]"
    by (simp_all add: turso_sql_POST_def createTursoClientFromIntegration_def
        turso_only_integration_def run)
  have 5: "fst (neon_sql_POST (world_with empty_integration) demo_state) =
     Json (Failure ''QUERY_ERROR'' ''Neon connection string not configured'') 400"
    "filter is_remote_call (trace (snd (neon_sql_POST (world_with empty_integration) demo_state))) = []"
    by (simp_all add: neon_sql_POST_def createNeonClientFromIntegration_def run)
  from 1 2 3 4 5 show ?thesis by blast
qed

section \<open>Order of the guard checks\<close>

text \<open>
  Claim C4 asks every data operation to check identity, then the rate limit, then
  authorization, before any provider client is touched. The raw-query handlers do so; the
  insert handler of the same route file as the rate-limited \<open>GET\<close> never calls
  \<open>checkRateLimit\<close>. Here user \<open>u1\<close> has used up the window (the guard would answer false,
  and the Neon and Turso raw-query handlers answer 429 in this state), and the insert still
  reaches the backend: the statement is executed, the client closed and the audit entry
  written, all without a rate-limit check. The answer is then 500, because the row id that
  the backend returns is a \<open>bigint\<close>, which the response cannot serialise.
\<close>

theorem turso_rows_POST_skips_rate_limit:
  "checkRateLimit (rateLimitStore saturated_state) (now_ms demo_insert_world) ''u1'' ''turso'' =
     (False, rateLimitStore saturated_state) \<and>
   fst (neon_sql_POST demo_world saturated_state) =
     Json (Failure ''RATE_LIMITED'' ''Too many requests'') 429 \<and>
   fst (turso_sql_POST demo_world saturated_state) =
     Json (Failure ''RATE_LIMITED'' ''Too many requests'') 429 \<and>
   fst (turso_rows_POST demo_insert_world saturated_state) =
     Json (Failure ''INTERNAL_ERROR'' ''Do not know how to serialize a BigInt'') 500 \<and>
   filter is_rate_limit_check (trace (snd (turso_rows_POST demo_insert_world saturated_state))) = [] \<and>
   trace (snd (turso_rows_POST demo_insert_world saturated_state)) =
     [ResolveIdentity,
      Authorize ''u1'' ''turso'',
      ClientCreate (TursoClient (ascii ''libsql://t.turso.io'') (ascii ''turso-token'')),
      RemoteCall (TursoClient (ascii ''libsql://t.turso.io'') (ascii ''turso-token''))
        (Execute (''INSERT INTO '' @ [CHR 0x22] @ ''users'' @ [CHR 0x22] @ '' ('' @
                  [CHR 0x22] @ ''name'' @ [CHR 0x22] @ '') VALUES (?)'') [JString ''Ada'']),
      ClientClose (TursoClient (ascii ''libsql://t.turso.io'') (ascii ''turso-token'')),
      AuditLogged \<lparr>log_userId = ''u1'', log_provider = ''turso'', log_action = ''insert'',
                   log_tableName = Some ''users'', log_status = ''success'',
                   log_errorMessage = None, log_metadata = None\<rparr>]"
proof (intro conjI)
  show "checkRateLimit (rateLimitStore saturated_state) (now_ms demo_insert_world) ''u1'' ''turso'' =
     (False, rateLimitStore saturated_state)"
    by (simp add: checkRateLimit_def saturated_state_def demo_state_def demo_insert_world_def
        demo_world_def RATE_LIMIT_MAX_def)
  show "fst (neon_sql_POST demo_world saturated_state) =
     Json (Failure ''RATE_LIMITED'' ''Too many requests'') 429"
    by (simp add: neon_sql_POST_def try_catch_def exec_simps getCurrentUserId_def
        checkRateLimit_def saturated_state_def demo_state_def demo_world_def
        RATE_LIMIT_MAX_def errorResponse_def)
  show "fst (turso_sql_POST demo_world saturated_state) =
     Json (Failure ''RATE_LIMITED'' ''Too many requests'') 429"
    by (simp add: turso_sql_POST_def try_catch_def exec_simps getCurrentUserId_def
        checkRateLimit_def saturated_state_def demo_state_def demo_world_def
        RATE_LIMIT_MAX_def errorResponse_def)
  have run: "turso_rows_POST demo_insert_world saturated_state =
     (Json (Failure ''INTERNAL_ERROR'' ''Do not know how to serialize a BigInt'') 500,
      saturated_state\<lparr>trace :=
        [ResolveIdentity,
         Authorize ''u1'' ''turso'',
         ClientCreate (TursoClient (ascii ''libsql://t.turso.io'') (ascii ''turso-token'')),
         RemoteCall (TursoClient (ascii ''libsql://t.turso.io'') (ascii ''turso-token''))
           (Execute (''INSERT INTO '' @ [CHR 0x22] @ ''users'' @ [CHR 0x22] @ '' ('' @
                     [CHR 0x22] @ ''name'' @ [CHR 0x22] @ '') VALUES (?)'') [JString ''Ada'']),
         ClientClose (TursoClient (ascii ''libsql://t.turso.io'') (ascii ''turso-token'')),
         AuditLogged \<lparr>log_userId = ''u1'', log_provider = ''turso'', log_action = ''insert'',
                      log_tableName = Some ''users'', log_status = ''success'',
                      log_errorMessage = None, log_metadata = None\<rparr>]\<rparr>)"
    by (simp add: turso_rows_POST_def try_catch_def createTursoClientFromIntegration_def
        exec_simps getCurrentUserId_def validateIntegrationAccess_def body_get_def
        demo_insert_world_def demo_world_def saturated_state_def demo_state_def
        demo_integration_def decrypt_demo_secret demo_secret_nonempty successResponse_def errorResponse_def)
  show "fst (turso_rows_POST demo_insert_world saturated_state) =
     Json (Failure ''INTERNAL_ERROR'' ''Do not know how to serialize a BigInt'') 500"
    by (simp add: run)
  show "filter is_rate_limit_check (trace (snd (turso_rows_POST demo_insert_world saturated_state))) = []"
    by (simp add: run)
  show "trace (snd (turso_rows_POST demo_insert_world saturated_state)) =
     [ResolveIdentity,
      Authorize ''u1'' ''turso'',
      ClientCreate (TursoClient (ascii ''libsql://t.turso.io'') (ascii ''turso-token'')),
      RemoteCall (TursoClient (ascii ''libsql://t.turso.io'') (ascii ''turso-token''))
        (Execute (''INSERT INTO '' @ [CHR 0x22] @ ''users'' @ [CHR 0x22] @ '' ('' @
                  [CHR 0x22] @ ''name'' @ [CHR 0x22] @ '') VALUES (?)'') [JString ''Ada'']),
      ClientClose (TursoClient (ascii ''libsql://t.turso.io'') (ascii ''turso-token'')),
      AuditLogged \<lparr>log_userId = ''u1'', log_provider = ''turso'', log_action = ''insert'',
                   log_tableName = Some ''users'', log_status = ''success'',
                   log_errorMessage = None, log_metadata = None\<rparr>]"
    by (simp add: run)
qed

section \<open>OAuth callback\<close>

text \<open>
  Claim C5, as the code has it. When the stored state is missing or differs from the
  \<open>state\<close> parameter the callback makes no remote call, in particular no token exchange,
  and for a callback that carries a code and a state and no provider error it answers
  with the \<open>invalid_state\<close> redirect. When the state is verified the state cookie is
  cleared.
\<close>

theorem oauth_callback_state_check:
  "((falsy (stored_state s) \<or> stored_state s \<noteq> search_param w ''state'') \<longrightarrow>
      filter is_remote_call (trace (snd (convex_oauth_callback_GET w s))) =
        filter is_remote_call (trace s)) \<and>
   (falsy (search_param w ''error'') \<and> \<not> falsy (search_param w ''code'') \<and>
    \<not> falsy (search_param w ''state'') \<and>
    (falsy (stored_state s) \<or> stored_state s \<noteq> search_param w ''state'') \<longrightarrow>
      fst (convex_oauth_callback_GET w s) =
        Redirect ''/dashboard/integrations/convex?error=invalid_state'') \<and>
   (falsy (search_param w ''error'') \<and> \<not> falsy (search_param w ''code'') \<and>
    \<not> falsy (search_param w ''state'') \<and>
    \<not> falsy (stored_state s) \<and> stored_state s = search_param w ''state'' \<longrightarrow>
      cookieStore (snd (convex_oauth_callback_GET w s)) ''convex_oauth_state'' = None)"
proof (intro conjI impI)
  assume "falsy (stored_state s) \<or> stored_state s \<noteq> search_param w ''state''"
  then show "filter is_remote_call (trace (snd (convex_oauth_callback_GET w s))) =
        filter is_remote_call (trace s)"
    by (auto simp: convex_oauth_callback_GET_def try_catch_def exec_simps stored_state_def)
next
  assume "falsy (search_param w ''error'') \<and> \<not> falsy (search_param w ''code'') \<and>
    \<not> falsy (search_param w ''state'') \<and>
    (falsy (stored_state s) \<or> stored_state s \<noteq> search_param w ''state'')"
  then show "fst (convex_oauth_callback_GET w s) =
        Redirect ''/dashboard/integrations/convex?error=invalid_state''"
    by (auto simp: convex_oauth_callback_GET_def try_catch_def exec_simps stored_state_def)
next
  assume "falsy (search_param w ''error'') \<and> \<not> falsy (search_param w ''code'') \<and>
    \<not> falsy (search_param w ''state'') \<and>
    \<not> falsy (stored_state s) \<and> stored_state s = search_param w ''state''"
  then show "cookieStore (snd (convex_oauth_callback_GET w s)) ''convex_oauth_state'' = None"
    by (simp add: convex_oauth_callback_GET_def try_catch_def exec_simps stored_state_def
        split: sum.splits option.splits)
qed

lemma demo_callback_params:
  "search_param (demo_callback_world st) ''error'' = Null"
  "search_param (demo_callback_world st) ''code'' = Str ''c1''"
  "search_param (demo_callback_world st) ''state'' = Str st"
  "stored_state demo_callback_state = Str ''abc''"
  by (simp_all add: search_param_def stored_state_def demo_callback_world_def
      demo_callback_state_def demo_state_def)

theorem oauth_callback_state_check_witness:
  "filter is_remote_call
     (trace (snd (convex_oauth_callback_GET (demo_callback_world ''xyz'') demo_callback_state))) =
     filter is_remote_call (trace demo_callback_state) \<and>
   fst (convex_oauth_callback_GET (demo_callback_world ''xyz'') demo_callback_state) =
     Redirect ''/dashboard/integrations/convex?error=invalid_state'' \<and>
   cookieStore (snd (convex_oauth_callback_GET (demo_callback_world ''abc'') demo_callback_state))
     ''convex_oauth_state'' = None"
  using oauth_callback_state_check[of demo_callback_state "demo_callback_world ''xyz''"]
    oauth_callback_state_check[of demo_callback_state "demo_callback_world ''abc''"]
  by (simp add: demo_callback_params)

text \<open>
  The claim as stated fails on the failure path: after a callback whose \<open>state\<close> does not
  match, the state cookie still holds its value and no cookie deletion has happened.
\<close>

theorem oauth_state_mismatch_keeps_cookie_counterexample:
  "fst (convex_oauth_callback_GET (demo_callback_world ''xyz'') demo_callback_state) =
     Redirect ''/dashboard/integrations/convex?error=invalid_state'' \<and>
   cookieStore (snd (convex_oauth_callback_GET (demo_callback_world ''xyz'') demo_callback_state))
     ''convex_oauth_state'' = Some ''abc'' \<and>
   trace (snd (convex_oauth_callback_GET (demo_callback_world ''xyz'') demo_callback_state)) = []"
  by (simp add: convex_oauth_callback_GET_def try_catch_def exec_simps search_param_def
      demo_callback_world_def demo_callback_state_def demo_state_def demo_world_def)

section \<open>Pagination\<close>

subsection \<open>Reading a decimal number\<close>

lemma decimal_unfold:
  "decimal n = (if n < 10 then [hexdigit n] else decimal (n div 10) @ [hexdigit (n mod 10)])"
  by (rule decimal.simps)

lemma hexdigit_decimal: "d < 10 \<Longrightarrow> (of_char (hexdigit d) :: nat) = 48 + d"
proof -
  assume "d < 10"
  then have "d \<in> {0,1,2,3,4,5,6,7,8,9}"
    by (simp add: eval_nat_numeral less_Suc_eq)
  then show ?thesis
    by (auto simp: hexdigit_def)
qed

lemma is_digit_hexdigit: "d < 10 \<Longrightarrow> is_digit (hexdigit d)"
  by (simp add: is_digit_def hexdigit_decimal)

lemma decimal_digits: "\<forall>c \<in> set (decimal n). is_digit c"
proof (induction n rule: decimal.induct)
  case (1 n)
  show ?case
  proof (cases "n < 10")
    case True
    then show ?thesis by (subst decimal_unfold) (simp add: is_digit_hexdigit)
  next
    case False
    then show ?thesis using 1 by (subst decimal_unfold) (simp add: is_digit_hexdigit)
  qed
qed

lemma decimal_nonempty: "decimal n \<noteq> []"
  by (subst decimal_unfold) simp

lemma digits_value_snoc:
  "digits_value (ds @ [c]) = 10 * digits_value ds + ((of_char c :: nat) - 48)"
  by (simp add: digits_value_def)

lemma digits_value_decimal: "digits_value (decimal n) = n"
proof (induction n rule: decimal.induct)
  case (1 n)
  show ?case
  proof (cases "n < 10")
    case True
    then show ?thesis
      by (subst decimal_unfold) (simp add: digits_value_def hexdigit_decimal)
  next
    case False
    then have "digits_value (decimal (n div 10)) = n div 10" using 1 by simp
    with False show ?thesis
      by (subst decimal_unfold) (simp add: digits_value_snoc hexdigit_decimal)
  qed
qed

lemma digit_plain:
  assumes "is_digit c"
  shows "\<not> is_js_space c" "c \<noteq> CHR ''-''" "c \<noteq> CHR ''+''"
  using assms by (auto simp: is_digit_def is_js_space_def)

lemma hd_decimal_digit: "is_digit (hd (decimal n))"
  using decimal_digits[of n] decimal_nonempty[of n] by (cases "decimal n") simp_all

lemma takeWhile_decimal: "takeWhile is_digit (decimal n) = decimal n"
  using decimal_digits[of n] by (simp add: takeWhile_eq_all_conv)

lemma dropWhile_decimal: "dropWhile is_js_space (decimal n) = decimal n"
  using hd_decimal_digit[of n] decimal_nonempty[of n]
  by (cases "decimal n") (simp_all add: digit_plain)

lemma parseInt_decimal: "parseInt (decimal n) = num_of_int (int n)"
  using hd_decimal_digit[of n]
  by (simp add: parseInt_def Let_def dropWhile_decimal takeWhile_decimal decimal_nonempty
      digits_value_decimal digit_plain)

lemma parseInt_minus_decimal: "parseInt (CHR ''-'' # decimal n) = num_of_int (- int n)"
  by (simp add: parseInt_def Let_def is_js_space_def takeWhile_decimal decimal_nonempty
      digits_value_decimal)

lemma parseInt_tracked: "parseInt str \<noteq> Untracked"
  by (simp add: parseInt_def Let_def num_of_int_def)

lemma num_of_int_small: "\<bar>n\<bar> \<le> 2 ^ 53 \<Longrightarrow> num_of_int n = Num n"
  by (simp add: num_of_int_def)

lemma Math_min_100:
  "Math_min x (Num 100) = Num l \<Longrightarrow> l \<le> 100"
  "Math_min x (Num 100) = NaN \<longleftrightarrow> x = NaN"
  "Math_min x (Num 100) = Huge neg \<longleftrightarrow> neg \<and> x = Huge True"
  "Math_min x (Num 100) = Untracked \<longleftrightarrow> x = Untracked"
  by (cases x, auto split: if_splits)+

lemma Math_min_num_of_int: "0 \<le> n \<Longrightarrow> Math_min (num_of_int n) (Num 100) = Num (min n 100)"
  by (simp add: num_of_int_def)

lemma parseInt_25: "parseInt ''25'' = Num 25"
  by code_simp

lemma parseInt_1: "parseInt ''1'' = Num 1"
  by code_simp

lemma js_mul_NaN: "js_mul x NaN = NaN" "js_mul NaN y = NaN" "js_sub NaN y = NaN"
  by (cases x) simp_all

text \<open>
  Claim C8, as the code has it. In every handler the limit is
  \<open>Math.min(parseInt(limit ?? "25", 10), 100)\<close> and the page is
  \<open>parseInt(page ?? "1", 10)\<close>, taken as it is, with no lower bound. So the limit is 25 when
  none is supplied, \<open>min(n, 100)\<close> for a supplied decimal \<open>n\<close>, the supplied value itself
  when that is a negative integer (down to \<open>-2^53\<close>), and \<open>NaN\<close> exactly when \<open>parseInt\<close>
  of the supplied text is; it is never a number above 100. The page is 1 when none is
  supplied and the supplied integer (up to \<open>2^53\<close> in magnitude) otherwise, also when that
  is below 1. The Turso, Neon and PlanetScale
  handlers compute the offset \<open>(page - 1) * limit\<close>, which is that integer as long as
  \<open>page - 1\<close> and the product stay within \<open>2^53\<close> in magnitude (the range in which the
  doubles of the code are exact), and \<open>NaN\<close> when the page or the limit is. The Supabase
  handler computes the same value as the start of a range that ends at
  \<open>from + limit - 1\<close>. The Convex handler computes page and limit only, no offset, and
  sends the limit unless it is 0 or \<open>NaN\<close>.
\<close>

theorem queryRows_pagination_bounds:
  "limit (turso_rows_pagination sp) =
     Math_min (parseInt (nullish_or (sp ''limit'') ''25'')) (Num 100) \<and>
   page (turso_rows_pagination sp) = parseInt (nullish_or (sp ''page'') ''1'') \<and>
   (sp ''limit'' = None \<longrightarrow> limit (turso_rows_pagination sp) = Num 25) \<and>
   (\<forall>n. sp ''limit'' = Some (decimal n) \<longrightarrow>
      limit (turso_rows_pagination sp) = Num (min (int n) 100)) \<and>
   (\<forall>n. sp ''limit'' = Some (CHR ''-'' # decimal n) \<and> int n \<le> 2 ^ 53 \<longrightarrow>
      limit (turso_rows_pagination sp) = Num (- int n)) \<and>
   (limit (turso_rows_pagination sp) = NaN \<longleftrightarrow>
      parseInt (nullish_or (sp ''limit'') ''25'') = NaN) \<and>
   (\<forall>l. limit (turso_rows_pagination sp) = Num l \<longrightarrow> l \<le> 100) \<and>
   limit (turso_rows_pagination sp) \<noteq> Huge False \<and>
   limit (turso_rows_pagination sp) \<noteq> Untracked \<and>
   (sp ''page'' = None \<longrightarrow> page (turso_rows_pagination sp) = Num 1) \<and>
   (\<forall>n. sp ''page'' = Some (decimal n) \<and> int n \<le> 2 ^ 53 \<longrightarrow>
      page (turso_rows_pagination sp) = Num (int n)) \<and>
   (\<forall>n. sp ''page'' = Some (CHR ''-'' # decimal n) \<and> int n \<le> 2 ^ 53 \<longrightarrow>
      page (turso_rows_pagination sp) = Num (- int n)) \<and>
   (\<forall>p l. page (turso_rows_pagination sp) = Num p \<and> limit (turso_rows_pagination sp) = Num l \<and>
          \<bar>p - 1\<bar> \<le> 2 ^ 53 \<and> \<bar>(p - 1) * l\<bar> \<le> 2 ^ 53 \<longrightarrow>
      offset (turso_rows_pagination sp) = Num ((p - 1) * l)) \<and>
   (page (turso_rows_pagination sp) = NaN \<or> limit (turso_rows_pagination sp) = NaN \<longrightarrow>
      offset (turso_rows_pagination sp) = NaN) \<and>
   neon_rows_pagination sp = turso_rows_pagination sp \<and>
   planetscale_rows_pagination sp = turso_rows_pagination sp \<and>
   range_page (supabase_rows_pagination sp) = page (turso_rows_pagination sp) \<and>
   range_limit (supabase_rows_pagination sp) = limit (turso_rows_pagination sp) \<and>
   range_from (supabase_rows_pagination sp) = offset (turso_rows_pagination sp) \<and>
   (\<forall>f l. range_from (supabase_rows_pagination sp) = Num f \<and> range_limit (supabase_rows_pagination sp) = Num l \<and>
          \<bar>f + l\<bar> \<le> 2 ^ 53 \<and> \<bar>f + l - 1\<bar> \<le> 2 ^ 53 \<longrightarrow>
      range_to (supabase_rows_pagination sp) = Num (f + l - 1)) \<and>
   convex_page (convex_documents_pagination sp) = page (turso_rows_pagination sp) \<and>
   convex_limit (convex_documents_pagination sp) = limit (turso_rows_pagination sp) \<and>
   numItems (convex_documents_pagination sp) =
     (if limit (turso_rows_pagination sp) = NaN \<or> limit (turso_rows_pagination sp) = Num 0 then None
      else Some (limit (turso_rows_pagination sp)))"
proof (intro conjI)
  show "limit (turso_rows_pagination sp) =
       Math_min (parseInt (nullish_or (sp ''limit'') ''25'')) (Num 100)"
    by (simp add: turso_rows_pagination_def neon_rows_pagination_def planetscale_rows_pagination_def
      supabase_rows_pagination_def convex_documents_pagination_def request_page_def
      request_limit_def Let_def)
  show "page (turso_rows_pagination sp) = parseInt (nullish_or (sp ''page'') ''1'')"
    by (simp add: turso_rows_pagination_def neon_rows_pagination_def planetscale_rows_pagination_def
      supabase_rows_pagination_def convex_documents_pagination_def request_page_def
      request_limit_def Let_def)
  show "(sp ''limit'' = None \<longrightarrow> limit (turso_rows_pagination sp) = Num 25)"
    by (simp add: turso_rows_pagination_def neon_rows_pagination_def planetscale_rows_pagination_def
      supabase_rows_pagination_def convex_documents_pagination_def request_page_def
      request_limit_def Let_def nullish_or_def parseInt_25)
  show "(\<forall>n. sp ''limit'' = Some (decimal n) \<longrightarrow>
        limit (turso_rows_pagination sp) = Num (min (int n) 100))"
    by (simp add: turso_rows_pagination_def neon_rows_pagination_def planetscale_rows_pagination_def
      supabase_rows_pagination_def convex_documents_pagination_def request_page_def
      request_limit_def Let_def nullish_or_def parseInt_decimal Math_min_num_of_int)
  show "(\<forall>n. sp ''limit'' = Some (CHR ''-'' # decimal n) \<and> int n \<le> 2 ^ 53 \<longrightarrow>
        limit (turso_rows_pagination sp) = Num (- int n))"
    by (simp add: turso_rows_pagination_def neon_rows_pagination_def planetscale_rows_pagination_def
      supabase_rows_pagination_def convex_documents_pagination_def request_page_def
      request_limit_def Let_def nullish_or_def parseInt_minus_decimal num_of_int_small)
  show "(limit (turso_rows_pagination sp) = NaN \<longleftrightarrow>
        parseInt (nullish_or (sp ''limit'') ''25'') = NaN)"
    by (simp add: turso_rows_pagination_def neon_rows_pagination_def planetscale_rows_pagination_def
      supabase_rows_pagination_def convex_documents_pagination_def request_page_def
      request_limit_def Let_def Math_min_100)
  show "(\<forall>l. limit (turso_rows_pagination sp) = Num l \<longrightarrow> l \<le> 100)"
    by (simp add: turso_rows_pagination_def neon_rows_pagination_def planetscale_rows_pagination_def
      supabase_rows_pagination_def convex_documents_pagination_def request_page_def
      request_limit_def Let_def Math_min_100)
  show "limit (turso_rows_pagination sp) \<noteq> Huge False"
    by (simp add: turso_rows_pagination_def neon_rows_pagination_def planetscale_rows_pagination_def
      supabase_rows_pagination_def convex_documents_pagination_def request_page_def
      request_limit_def Let_def Math_min_100)
  show "limit (turso_rows_pagination sp) \<noteq> Untracked"
    by (simp add: turso_rows_pagination_def neon_rows_pagination_def planetscale_rows_pagination_def
      supabase_rows_pagination_def convex_documents_pagination_def request_page_def
      request_limit_def Let_def Math_min_100 parseInt_tracked)
  show "(sp ''page'' = None \<longrightarrow> page (turso_rows_pagination sp) = Num 1)"
    by (simp add: turso_rows_pagination_def neon_rows_pagination_def planetscale_rows_pagination_def
      supabase_rows_pagination_def convex_documents_pagination_def request_page_def
      request_limit_def Let_def nullish_or_def parseInt_1)
  show "(\<forall>n. sp ''page'' = Some (decimal n) \<and> int n \<le> 2 ^ 53 \<longrightarrow>
        page (turso_rows_pagination sp) = Num (int n))"
    by (simp add: turso_rows_pagination_def neon_rows_pagination_def planetscale_rows_pagination_def
      supabase_rows_pagination_def convex_documents_pagination_def request_page_def
      request_limit_def Let_def nullish_or_def parseInt_decimal num_of_int_small)
  show "(\<forall>n. sp ''page'' = Some (CHR ''-'' # decimal n) \<and> int n \<le> 2 ^ 53 \<longrightarrow>
        page (turso_rows_pagination sp) = Num (- int n))"
    by (simp add: turso_rows_pagination_def neon_rows_pagination_def planetscale_rows_pagination_def
      supabase_rows_pagination_def convex_documents_pagination_def request_page_def
      request_limit_def Let_def nullish_or_def parseInt_minus_decimal num_of_int_small)
  show "(\<forall>p l. page (turso_rows_pagination sp) = Num p \<and> limit (turso_rows_pagination sp) = Num l \<and>
            \<bar>p - 1\<bar> \<le> 2 ^ 53 \<and> \<bar>(p - 1) * l\<bar> \<le> 2 ^ 53 \<longrightarrow>
        offset (turso_rows_pagination sp) = Num ((p - 1) * l))"
    by (simp add: turso_rows_pagination_def neon_rows_pagination_def planetscale_rows_pagination_def
      supabase_rows_pagination_def convex_documents_pagination_def request_page_def
      request_limit_def Let_def num_if_exact_def)
  show "(page (turso_rows_pagination sp) = NaN \<or> limit (turso_rows_pagination sp) = NaN \<longrightarrow>
        offset (turso_rows_pagination sp) = NaN)"
    by (auto simp: turso_rows_pagination_def neon_rows_pagination_def planetscale_rows_pagination_def
      supabase_rows_pagination_def convex_documents_pagination_def request_page_def
      request_limit_def Let_def js_mul_NaN)
  show "neon_rows_pagination sp = turso_rows_pagination sp"
    by (simp add: turso_rows_pagination_def neon_rows_pagination_def planetscale_rows_pagination_def
      supabase_rows_pagination_def convex_documents_pagination_def request_page_def
      request_limit_def Let_def)
  show "planetscale_rows_pagination sp = turso_rows_pagination sp"
    by (simp add: turso_rows_pagination_def neon_rows_pagination_def planetscale_rows_pagination_def
      supabase_rows_pagination_def convex_documents_pagination_def request_page_def
      request_limit_def Let_def)
  show "range_page (supabase_rows_pagination sp) = page (turso_rows_pagination sp)"
    by (simp add: turso_rows_pagination_def neon_rows_pagination_def planetscale_rows_pagination_def
      supabase_rows_pagination_def convex_documents_pagination_def request_page_def
      request_limit_def Let_def)
  show "range_limit (supabase_rows_pagination sp) = limit (turso_rows_pagination sp)"
    by (simp add: turso_rows_pagination_def neon_rows_pagination_def planetscale_rows_pagination_def
      supabase_rows_pagination_def convex_documents_pagination_def request_page_def
      request_limit_def Let_def)
  show "range_from (supabase_rows_pagination sp) = offset (turso_rows_pagination sp)"
    by (simp add: turso_rows_pagination_def neon_rows_pagination_def planetscale_rows_pagination_def
      supabase_rows_pagination_def convex_documents_pagination_def request_page_def
      request_limit_def Let_def)
  show "(\<forall>f l. range_from (supabase_rows_pagination sp) = Num f \<and> range_limit (supabase_rows_pagination sp) = Num l \<and>
            \<bar>f + l\<bar> \<le> 2 ^ 53 \<and> \<bar>f + l - 1\<bar> \<le> 2 ^ 53 \<longrightarrow>
        range_to (supabase_rows_pagination sp) = Num (f + l - 1))"
    by (auto simp: turso_rows_pagination_def neon_rows_pagination_def planetscale_rows_pagination_def
      supabase_rows_pagination_def convex_documents_pagination_def request_page_def
      request_limit_def Let_def num_if_exact_def)
  show "convex_page (convex_documents_pagination sp) = page (turso_rows_pagination sp)"
    by (simp add: turso_rows_pagination_def neon_rows_pagination_def planetscale_rows_pagination_def
      supabase_rows_pagination_def convex_documents_pagination_def request_page_def
      request_limit_def Let_def)
  show "convex_limit (convex_documents_pagination sp) = limit (turso_rows_pagination sp)"
    by (simp add: turso_rows_pagination_def neon_rows_pagination_def planetscale_rows_pagination_def
      supabase_rows_pagination_def convex_documents_pagination_def request_page_def
      request_limit_def Let_def)
  show "numItems (convex_documents_pagination sp) =
       (if limit (turso_rows_pagination sp) = NaN \<or> limit (turso_rows_pagination sp) = Num 0 then None
        else Some (limit (turso_rows_pagination sp)))"
    by (cases "request_limit sp") (simp_all add: turso_rows_pagination_def
        convex_documents_pagination_def request_page_def Let_def)
qed

lemma decimal_examples:
  "decimal 3 = ''3''" "decimal 500 = ''500''" "decimal 2 = ''2''" "decimal 7 = ''7''"
  by code_simp+

lemma parseInt_abc: "parseInt ''abc'' = NaN"
  by code_simp

theorem queryRows_pagination_bounds_witness:
  "limit (turso_rows_pagination [''page'' \<mapsto> ''3'', ''limit'' \<mapsto> ''500'']) = Num 100 \<and>
   page (turso_rows_pagination [''page'' \<mapsto> ''3'', ''limit'' \<mapsto> ''500'']) = Num 3 \<and>
   offset (turso_rows_pagination [''page'' \<mapsto> ''3'', ''limit'' \<mapsto> ''500'']) = Num 200 \<and>
   offset (neon_rows_pagination [''page'' \<mapsto> ''3'', ''limit'' \<mapsto> ''500'']) = Num 200 \<and>
   offset (planetscale_rows_pagination [''page'' \<mapsto> ''3'', ''limit'' \<mapsto> ''500'']) = Num 200 \<and>
   range_from (supabase_rows_pagination [''page'' \<mapsto> ''3'', ''limit'' \<mapsto> ''500'']) = Num 200 \<and>
   range_to (supabase_rows_pagination [''page'' \<mapsto> ''3'', ''limit'' \<mapsto> ''500'']) = Num 299 \<and>
   numItems (convex_documents_pagination [''page'' \<mapsto> ''3'', ''limit'' \<mapsto> ''500'']) =
     Some (Num 100) \<and>
   limit (turso_rows_pagination Map.empty) = Num 25 \<and>
   page (turso_rows_pagination Map.empty) = Num 1 \<and>
   offset (turso_rows_pagination Map.empty) = Num 0 \<and>
   page (turso_rows_pagination [''page'' \<mapsto> ''-2'', ''limit'' \<mapsto> ''abc'']) = Num (- 2) \<and>
   limit (turso_rows_pagination [''page'' \<mapsto> ''-2'', ''limit'' \<mapsto> ''abc'']) = NaN \<and>
   offset (turso_rows_pagination [''page'' \<mapsto> ''-2'', ''limit'' \<mapsto> ''abc'']) = NaN \<and>
   numItems (convex_documents_pagination [''page'' \<mapsto> ''-2'', ''limit'' \<mapsto> ''abc'']) = None \<and>
   limit (turso_rows_pagination [''limit'' \<mapsto> ''-7'']) = Num (- 7)"
proof -
  let ?sp1 = "[''page'' \<mapsto> ''3'', ''limit'' \<mapsto> ''500'']"
  let ?sp2 = "[''page'' \<mapsto> ''-2'', ''limit'' \<mapsto> ''abc'']"
  let ?sp3 = "[''limit'' \<mapsto> ''-7'']"
  note T0 = queryRows_pagination_bounds[of Map.empty]
  note T1 = queryRows_pagination_bounds[of ?sp1]
  note T2 = queryRows_pagination_bounds[of ?sp2]
  note T3 = queryRows_pagination_bounds[of ?sp3]
  have l1: "limit (turso_rows_pagination ?sp1) = Num 100"
  proof -
    from T1 have "?sp1 ''limit'' = Some (decimal 500) \<longrightarrow>
        limit (turso_rows_pagination ?sp1) = Num (min (int 500) 100)"
      by blast
    then show ?thesis by (simp add: decimal_examples)
  qed
  have p1: "page (turso_rows_pagination ?sp1) = Num 3"
  proof -
    from T1 have "?sp1 ''page'' = Some (decimal 3) \<and> int 3 \<le> 2 ^ 53 \<longrightarrow>
        page (turso_rows_pagination ?sp1) = Num (int 3)"
      by blast
    then show ?thesis by (simp add: decimal_examples)
  qed
  have o1: "offset (turso_rows_pagination ?sp1) = Num 200"
  proof -
    from T1 have "page (turso_rows_pagination ?sp1) = Num 3 \<and>
        limit (turso_rows_pagination ?sp1) = Num 100 \<and>
        \<bar>3 - 1 :: int\<bar> \<le> 2 ^ 53 \<and> \<bar>(3 - 1) * 100 :: int\<bar> \<le> 2 ^ 53 \<longrightarrow>
        offset (turso_rows_pagination ?sp1) = Num ((3 - 1) * 100)"
      by blast
    then show ?thesis by (simp add: l1 p1)
  qed
  have n1: "offset (neon_rows_pagination ?sp1) = Num 200"
    "offset (planetscale_rows_pagination ?sp1) = Num 200"
  proof -
    from T1 have "neon_rows_pagination ?sp1 = turso_rows_pagination ?sp1"
      "planetscale_rows_pagination ?sp1 = turso_rows_pagination ?sp1"
      by blast+
    then show "offset (neon_rows_pagination ?sp1) = Num 200"
      "offset (planetscale_rows_pagination ?sp1) = Num 200"
      by (simp_all add: o1)
  qed
  have f1: "range_from (supabase_rows_pagination ?sp1) = Num 200"
    "range_limit (supabase_rows_pagination ?sp1) = Num 100"
  proof -
    from T1 have "range_from (supabase_rows_pagination ?sp1) = offset (turso_rows_pagination ?sp1)"
      "range_limit (supabase_rows_pagination ?sp1) = limit (turso_rows_pagination ?sp1)"
      by blast+
    then show "range_from (supabase_rows_pagination ?sp1) = Num 200"
      "range_limit (supabase_rows_pagination ?sp1) = Num 100"
      by (simp_all add: o1 l1)
  qed
  have t1: "range_to (supabase_rows_pagination ?sp1) = Num 299"
  proof -
    from T1 have "range_from (supabase_rows_pagination ?sp1) = Num 200 \<and>
        range_limit (supabase_rows_pagination ?sp1) = Num 100 \<and>
        \<bar>200 + 100 :: int\<bar> \<le> 2 ^ 53 \<and> \<bar>200 + 100 - 1 :: int\<bar> \<le> 2 ^ 53 \<longrightarrow>
        range_to (supabase_rows_pagination ?sp1) = Num (200 + 100 - 1)"
      by blast
    then show ?thesis by (simp add: f1)
  qed
  have c1: "numItems (convex_documents_pagination ?sp1) = Some (Num 100)"
  proof -
    from T1 have "numItems (convex_documents_pagination ?sp1) =
        (if limit (turso_rows_pagination ?sp1) = NaN \<or> limit (turso_rows_pagination ?sp1) = Num 0
         then None else Some (limit (turso_rows_pagination ?sp1)))"
      by blast
    then show ?thesis by (simp add: l1)
  qed
  have l0: "limit (turso_rows_pagination Map.empty) = Num 25"
    "page (turso_rows_pagination Map.empty) = Num 1"
  proof -
    from T0 have "Map.empty ''limit'' = (None :: string option) \<longrightarrow>
        limit (turso_rows_pagination Map.empty) = Num 25"
      "Map.empty ''page'' = (None :: string option) \<longrightarrow>
        page (turso_rows_pagination Map.empty) = Num 1"
      by blast+
    then show "limit (turso_rows_pagination Map.empty) = Num 25"
      "page (turso_rows_pagination Map.empty) = Num 1"
      by simp_all
  qed
  have o0: "offset (turso_rows_pagination Map.empty) = Num 0"
  proof -
    from T0 have "page (turso_rows_pagination Map.empty) = Num 1 \<and>
        limit (turso_rows_pagination Map.empty) = Num 25 \<and>
        \<bar>1 - 1 :: int\<bar> \<le> 2 ^ 53 \<and> \<bar>(1 - 1) * 25 :: int\<bar> \<le> 2 ^ 53 \<longrightarrow>
        offset (turso_rows_pagination Map.empty) = Num ((1 - 1) * 25)"
      by blast
    then show ?thesis by (simp add: l0)
  qed
  have p2: "page (turso_rows_pagination ?sp2) = Num (- 2)"
  proof -
    from T2 have "?sp2 ''page'' = Some (CHR ''-'' # decimal 2) \<and> int 2 \<le> 2 ^ 53 \<longrightarrow>
        page (turso_rows_pagination ?sp2) = Num (- int 2)"
      by blast
    then show ?thesis by (simp add: decimal_examples)
  qed
  have l2: "limit (turso_rows_pagination ?sp2) = NaN"
  proof -
    from T2 have "limit (turso_rows_pagination ?sp2) = NaN \<longleftrightarrow>
        parseInt (nullish_or (?sp2 ''limit'') ''25'') = NaN"
      by blast
    then show ?thesis by (simp add: nullish_or_def parseInt_abc)
  qed
  have o2: "offset (turso_rows_pagination ?sp2) = NaN"
  proof -
    from T2 have "page (turso_rows_pagination ?sp2) = NaN \<or>
        limit (turso_rows_pagination ?sp2) = NaN \<longrightarrow>
        offset (turso_rows_pagination ?sp2) = NaN"
      by blast
    then show ?thesis by (simp add: l2)
  qed
  have c2: "numItems (convex_documents_pagination ?sp2) = None"
  proof -
    from T2 have "numItems (convex_documents_pagination ?sp2) =
        (if limit (turso_rows_pagination ?sp2) = NaN \<or> limit (turso_rows_pagination ?sp2) = Num 0
         then None else Some (limit (turso_rows_pagination ?sp2)))"
      by blast
    then show ?thesis by (simp add: l2)
  qed
  have l3: "limit (turso_rows_pagination ?sp3) = Num (- 7)"
  proof -
    from T3 have "?sp3 ''limit'' = Some (CHR ''-'' # decimal 7) \<and> int 7 \<le> 2 ^ 53 \<longrightarrow>
        limit (turso_rows_pagination ?sp3) = Num (- int 7)"
      by blast
    then show ?thesis by (simp add: decimal_examples)
  qed
  from l1 p1 o1 n1 f1 t1 c1 l0 o0 p2 l2 o2 c2 l3 show ?thesis by simp
qed

text \<open>
  The claim as stated fails for a page below 1: page 0 stays page 0, and is not treated as
  page 1. With limit 10 it gives the offset \<open>-10\<close>, and with limit \<open>-100\<close> the offset 100,
  where page 1 gives the offset 0.
\<close>

theorem queryRows_page_zero_counterexample:
  "turso_rows_pagination [''page'' \<mapsto> ''0'', ''limit'' \<mapsto> ''10''] =
     \<lparr>page = Num 0, limit = Num 10, offset = Num (- 10)\<rparr> \<and>
   turso_rows_pagination [''page'' \<mapsto> ''0'', ''limit'' \<mapsto> ''-100''] =
     \<lparr>page = Num 0, limit = Num (- 100), offset = Num 100\<rparr> \<and>
   turso_rows_pagination [''page'' \<mapsto> ''1'', ''limit'' \<mapsto> ''10''] =
     \<lparr>page = Num 1, limit = Num 10, offset = Num 0\<rparr>"
  by code_simp

end
